theory Spec2Isabelle
  imports Main "HOL-Library.Word"
begin

section \<open>The internal debugger of the Mercury tracer\<close>

text \<open>
  The development embeds the command engine of \<^verbatim>\<open>mdb\<close>, the file
  \<^verbatim>\<open>trace/mercury_trace_internal.c\<close>: the tokenizer, alias
  expansion, the command table and its dispatcher, the queue of pending command lines,
  the handlers of \<^verbatim>\<open>fail\<close>, \<^verbatim>\<open>retry\<close>, \<^verbatim>\<open>ignore\<close> and \<^verbatim>\<open>quit\<close>, the
  entry point for an event and the scroll pager. C strings are \<^typ>\<open>string\<close> (the characters before the terminating NUL),
  a \<^verbatim>\<open>char *\<close> that may be \<^verbatim>\<open>NULL\<close> is a \<^typ>\<open>string option\<close>, an array of words
  with its count is a list, and the file-level static variables are the fields of one
  state record that every function takes and returns.
\<close>

subsection \<open>Characters\<close>

definition DOUBLE_QUOTE_CHAR :: char where
  "DOUBLE_QUOTE_CHAR = CHR 0x22"

definition SINGLE_QUOTE_CHAR :: char where
  "SINGLE_QUOTE_CHAR = CHR 0x27"

definition ESCAPE_CHAR :: char where
  "ESCAPE_CHAR = CHR 0x5C"

text \<open>
  Modelled from the spec: \<^verbatim>\<open>MR_isspace\<close> and \<^verbatim>\<open>MR_isdigit\<close> are macros of the
  runtime's headers, which are not part of the file. The spec separates words by
  whitespace and takes digits for numbers; the macros wrap \<^verbatim>\<open>isspace\<close> and
  \<^verbatim>\<open>isdigit\<close> of the C library, taken here in the C locale: space, tab, newline,
  vertical tab, form feed and carriage return are the blanks.
\<close>

definition MR_isspace :: "char \<Rightarrow> bool" where
  "MR_isspace c = (c \<in> set [CHR 0x20, CHR 0x09, CHR 0x0A, CHR 0x0B, CHR 0x0C, CHR 0x0D])"

definition MR_isdigit :: "char \<Rightarrow> bool" where
  "MR_isdigit c = (c \<in> set ''0123456789'')"

definition MR_INIT_WORD_COUNT :: nat where
  "MR_INIT_WORD_COUNT = 20"

definition MR_NUMBER_LEN :: nat where
  "MR_NUMBER_LEN = 80"

lemma special_chars_not_space [simp]:
  "\<not> MR_isspace SINGLE_QUOTE_CHAR" "\<not> MR_isspace DOUBLE_QUOTE_CHAR"
  "\<not> MR_isspace ESCAPE_CHAR"
  by (simp_all add: MR_isspace_def SINGLE_QUOTE_CHAR_def DOUBLE_QUOTE_CHAR_def ESCAPE_CHAR_def)

lemma special_chars_distinct [simp]:
  "SINGLE_QUOTE_CHAR \<noteq> DOUBLE_QUOTE_CHAR" "DOUBLE_QUOTE_CHAR \<noteq> SINGLE_QUOTE_CHAR"
  "SINGLE_QUOTE_CHAR \<noteq> ESCAPE_CHAR" "ESCAPE_CHAR \<noteq> SINGLE_QUOTE_CHAR"
  "DOUBLE_QUOTE_CHAR \<noteq> ESCAPE_CHAR" "ESCAPE_CHAR \<noteq> DOUBLE_QUOTE_CHAR"
  by (simp_all add: SINGLE_QUOTE_CHAR_def DOUBLE_QUOTE_CHAR_def ESCAPE_CHAR_def)

subsection \<open>Breaking a line into words\<close>

text \<open>
  \<^verbatim>\<open>MR_trace_break_off_one_word\<close> scans the line from \<^verbatim>\<open>char_pos\<close> and
  overwrites it in place: \<^verbatim>\<open>lag\<close> counts the characters dropped so far (single quotes
  and escape characters), every kept character is copied \<^verbatim>\<open>lag\<close> places down, and the
  word is closed with a NUL. The write position never passes the read position, so the
  word that results is the sequence of kept characters: the argument \<open>word\<close> below is
  \<^verbatim>\<open>line[start .. char_pos - lag)\<close>, and the list scanned is the line from
  \<^verbatim>\<open>char_pos\<close> on. The result is the error message, or the finished word with the
  line from \<^verbatim>\<open>*new_char_pos_ptr\<close> on. A double quote toggles \<^verbatim>\<open>double_quoted\<close>
  and is copied like an ordinary character (that branch does not increase
  \<^verbatim>\<open>lag\<close>).
\<close>

fun MR_trace_break_off_one_word ::
  "bool \<Rightarrow> bool \<Rightarrow> string \<Rightarrow> string \<Rightarrow> string + string \<times> string" where
  "MR_trace_break_off_one_word single_quoted double_quoted word [] =
     (if single_quoted then Inl ''unmatched single quote''
      else if double_quoted then Inl ''unmatched double quote''
      else Inr (word, []))"
| "MR_trace_break_off_one_word single_quoted double_quoted word (c # rest) =
     (if \<not> single_quoted \<and> \<not> double_quoted \<and> MR_isspace c then Inr (word, rest)
      else if \<not> double_quoted \<and> c = SINGLE_QUOTE_CHAR then
        MR_trace_break_off_one_word (\<not> single_quoted) double_quoted word rest
      else if \<not> single_quoted \<and> c = DOUBLE_QUOTE_CHAR then
        MR_trace_break_off_one_word single_quoted (\<not> double_quoted) (word @ [c]) rest
      else if c = ESCAPE_CHAR then
        (case rest of
           [] \<Rightarrow> Inl ''bad backslash''
         | d # rest' \<Rightarrow>
             MR_trace_break_off_one_word single_quoted double_quoted (word @ [d]) rest')
      else MR_trace_break_off_one_word single_quoted double_quoted (word @ [c]) rest)"

text \<open>
  \<^verbatim>\<open>MR_trace_break_into_words\<close>: each iteration skips blanks, returns the words found
  so far at the end of the line, and otherwise breaks off one word. The argument
  \<open>words\<close> is \<^verbatim>\<open>words[0 .. token_number)\<close>.
\<close>

function break_into_words_loop :: "string list \<Rightarrow> string \<Rightarrow> string + string list" where
  "break_into_words_loop words line =
     (case dropWhile MR_isspace line of
        [] \<Rightarrow> Inr words
      | c # rest \<Rightarrow>
          (case MR_trace_break_off_one_word False False [] (c # rest) of
             Inl problem \<Rightarrow> Inl problem
           | Inr (word, line') \<Rightarrow> break_into_words_loop (words @ [word]) line'))"
  by pat_completeness auto

lemma break_off_one_word_shorter:
  "MR_trace_break_off_one_word sq dq w l = Inr (w', l') \<Longrightarrow> length l' \<le> length l"
proof (induction sq dq w l rule: MR_trace_break_off_one_word.induct)
  case (1 sq dq w)
  then show ?case by (simp split: if_splits)
next
  case (2 sq dq w c rest)
  show ?case
  proof (cases "\<not> sq \<and> \<not> dq \<and> MR_isspace c")
    case True
    with "2.prems" show ?thesis by simp
  next
    case space: False
    show ?thesis
    proof (cases "\<not> dq \<and> c = SINGLE_QUOTE_CHAR")
      case True
      with space "2.prems"
      have "MR_trace_break_off_one_word (\<not> sq) dq w rest = Inr (w', l')"
        by (cases sq; cases dq; simp)
      from "2.IH"(1) [OF space True this] show ?thesis by simp
    next
      case single: False
      show ?thesis
      proof (cases "\<not> sq \<and> c = DOUBLE_QUOTE_CHAR")
        case True
        with space single "2.prems"
        have "MR_trace_break_off_one_word sq (\<not> dq) (w @ [c]) rest = Inr (w', l')"
          by (cases sq; cases dq; simp)
        from "2.IH"(2) [OF space single True this] show ?thesis by simp
      next
        case double: False
        show ?thesis
        proof (cases "c = ESCAPE_CHAR")
          case True
          with space single double "2.prems" obtain d rest' where
            r: "rest = d # rest'" and
            b: "MR_trace_break_off_one_word sq dq (w @ [d]) rest' = Inr (w', l')"
            by (cases rest; cases sq; cases dq; simp)
          from "2.IH"(3) [OF space single double True r b] r show ?thesis by simp
        next
          case False
          with space single double "2.prems"
          have "MR_trace_break_off_one_word sq dq (w @ [c]) rest = Inr (w', l')"
            by (cases sq; cases dq; simp)
          from "2.IH"(4) [OF space single double False this] show ?thesis by simp
        qed
      qed
    qed
  qed
qed

lemma break_off_one_word_consumes:
  assumes "MR_trace_break_off_one_word False False w (c # rest) = Inr (w', l')"
  shows "length l' \<le> length rest"
proof -
  consider (space) "MR_isspace c"
    | (single) "\<not> MR_isspace c" "c = SINGLE_QUOTE_CHAR"
    | (double) "\<not> MR_isspace c" "c \<noteq> SINGLE_QUOTE_CHAR" "c = DOUBLE_QUOTE_CHAR"
    | (escape) "\<not> MR_isspace c" "c \<noteq> SINGLE_QUOTE_CHAR" "c \<noteq> DOUBLE_QUOTE_CHAR"
        "c = ESCAPE_CHAR"
    | (plain) "\<not> MR_isspace c" "c \<noteq> SINGLE_QUOTE_CHAR" "c \<noteq> DOUBLE_QUOTE_CHAR"
        "c \<noteq> ESCAPE_CHAR"
    by blast
  then show ?thesis
  proof cases
    case space
    with assms show ?thesis by simp
  next
    case single
    with assms have "MR_trace_break_off_one_word True False w rest = Inr (w', l')" by simp
    then show ?thesis by (rule break_off_one_word_shorter)
  next
    case double
    with assms have "MR_trace_break_off_one_word False True (w @ [c]) rest = Inr (w', l')"
      by simp
    then show ?thesis by (rule break_off_one_word_shorter)
  next
    case escape
    with assms obtain d rest' where r: "rest = d # rest'"
      and b: "MR_trace_break_off_one_word False False (w @ [d]) rest' = Inr (w', l')"
      by (cases rest) simp_all
    from break_off_one_word_shorter [OF b] r show ?thesis by simp
  next
    case plain
    with assms have "MR_trace_break_off_one_word False False (w @ [c]) rest = Inr (w', l')"
      by simp
    then show ?thesis by (rule break_off_one_word_shorter)
  qed
qed

termination break_into_words_loop
proof (relation "measure (\<lambda>(words, line). length line)")
  show "wf (measure (\<lambda>(words, line). length line))" by simp
next
  fix words :: "string list" and line :: string and c rest x word line'
  assume d: "dropWhile MR_isspace line = c # rest"
    and b: "MR_trace_break_off_one_word False False [] (c # rest) = Inr x"
    and x: "(word, line') = x"
  from b x have "length line' \<le> length rest"
    using break_off_one_word_consumes [of "[]" c rest word line'] by simp
  moreover have "length (c # rest) \<le> length line"
    using length_dropWhile_le [of MR_isspace line] d by simp
  ultimately show "((words @ [word], line'), (words, line))
      \<in> measure (\<lambda>(words, line). length line)"
    by simp
qed

definition MR_trace_break_into_words :: "string \<Rightarrow> string + string list" where
  "MR_trace_break_into_words line = break_into_words_loop [] line"

declare break_into_words_loop.simps [simp del]

subsection \<open>Numbers and the number prefix\<close>

text \<open>
  Modelled from the spec: \<^verbatim>\<open>MR_trace_is_natural_number\<close> is defined elsewhere in the
  trace directory (only its calls are in the file). The spec speaks of a word that is
  ``purely numeric'', ``a natural number'': a nonempty sequence of decimal digits. The
  function also stores the value through its second argument, which is left alone when
  the word is not a number; the value is the decimal reading of the digits. C's
  \<^verbatim>\<open>int\<close> is \<^typ>\<open>int\<close> here: signed overflow is undefined in C, so the model is the
  program as long as the values fit.
\<close>

definition digit_value :: "char \<Rightarrow> int" where
  "digit_value c = int (of_char c) - 48"

definition MR_trace_is_natural_number :: "string \<Rightarrow> int option" where
  "MR_trace_is_natural_number word =
     (if word \<noteq> [] \<and> list_all MR_isdigit word
      then Some (foldl (\<lambda>value c. value * 10 + digit_value c) 0 word)
      else None)"

text \<open>
  Modelled from the spec: \<^verbatim>\<open>MR_ensure_big_enough(slot, base, type, init)\<close> is a
  macro of the runtime's array headers, not part of the file. The spec has the backing
  array of the words grow as needed: the macro makes the array large enough for index
  \<open>slot\<close> to exist (allocating \<open>init\<close> elements at least, the first time). A word
  array is modelled by the list of its slots; what the fresh slots hold is unspecified
  in C, they are empty strings here, and every function below returns only the slots it
  has filled.
\<close>

definition MR_ensure_big_enough :: "nat \<Rightarrow> nat \<Rightarrow> string list \<Rightarrow> string list" where
  "MR_ensure_big_enough slot init words =
     (if slot \<ge> length words
      then words @ replicate (max init (slot + 1) - length words) []
      else words)"

text \<open>
  The loop of \<^verbatim>\<open>MR_trace_parse_line\<close> that copies the digits at the start of the first
  word to \<^verbatim>\<open>count_buf\<close>: \<open>count_buf\<close> is \<^verbatim>\<open>count_buf[0 .. i)\<close> and the string is
  what \<^verbatim>\<open>s\<close> points to.
\<close>

fun copy_number_prefix :: "string \<Rightarrow> string \<Rightarrow> string + string \<times> string" where
  "copy_number_prefix count_buf [] = Inr (count_buf, [])"
| "copy_number_prefix count_buf (c # s) =
     (if MR_isdigit c then
        (if length count_buf \<ge> MR_NUMBER_LEN then Inl ''too large a number''
         else copy_number_prefix (count_buf @ [c]) s)
      else Inr (count_buf, c # s))"

text \<open>
  \<^verbatim>\<open>for (i = raw_word_count; i > 0; i--) raw_words[i] = raw_words[i-1];\<close>
\<close>

fun shift_words_up :: "nat \<Rightarrow> string list \<Rightarrow> string list" where
  "shift_words_up 0 raw_words = raw_words"
| "shift_words_up (Suc i) raw_words =
     shift_words_up i (raw_words[Suc i := raw_words ! i])"

definition separate_number_prefix :: "string list \<Rightarrow> string + string list" where
  "separate_number_prefix raw_words =
     (case raw_words of
        (c # s0) # _ \<Rightarrow>
          (if MR_isdigit c then
             (case copy_number_prefix [] (c # s0) of
                Inl problem \<Rightarrow> Inl problem
              | Inr (count_buf, s) \<Rightarrow>
                  (if s \<noteq> [] then
                     (let raw_word_count = length raw_words;
                          a = MR_ensure_big_enough raw_word_count MR_INIT_WORD_COUNT raw_words;
                          a = shift_words_up raw_word_count a;
                          a = a[0 := count_buf];
                          a = a[1 := s]
                      in Inr (take (raw_word_count + 1) a))
                   else Inr raw_words))
           else Inr raw_words)
      | _ \<Rightarrow> Inr raw_words)"

definition exchange_number_and_command :: "string list \<Rightarrow> string list" where
  "exchange_number_and_command raw_words =
     (if length raw_words > 1 \<and> MR_trace_is_natural_number (raw_words ! 0) \<noteq> None
         \<and> MR_trace_is_natural_number (raw_words ! 1) = None
      then raw_words[0 := raw_words ! 1, 1 := raw_words ! 0]
      else raw_words)"

definition MR_trace_parse_line :: "string \<Rightarrow> string + string list" where
  "MR_trace_parse_line line =
     (case MR_trace_break_into_words line of
        Inl problem \<Rightarrow> Inl problem
      | Inr raw_words \<Rightarrow>
          (case separate_number_prefix raw_words of
             Inl problem \<Rightarrow> Inl problem
           | Inr raw_words' \<Rightarrow> Inr (exchange_number_and_command raw_words')))"

subsection \<open>Errors of the tokenizer\<close>

text \<open>
  What the spec calls an unmatched quote and a lone trailing backslash, written down
  independently of the word splitter: a scan of the whole line that only tracks the
  quotes. A backslash takes the next character with it, whatever that is; a quote of one
  kind opens or closes a quoted stretch unless the scan is inside quotes of the other
  kind. \<open>spec_line_end\<close> says how the line ends: with all quotes closed, inside single
  quotes, inside double quotes, or with a backslash that has nothing after it.
\<close>

datatype line_end = Balanced | Open_Single_Quote | Open_Double_Quote | Lone_Backslash

fun spec_line_end :: "bool \<Rightarrow> bool \<Rightarrow> string \<Rightarrow> line_end" where
  "spec_line_end in_single in_double [] =
     (if in_single then Open_Single_Quote
      else if in_double then Open_Double_Quote
      else Balanced)"
| "spec_line_end in_single in_double (c # cs) =
     (if c = ESCAPE_CHAR then
        (case cs of [] \<Rightarrow> Lone_Backslash | d # ds \<Rightarrow> spec_line_end in_single in_double ds)
      else if c = SINGLE_QUOTE_CHAR \<and> \<not> in_double then
        spec_line_end (\<not> in_single) in_double cs
      else if c = DOUBLE_QUOTE_CHAR \<and> \<not> in_single then
        spec_line_end in_single (\<not> in_double) cs
      else spec_line_end in_single in_double cs)"

definition spec_problem :: "line_end \<Rightarrow> string option" where
  "spec_problem e =
     (case e of
        Balanced \<Rightarrow> None
      | Open_Single_Quote \<Rightarrow> Some ''unmatched single quote''
      | Open_Double_Quote \<Rightarrow> Some ''unmatched double quote''
      | Lone_Backslash \<Rightarrow> Some ''bad backslash'')"

lemma break_off_one_word_line_end:
  "(MR_trace_break_off_one_word sq dq w l = Inl problem \<longrightarrow>
      spec_problem (spec_line_end sq dq l) = Some problem) \<and>
   (MR_trace_break_off_one_word sq dq w l = Inr (w', l') \<longrightarrow>
      spec_line_end sq dq l = spec_line_end False False l')"
proof (induction sq dq w l rule: MR_trace_break_off_one_word.induct)
  case (1 sq dq w)
  show ?case by (auto simp add: spec_problem_def)
next
  case (2 sq dq w c rest)
  consider (space) "\<not> sq" "\<not> dq" "MR_isspace c"
    | (single) "\<not> (\<not> sq \<and> \<not> dq \<and> MR_isspace c)" "\<not> dq \<and> c = SINGLE_QUOTE_CHAR"
    | (double) "\<not> (\<not> sq \<and> \<not> dq \<and> MR_isspace c)" "\<not> (\<not> dq \<and> c = SINGLE_QUOTE_CHAR)"
        "\<not> sq \<and> c = DOUBLE_QUOTE_CHAR"
    | (escape) "\<not> (\<not> sq \<and> \<not> dq \<and> MR_isspace c)" "\<not> (\<not> dq \<and> c = SINGLE_QUOTE_CHAR)"
        "\<not> (\<not> sq \<and> c = DOUBLE_QUOTE_CHAR)" "c = ESCAPE_CHAR"
    | (plain) "\<not> (\<not> sq \<and> \<not> dq \<and> MR_isspace c)" "\<not> (\<not> dq \<and> c = SINGLE_QUOTE_CHAR)"
        "\<not> (\<not> sq \<and> c = DOUBLE_QUOTE_CHAR)" "c \<noteq> ESCAPE_CHAR"
    by blast
  then show ?case
  proof cases
    case space
    then have "c \<noteq> ESCAPE_CHAR" "c \<noteq> SINGLE_QUOTE_CHAR" "c \<noteq> DOUBLE_QUOTE_CHAR"
      by auto
    with space show ?thesis by simp
  next
    case single
    have b: "MR_trace_break_off_one_word sq dq w (c # rest) =
        MR_trace_break_off_one_word (\<not> sq) dq w rest"
      using single by (cases sq; cases dq; simp)
    have s: "spec_line_end sq dq (c # rest) = spec_line_end (\<not> sq) dq rest"
      using single by simp
    show ?thesis unfolding b s by (rule "2.IH"(1) [OF single])
  next
    case double
    have b: "MR_trace_break_off_one_word sq dq w (c # rest) =
        MR_trace_break_off_one_word sq (\<not> dq) (w @ [c]) rest"
      using double by (cases sq; cases dq; simp)
    have s: "spec_line_end sq dq (c # rest) = spec_line_end sq (\<not> dq) rest"
      using double by (cases sq; cases dq; simp)
    show ?thesis unfolding b s by (rule "2.IH"(2) [OF double])
  next
    case escape
    show ?thesis
    proof (cases rest)
      case Nil
      with escape show ?thesis by (cases sq; cases dq; simp add: spec_problem_def)
    next
      case (Cons d rest')
      have b: "MR_trace_break_off_one_word sq dq w (c # rest) =
          MR_trace_break_off_one_word sq dq (w @ [d]) rest'"
        using escape Cons by (cases sq; cases dq; simp)
      have s: "spec_line_end sq dq (c # rest) = spec_line_end sq dq rest'"
        using escape Cons by simp
      show ?thesis unfolding b s by (rule "2.IH"(3) [OF escape Cons])
    qed
  next
    case plain
    have b: "MR_trace_break_off_one_word sq dq w (c # rest) =
        MR_trace_break_off_one_word sq dq (w @ [c]) rest"
      using plain by (cases sq; cases dq; simp)
    have s: "spec_line_end sq dq (c # rest) = spec_line_end sq dq rest"
      using plain by (cases sq; cases dq; simp)
    show ?thesis unfolding b s by (rule "2.IH"(4) [OF plain])
  qed
qed

lemma spec_line_end_skip_blanks:
  "spec_line_end False False (dropWhile MR_isspace l) = spec_line_end False False l"
proof (induction l)
  case Nil
  show ?case by simp
next
  case (Cons c l)
  show ?case
  proof (cases "MR_isspace c")
    case True
    then have "c \<noteq> ESCAPE_CHAR" "c \<noteq> SINGLE_QUOTE_CHAR" "c \<noteq> DOUBLE_QUOTE_CHAR"
      by auto
    with True Cons show ?thesis by simp
  next
    case False
    then show ?thesis by simp
  qed
qed

lemma break_into_words_loop_end:
  "dropWhile MR_isspace line = [] \<Longrightarrow> break_into_words_loop words line = Inr words"
  by (subst break_into_words_loop.simps) (simp only: list.case)

lemma break_into_words_loop_problem:
  "dropWhile MR_isspace line = c # rest \<Longrightarrow>
   MR_trace_break_off_one_word False False [] (c # rest) = Inl problem \<Longrightarrow>
   break_into_words_loop words line = Inl problem"
  by (subst break_into_words_loop.simps) (simp only: list.case sum.case)

lemma break_into_words_loop_word:
  "dropWhile MR_isspace line = c # rest \<Longrightarrow>
   MR_trace_break_off_one_word False False [] (c # rest) = Inr (word, line') \<Longrightarrow>
   break_into_words_loop words line = break_into_words_loop (words @ [word]) line'"
  by (subst break_into_words_loop.simps) (simp only: list.case sum.case prod.case)

lemma break_into_words_loop_line_end:
  "(break_into_words_loop words line = Inl problem \<longrightarrow>
      spec_problem (spec_line_end False False line) = Some problem) \<and>
   (break_into_words_loop words line = Inr ws \<longrightarrow>
      spec_line_end False False line = Balanced)"
proof (induction words line rule: break_into_words_loop.induct)
  case (1 words line)
  show ?case
  proof (cases "dropWhile MR_isspace line")
    case Nil
    from Nil spec_line_end_skip_blanks [of line]
    have "spec_line_end False False line = Balanced" by (simp del: dropWhile_eq_Nil_conv)
    with break_into_words_loop_end [OF Nil] show ?thesis by simp
  next
    case (Cons c rest)
    with spec_line_end_skip_blanks [of line]
    have k: "spec_line_end False False line = spec_line_end False False (c # rest)"
      by simp
    show ?thesis
    proof (cases "MR_trace_break_off_one_word False False [] (c # rest)")
      case (Inl p)
      from Inl break_off_one_word_line_end [of False False "[]" "c # rest" p]
      have "spec_problem (spec_line_end False False (c # rest)) = Some p"
        by simp
      with break_into_words_loop_problem [OF Cons Inl] k show ?thesis by simp
    next
      case (Inr x)
      obtain word line' where x: "x = (word, line')" by (cases x)
      note l = break_into_words_loop_word [OF Cons Inr [unfolded x]]
      from Inr x break_off_one_word_line_end [of False False "[]" "c # rest" _ word line']
      have "spec_line_end False False (c # rest) = spec_line_end False False line'"
        by simp
      with k have e: "spec_line_end False False line = spec_line_end False False line'"
        by simp
      show ?thesis unfolding l e by (rule "1.IH" [OF Cons Inr x [symmetric]])
    qed
  qed
qed

lemma break_into_words_problem:
  assumes "spec_problem (spec_line_end False False line) = Some problem"
  shows "MR_trace_break_into_words line = Inl problem"
proof (cases "break_into_words_loop [] line")
  case (Inl p)
  with break_into_words_loop_line_end [of "[]" line p] assms show ?thesis
    by (simp add: MR_trace_break_into_words_def)
next
  case (Inr ws)
  with break_into_words_loop_line_end [of "[]" line _ ws] assms show ?thesis
    by (simp add: spec_problem_def)
qed

lemma break_into_words_balanced:
  assumes "spec_line_end False False line = Balanced"
  shows "\<exists>words. MR_trace_break_into_words line = Inr words"
proof (cases "break_into_words_loop [] line")
  case (Inl p)
  with break_into_words_loop_line_end [of "[]" line p] assms show ?thesis
    by (simp add: spec_problem_def)
next
  case (Inr ws)
  then show ?thesis by (simp add: MR_trace_break_into_words_def)
qed

lemma parse_line_problem:
  "MR_trace_break_into_words line = Inl problem \<Longrightarrow> MR_trace_parse_line line = Inl problem"
  by (simp add: MR_trace_parse_line_def)

text \<open>
  The line \<^verbatim>\<open>a\<close> followed by two backslashes ends in an escaped backslash: it is
  split into one word, \<^verbatim>\<open>a\<close> and a backslash.
\<close>

lemma escaped_backslash_at_end:
  "spec_line_end False False (''a'' @ [ESCAPE_CHAR, ESCAPE_CHAR]) = Balanced \<and>
   MR_trace_parse_line (''a'' @ [ESCAPE_CHAR, ESCAPE_CHAR]) = Inr [''a'' @ [ESCAPE_CHAR]]"
  by code_simp

text \<open>
  C8. A line that ends inside single quotes makes the word splitter return
  ``unmatched single quote'', one that ends inside double quotes ``unmatched double
  quote'', and one whose last backslash has nothing left to escape ``bad backslash''.
  The result is then the error alone, for \<^verbatim>\<open>MR_trace_break_into_words\<close> and for
  \<^verbatim>\<open>MR_trace_parse_line\<close>: no words are returned. These are the only errors of the
  splitter: a line whose quotes are closed is split into words. A backslash that is
  itself escaped is an ordinary character, also at the end of the line.
\<close>

theorem tokenizer_error_results:
  "(spec_line_end False False line = Open_Single_Quote \<longrightarrow>
      MR_trace_break_into_words line = Inl ''unmatched single quote'' \<and>
      MR_trace_parse_line line = Inl ''unmatched single quote'') \<and>
   (spec_line_end False False line = Open_Double_Quote \<longrightarrow>
      MR_trace_break_into_words line = Inl ''unmatched double quote'' \<and>
      MR_trace_parse_line line = Inl ''unmatched double quote'') \<and>
   (spec_line_end False False line = Lone_Backslash \<longrightarrow>
      MR_trace_break_into_words line = Inl ''bad backslash'' \<and>
      MR_trace_parse_line line = Inl ''bad backslash'') \<and>
   (spec_line_end False False line = Balanced \<longrightarrow>
      (\<exists>words. MR_trace_break_into_words line = Inr words))"
proof (intro conjI impI)
  assume e: "spec_line_end False False line = Open_Single_Quote"
  then show b: "MR_trace_break_into_words line = Inl ''unmatched single quote''"
    by (intro break_into_words_problem) (simp add: spec_problem_def)
  then show "MR_trace_parse_line line = Inl ''unmatched single quote''"
    by (rule parse_line_problem)
next
  assume e: "spec_line_end False False line = Open_Double_Quote"
  then show b: "MR_trace_break_into_words line = Inl ''unmatched double quote''"
    by (intro break_into_words_problem) (simp add: spec_problem_def)
  then show "MR_trace_parse_line line = Inl ''unmatched double quote''"
    by (rule parse_line_problem)
next
  assume e: "spec_line_end False False line = Lone_Backslash"
  then show b: "MR_trace_break_into_words line = Inl ''bad backslash''"
    by (intro break_into_words_problem) (simp add: spec_problem_def)
  then show "MR_trace_parse_line line = Inl ''bad backslash''"
    by (rule parse_line_problem)
next
  assume "spec_line_end False False line = Balanced"
  then show "\<exists>words. MR_trace_break_into_words line = Inr words"
    by (rule break_into_words_balanced)
qed

text \<open>
  The inputs of the witness: \<^verbatim>\<open>abc'\<close>, \<^verbatim>\<open>say "abc\<close>, \<^verbatim>\<open>abc\<close> followed by a
  backslash, and \<^verbatim>\<open>a 'b c'\<close>.
\<close>

theorem tokenizer_error_results_witness:
  "MR_trace_parse_line (''abc'' @ [SINGLE_QUOTE_CHAR]) = Inl ''unmatched single quote'' \<and>
   MR_trace_parse_line (''say '' @ [DOUBLE_QUOTE_CHAR] @ ''abc'') = Inl ''unmatched double quote'' \<and>
   MR_trace_parse_line (''abc'' @ [ESCAPE_CHAR]) = Inl ''bad backslash'' \<and>
   (\<exists>words. MR_trace_break_into_words
      (''a '' @ [SINGLE_QUOTE_CHAR] @ ''b c'' @ [SINGLE_QUOTE_CHAR]) = Inr words)"
proof -
  have 1: "spec_line_end False False (''abc'' @ [SINGLE_QUOTE_CHAR]) = Open_Single_Quote"
    by (simp add: SINGLE_QUOTE_CHAR_def DOUBLE_QUOTE_CHAR_def ESCAPE_CHAR_def)
  have 2: "spec_line_end False False (''say '' @ [DOUBLE_QUOTE_CHAR] @ ''abc'') =
      Open_Double_Quote"
    by (simp add: SINGLE_QUOTE_CHAR_def DOUBLE_QUOTE_CHAR_def ESCAPE_CHAR_def)
  have 3: "spec_line_end False False (''abc'' @ [ESCAPE_CHAR]) = Lone_Backslash"
    by (simp add: SINGLE_QUOTE_CHAR_def DOUBLE_QUOTE_CHAR_def ESCAPE_CHAR_def)
  have 4: "spec_line_end False False
      (''a '' @ [SINGLE_QUOTE_CHAR] @ ''b c'' @ [SINGLE_QUOTE_CHAR]) = Balanced"
    by (simp add: SINGLE_QUOTE_CHAR_def DOUBLE_QUOTE_CHAR_def ESCAPE_CHAR_def)
  from 1 tokenizer_error_results [of "''abc'' @ [SINGLE_QUOTE_CHAR]"]
  have a: "MR_trace_parse_line (''abc'' @ [SINGLE_QUOTE_CHAR]) = Inl ''unmatched single quote''"
    by blast
  from 2 tokenizer_error_results [of "''say '' @ [DOUBLE_QUOTE_CHAR] @ ''abc''"]
  have b: "MR_trace_parse_line (''say '' @ [DOUBLE_QUOTE_CHAR] @ ''abc'') =
      Inl ''unmatched double quote''"
    by blast
  from 3 tokenizer_error_results [of "''abc'' @ [ESCAPE_CHAR]"]
  have c: "MR_trace_parse_line (''abc'' @ [ESCAPE_CHAR]) = Inl ''bad backslash''"
    by blast
  from 4 tokenizer_error_results
    [of "''a '' @ [SINGLE_QUOTE_CHAR] @ ''b c'' @ [SINGLE_QUOTE_CHAR]"]
  have d: "\<exists>words. MR_trace_break_into_words
      (''a '' @ [SINGLE_QUOTE_CHAR] @ ''b c'' @ [SINGLE_QUOTE_CHAR]) = Inr words"
    by blast
  from a b c d show ?thesis by blast
qed

subsection \<open>The number prefix\<close>

text \<open>
  The spec's rule in its own words, on lists: when the first word starts with digits and
  goes on with something else, the digits become a word of their own in front of the
  rest; then a first word that is a natural number changes places with a second word
  that is not. The source does the first with a loop that moves every word one slot up,
  and gives up on a first word with more than \<^verbatim>\<open>MR_NUMBER_LEN\<close> leading digits.
\<close>

definition spec_number_too_large :: "string list \<Rightarrow> bool" where
  "spec_number_too_large words =
     (case words of [] \<Rightarrow> False | w # _ \<Rightarrow> length (takeWhile MR_isdigit w) > MR_NUMBER_LEN)"

definition spec_split_number_prefix :: "string list \<Rightarrow> string list" where
  "spec_split_number_prefix words =
     (case words of
        [] \<Rightarrow> []
      | w # rest \<Rightarrow>
          (let number = takeWhile MR_isdigit w; tail = dropWhile MR_isdigit w
           in if number \<noteq> [] \<and> tail \<noteq> [] then number # tail # rest else words))"

definition spec_swap_number_and_command :: "string list \<Rightarrow> string list" where
  "spec_swap_number_and_command words =
     (case words of
        a # b # rest \<Rightarrow>
          (if MR_trace_is_natural_number a \<noteq> None \<and> MR_trace_is_natural_number b = None
           then b # a # rest else words)
      | _ \<Rightarrow> words)"

lemma copy_number_prefix_eq:
  "copy_number_prefix buf s =
     (if takeWhile MR_isdigit s \<noteq> [] \<and> length buf + length (takeWhile MR_isdigit s) > MR_NUMBER_LEN
      then Inl ''too large a number''
      else Inr (buf @ takeWhile MR_isdigit s, dropWhile MR_isdigit s))"
proof (induction s arbitrary: buf)
  case Nil
  show ?case by simp
next
  case (Cons c s)
  show ?case
  proof (cases "MR_isdigit c")
    case False
    then show ?thesis by simp
  next
    case True
    show ?thesis
    proof (cases "length buf \<ge> MR_NUMBER_LEN")
      case True
      with \<open>MR_isdigit c\<close> show ?thesis by simp
    next
      case False
      with \<open>MR_isdigit c\<close> Cons [of "buf @ [c]"] show ?thesis by auto
    qed
  qed
qed

lemma shift_words_up_eq:
  "n < length a \<Longrightarrow> shift_words_up n a = (a ! 0) # take n a @ drop (Suc n) a"
proof (induction n arbitrary: a)
  case 0
  then show ?case by (cases a) simp_all
next
  case (Suc n)
  let ?a = "a[Suc n := a ! n]"
  from Suc.prems have n: "n < length ?a" by simp
  have "shift_words_up (Suc n) a = shift_words_up n ?a" by simp
  also from Suc.IH [OF n] have "\<dots> = (?a ! 0) # take n ?a @ drop (Suc n) ?a" .
  also have "\<dots> = (a ! 0) # take (Suc n) a @ drop (Suc (Suc n)) a"
  proof -
    have 1: "?a ! 0 = a ! 0" by simp
    have 2: "take n ?a = take n a" by simp
    from Suc.prems have "Suc n < length ?a" by simp
    then have "drop (Suc n) ?a = ?a ! Suc n # drop (Suc (Suc n)) ?a"
      by (rule Cons_nth_drop_Suc [symmetric])
    also from Suc.prems have "\<dots> = a ! n # drop (Suc (Suc n)) a" by simp
    finally have 3: "drop (Suc n) ?a = a ! n # drop (Suc (Suc n)) a" .
    from Suc.prems have 4: "take (Suc n) a = take n a @ [a ! n]"
      by (simp add: take_Suc_conv_app_nth)
    show ?thesis unfolding 1 2 3 4 by simp
  qed
  finally show ?case .
qed

lemma insert_number_word:
  assumes "a = MR_ensure_big_enough (length (w # rest)) MR_INIT_WORD_COUNT (w # rest)"
  shows "take (length (w # rest) + 1) ((shift_words_up (length (w # rest)) a)[0 := x, 1 := y]) =
    x # y # rest"
proof -
  let ?n = "length (w # rest)"
  obtain pad where a: "a = (w # rest) @ pad" and pad: "pad \<noteq> []"
    using assms by (auto simp add: MR_ensure_big_enough_def MR_INIT_WORD_COUNT_def)
  then have n: "?n < length a" by (cases pad) simp_all
  from shift_words_up_eq [OF n] a
  have "shift_words_up ?n a = w # (w # rest) @ drop (Suc ?n) a" by simp
  then show ?thesis by simp
qed

lemma separate_number_prefix_eq:
  "separate_number_prefix words =
     (if spec_number_too_large words then Inl ''too large a number''
      else Inr (spec_split_number_prefix words))"
proof (cases words)
  case Nil
  then show ?thesis
    by (simp add: separate_number_prefix_def spec_number_too_large_def
        spec_split_number_prefix_def)
next
  case (Cons w rest)
  show ?thesis
  proof (cases w)
    case Nil
    with Cons show ?thesis
      by (simp add: separate_number_prefix_def spec_number_too_large_def
          spec_split_number_prefix_def)
  next
    case w: (Cons c s0)
    show ?thesis
    proof (cases "MR_isdigit c")
      case False
      with Cons w show ?thesis
        by (simp add: separate_number_prefix_def spec_number_too_large_def
            spec_split_number_prefix_def)
    next
      case True
      let ?number = "takeWhile MR_isdigit w" and ?tail = "dropWhile MR_isdigit w"
      from True w have number: "?number \<noteq> []" by simp
      show ?thesis
      proof (cases "length ?number > MR_NUMBER_LEN")
        case long: True
        with number w have "copy_number_prefix [] (c # s0) = Inl ''too large a number''"
          by (simp only: copy_number_prefix_eq) simp
        with Cons w True long show ?thesis
          by (simp add: separate_number_prefix_def spec_number_too_large_def)
      next
        case short: False
        with w have c: "copy_number_prefix [] (c # s0) = Inr (?number, ?tail)"
          by (simp only: copy_number_prefix_eq) simp
        show ?thesis
        proof (cases "?tail = []")
          case True
          with Cons w \<open>MR_isdigit c\<close> short c show ?thesis
            by (simp add: separate_number_prefix_def spec_number_too_large_def
                spec_split_number_prefix_def)
        next
          case False
          have "separate_number_prefix (w # rest) =
            Inr (take (length (w # rest) + 1)
              ((shift_words_up (length (w # rest))
                 (MR_ensure_big_enough (length (w # rest)) MR_INIT_WORD_COUNT (w # rest)))
               [0 := ?number, 1 := ?tail]))"
            using w \<open>MR_isdigit c\<close> c False
            by (simp add: separate_number_prefix_def Let_def)
          also have "\<dots> = Inr (?number # ?tail # rest)"
            by (simp only: insert_number_word [OF refl])
          finally show ?thesis
            using Cons short False number
            by (simp add: spec_number_too_large_def spec_split_number_prefix_def Let_def)
        qed
      qed
    qed
  qed
qed

lemma exchange_number_and_command_eq:
  "exchange_number_and_command words = spec_swap_number_and_command words"
proof (cases words)
  case Nil
  then show ?thesis
    by (simp add: exchange_number_and_command_def spec_swap_number_and_command_def)
next
  case (Cons a rest)
  then show ?thesis
    by (cases rest)
      (simp_all add: exchange_number_and_command_def spec_swap_number_and_command_def)
qed

text \<open>
  C7. After word splitting, unless the first word starts with more than
  \<^verbatim>\<open>MR_NUMBER_LEN\<close> (80) digits, a numeric prefix of the first word is split off as a
  word of its own, and then a first word that is a natural number and a second word that
  is not are exchanged, so that the command word comes first. A line whose first word
  starts with more than 80 digits is refused with the message
  \<^verbatim>\<open>too large a number\<close>, whether or not the word goes on after the digits. In
  particular the lines \<^verbatim>\<open>3 step\<close> and \<^verbatim>\<open>step 3\<close> (and \<^verbatim>\<open>3step\<close>) all give the
  words \<^verbatim>\<open>step\<close>, \<^verbatim>\<open>3\<close>: that is the witness.
\<close>

theorem parse_line_number_prefix:
  "MR_trace_parse_line line =
     (case MR_trace_break_into_words line of
        Inl problem \<Rightarrow> Inl problem
      | Inr words \<Rightarrow>
          (if spec_number_too_large words then Inl ''too large a number''
           else Inr (spec_swap_number_and_command (spec_split_number_prefix words))))"
  by (simp add: MR_trace_parse_line_def separate_number_prefix_eq
      exchange_number_and_command_eq split: sum.splits)

theorem parse_line_number_prefix_witness:
  "MR_trace_parse_line ''3 step'' = Inr [''step'', ''3''] \<and>
   MR_trace_parse_line ''step 3'' = Inr [''step'', ''3''] \<and>
   MR_trace_parse_line ''3step'' = Inr [''step'', ''3'']"
proof -
  have 1: "MR_trace_break_into_words ''3 step'' = Inr [''3'', ''step'']" by code_simp
  have 2: "MR_trace_break_into_words ''step 3'' = Inr [''step'', ''3'']" by code_simp
  have 3: "MR_trace_break_into_words ''3step'' = Inr [''3step'']" by code_simp
  have a: "spec_swap_number_and_command (spec_split_number_prefix [''3'', ''step'']) = [''step'', ''3'']"
    by code_simp
  have b: "spec_swap_number_and_command (spec_split_number_prefix [''step'', ''3'']) = [''step'', ''3'']"
    by code_simp
  have c: "spec_swap_number_and_command (spec_split_number_prefix [''3step'']) = [''step'', ''3'']"
    by code_simp
  have d: "\<not> spec_number_too_large [''3'', ''step'']" "\<not> spec_number_too_large [''step'', ''3'']"
    "\<not> spec_number_too_large [''3step'']"
    by code_simp+
  show ?thesis
    using parse_line_number_prefix [of "''3 step''"]
      parse_line_number_prefix [of "''step 3''"]
      parse_line_number_prefix [of "''3step''"]
    by (simp only: 1 2 3 a b c d sum.case if_False simp_thms)
qed

text \<open>
  Without the bound the rule fails: the line of a number of 81 digits and the word
  \<^verbatim>\<open>step\<close> splits into these two words, a natural number and a command, which the
  rule would exchange; \<^verbatim>\<open>MR_trace_parse_line\<close> returns the error instead, from the
  test \<^verbatim>\<open>i >= MR_NUMBER_LEN\<close> in its copying loop.
\<close>

theorem parse_line_number_prefix_counterexample:
  "MR_trace_break_into_words (replicate 81 (CHR ''1'') @ '' step'') =
     Inr [replicate 81 (CHR ''1''), ''step''] \<and>
   spec_swap_number_and_command (spec_split_number_prefix [replicate 81 (CHR ''1''), ''step'']) =
     [''step'', replicate 81 (CHR ''1'')] \<and>
   MR_trace_parse_line (replicate 81 (CHR ''1'') @ '' step'') = Inl ''too large a number'' \<and>
   MR_trace_parse_line (replicate 81 (CHR ''1'') @ '' step'') \<noteq>
     Inr [''step'', replicate 81 (CHR ''1'')]"
proof -
  have 1: "MR_trace_break_into_words (replicate 81 (CHR ''1'') @ '' step'') =
     Inr [replicate 81 (CHR ''1''), ''step'']"
    by code_simp
  have 2: "spec_swap_number_and_command
      (spec_split_number_prefix [replicate 81 (CHR ''1''), ''step'']) =
     [''step'', replicate 81 (CHR ''1'')]"
    by code_simp
  have 3: "MR_trace_parse_line (replicate 81 (CHR ''1'') @ '' step'') =
     Inl ''too large a number''"
    by code_simp
  from 1 2 3 show ?thesis by simp
qed

section \<open>The debugger's state\<close>

text \<open>
  The static variables of the file that the modelled functions read or write, the
  debugger's three streams, and the two tables kept by other files of the trace
  directory and the runtime (aliases, spy points, the event counter). \<open>MR_line_queue\<close> is the singly linked list from
  \<^verbatim>\<open>MR_line_head\<close> to \<^verbatim>\<open>MR_line_tail\<close>. \<open>mdb_in\<close> is what is left to read on
  \<^verbatim>\<open>MR_mdb_in\<close>, one element per line, the empty list being end of input;
  \<open>mdb_out\<close> and \<open>mdb_err\<close> are what was written to the other two, in order.
\<close>

datatype MR_Next = KEEP_INTERACTING | STOP_INTERACTING

datatype MR_Trace_Print_Level = MR_PRINT_LEVEL_NONE | MR_PRINT_LEVEL_SOME | MR_PRINT_LEVEL_ALL

datatype MR_Spy_Ignore_When = MR_SPY_DONT_IGNORE | MR_SPY_IGNORE_INTERFACE | MR_SPY_IGNORE_ENTRY

record MR_Spy_Point =
  spy_exists :: bool
  spy_enabled :: bool
  spy_ignore_when :: MR_Spy_Ignore_When
  spy_ignore_count :: int

type_synonym alias_table = "string \<rightharpoonup> string list"

record mdb_state =
  MR_line_queue :: "string list"
  mdb_in :: "string list"
  mdb_out :: "string list"
  mdb_err :: "string list"
  MR_echo_commands :: bool
  MR_trace_internal_interacting :: bool
  MR_scroll_control :: bool
  MR_scroll_limit :: int
  MR_scroll_next :: int
  MR_default_print_level :: MR_Trace_Print_Level
  MR_current_cmd_category :: "string option"
  MR_current_cmd_name :: "string option"
  MR_alias_records :: alias_table
  MR_spy_points :: "MR_Spy_Point list"
  MR_most_recent_spy_point :: int
  MR_trace_event_number :: "64 word"

definition newline :: string where
  "newline = [CHR 0x0A]"

definition fprintf :: "string \<Rightarrow> string list \<Rightarrow> string list" where
  "fprintf text stream = stream @ [text]"

section \<open>Alias expansion\<close>

text \<open>
  Modelled from the spec: \<^verbatim>\<open>MR_trace_lookup_alias\<close> and \<^verbatim>\<open>MR_trace_add_alias\<close> are
  defined in another file of the trace directory; the file only calls them. The spec's
  alias table is a ``mapping from alias key to an ordered sequence of replacement
  words'': looking a key up gives the replacement words of the alias of that name, if
  there is one, and adding an alias binds the name to the words given.
\<close>

definition MR_trace_lookup_alias :: "alias_table \<Rightarrow> string \<Rightarrow> string list option" where
  "MR_trace_lookup_alias aliases name = aliases name"

definition MR_trace_add_alias :: "string \<Rightarrow> string list \<Rightarrow> alias_table \<Rightarrow> alias_table" where
  "MR_trace_add_alias name words aliases = aliases(name \<mapsto> words)"

text \<open>
  \<^verbatim>\<open>MR_trace_expand_aliases\<close>. The two loops are folds over their index ranges, the
  first one downwards:
  \<^verbatim>\<open>for (i = *word_count - 1; i >= alias_copy_start; i--)\<close> and
  \<^verbatim>\<open>for (i = 0; i < alias_word_count; i++)\<close>. The index
  \<^verbatim>\<open>i + alias_word_count - alias_copy_start\<close> and the new word count are never
  negative (\<^verbatim>\<open>alias_copy_start\<close> is 1 only when there is a word and
  \<^verbatim>\<open>i >= 1\<close>), so the natural numbers compute what the \<^verbatim>\<open>int\<close>s do.
\<close>

definition MR_trace_expand_aliases :: "alias_table \<Rightarrow> string list \<Rightarrow> string list" where
  "MR_trace_expand_aliases aliases words =
     (let word_count = length words;
          (alias_key, alias_copy_start) =
            (if word_count = 0 then (''EMPTY'', 0)
             else if MR_trace_is_natural_number (words ! 0) \<noteq> None then (''NUMBER'', 0)
             else (words ! 0, 1))
      in case MR_trace_lookup_alias aliases alias_key of
           Some alias_words \<Rightarrow>
             (let alias_word_count = length alias_words;
                  a = MR_ensure_big_enough (word_count + alias_word_count)
                        MR_INIT_WORD_COUNT words;
                  a = fold (\<lambda>i a. a[i + alias_word_count - alias_copy_start := a ! i])
                        (rev [alias_copy_start..<word_count]) a;
                  a = fold (\<lambda>i a. a[i := alias_words ! i]) [0..<alias_word_count] a
              in take (word_count + alias_word_count - alias_copy_start) a)
         | None \<Rightarrow> words)"

section \<open>The command table and the dispatcher\<close>

text \<open>
  An entry of \<^verbatim>\<open>MR_trace_command_infos\<close>: the category, the name and the handler, each
  of which is \<^verbatim>\<open>NULL\<close> in some entry. A handler is represented by the name of the C
  function. The argument strings and the completer of an entry serve completion only and
  are left out.
\<close>

record MR_Trace_Command_Info =
  MR_cmd_category :: "string option"
  MR_cmd_name :: "string option"
  MR_cmd_function :: "string option"

definition command_info ::
  "string option \<times> string option \<times> string option \<Rightarrow> MR_Trace_Command_Info" where
  "command_info e =
     (case e of (category, name, function) \<Rightarrow>
        \<lparr>MR_cmd_category = category, MR_cmd_name = name, MR_cmd_function = function\<rparr>)"

definition MR_trace_command_infos :: "MR_Trace_Command_Info list" where
  "MR_trace_command_infos = map command_info
    [(Some ''forward'', Some ''step'', Some ''MR_trace_cmd_step''),
     (Some ''forward'', Some ''goto'', Some ''MR_trace_cmd_goto''),
     (Some ''forward'', Some ''next'', Some ''MR_trace_cmd_next''),
     (Some ''forward'', Some ''finish'', Some ''MR_trace_cmd_finish''),
     (Some ''forward'', Some ''exception'', Some ''MR_trace_cmd_exception''),
     (Some ''forward'', Some ''return'', Some ''MR_trace_cmd_return''),
     (Some ''forward'', Some ''forward'', Some ''MR_trace_cmd_forward''),
     (Some ''forward'', Some ''mindepth'', Some ''MR_trace_cmd_mindepth''),
     (Some ''forward'', Some ''maxdepth'', Some ''MR_trace_cmd_maxdepth''),
     (Some ''forward'', Some ''continue'', Some ''MR_trace_cmd_continue''),
     (Some ''backward'', Some ''retry'', Some ''MR_trace_cmd_retry''),
     (Some ''browsing'', Some ''level'', Some ''MR_trace_cmd_level''),
     (Some ''browsing'', Some ''up'', Some ''MR_trace_cmd_up''),
     (Some ''browsing'', Some ''down'', Some ''MR_trace_cmd_down''),
     (Some ''browsing'', Some ''vars'', Some ''MR_trace_cmd_vars''),
     (Some ''browsing'', Some ''held_vars'', Some ''MR_trace_cmd_held_vars''),
     (Some ''browsing'', Some ''print'', Some ''MR_trace_cmd_print''),
     (Some ''browsing'', Some ''browse'', Some ''MR_trace_cmd_browse''),
     (Some ''browsing'', Some ''stack'', Some ''MR_trace_cmd_stack''),
     (Some ''browsing'', Some ''current'', Some ''MR_trace_cmd_current''),
     (Some ''browsing'', Some ''view'', Some ''MR_trace_cmd_view''),
     (Some ''browsing'', Some ''hold'', Some ''MR_trace_cmd_hold''),
     (Some ''browsing'', Some ''diff'', Some ''MR_trace_cmd_diff''),
     (Some ''browsing'', Some ''dump'', Some ''MR_trace_cmd_dump''),
     (Some ''browsing'', Some ''list'', Some ''MR_trace_cmd_list''),
     (Some ''browsing'', Some ''push_list_dir'', Some ''MR_trace_cmd_push_list_dir''),
     (Some ''browsing'', Some ''pop_list_dir'', Some ''MR_trace_cmd_pop_list_dir''),
     (Some ''breakpoint'', Some ''break'', Some ''MR_trace_cmd_break''),
     (Some ''breakpoint'', Some ''condition'', Some ''MR_trace_cmd_condition''),
     (Some ''breakpoint'', Some ''ignore'', Some ''MR_trace_cmd_ignore''),
     (Some ''breakpoint'', Some ''break_print'', Some ''MR_trace_cmd_break_print''),
     (Some ''breakpoint'', Some ''enable'', Some ''MR_trace_cmd_enable''),
     (Some ''breakpoint'', Some ''disable'', Some ''MR_trace_cmd_disable''),
     (Some ''breakpoint'', Some ''delete'', Some ''MR_trace_cmd_delete''),
     (Some ''breakpoint'', Some ''register'', Some ''MR_trace_cmd_register''),
     (Some ''breakpoint'', Some ''modules'', Some ''MR_trace_cmd_modules''),
     (Some ''breakpoint'', Some ''procedures'', Some ''MR_trace_cmd_procedures''),
     (Some ''queries'', Some ''query'', Some ''MR_trace_cmd_query''),
     (Some ''queries'', Some ''cc_query'', Some ''MR_trace_cmd_cc_query''),
     (Some ''queries'', Some ''io_query'', Some ''MR_trace_cmd_io_query''),
     (Some ''table_io'', Some ''table_io'', Some ''MR_trace_cmd_table_io''),
     (Some ''parameter'', Some ''printlevel'', Some ''MR_trace_cmd_printlevel''),
     (Some ''parameter'', Some ''mmc_options'', Some ''MR_trace_cmd_mmc_options''),
     (Some ''parameter'', Some ''scroll'', Some ''MR_trace_cmd_scroll''),
     (Some ''parameter'', Some ''stack_default_limit'', Some ''MR_trace_cmd_stack_default_limit''),
     (Some ''parameter'', Some ''context'', Some ''MR_trace_cmd_context''),
     (Some ''parameter'', Some ''goal_paths'', Some ''MR_trace_cmd_goal_paths''),
     (Some ''parameter'', Some ''scope'', Some ''MR_trace_cmd_scope''),
     (Some ''parameter'', Some ''echo'', Some ''MR_trace_cmd_echo''),
     (Some ''parameter'', Some ''alias'', Some ''MR_trace_cmd_alias''),
     (Some ''parameter'', Some ''unalias'', Some ''MR_trace_cmd_unalias''),
     (Some ''help'', Some ''document_category'', Some ''MR_trace_cmd_document_category''),
     (Some ''help'', Some ''document'', Some ''MR_trace_cmd_document''),
     (Some ''help'', Some ''help'', Some ''MR_trace_cmd_help''),
     (Some ''dd'', Some ''dd'', Some ''MR_trace_cmd_dd''),
     (Some ''dd'', Some ''trust'', Some ''MR_trace_cmd_trust''),
     (Some ''dd'', Some ''untrust'', Some ''MR_trace_cmd_untrust''),
     (Some ''dd'', Some ''trusted'', Some ''MR_trace_cmd_trusted''),
     (Some ''misc'', Some ''set'', Some ''MR_trace_cmd_set''),
     (Some ''misc'', Some ''source'', Some ''MR_trace_cmd_source''),
     (Some ''misc'', Some ''save'', Some ''MR_trace_cmd_save''),
     (Some ''misc'', Some ''quit'', Some ''MR_trace_cmd_quit''),
     (Some ''exp'', Some ''histogram_all'', Some ''MR_trace_cmd_histogram_all''),
     (Some ''exp'', Some ''histogram_exp'', Some ''MR_trace_cmd_histogram_exp''),
     (Some ''exp'', Some ''clear_histogram'', Some ''MR_trace_cmd_clear_histogram''),
     (Some ''exp'', Some ''dice'', Some ''MR_trace_cmd_dice''),
     (Some ''developer'', Some ''var_details'', Some ''MR_trace_cmd_var_details''),
     (Some ''developer'', Some ''term_size'', Some ''MR_trace_cmd_term_size''),
     (Some ''developer'', Some ''flag'', Some ''MR_trace_cmd_flag''),
     (Some ''developer'', Some ''subgoal'', Some ''MR_trace_cmd_subgoal''),
     (Some ''developer'', Some ''consumer'', Some ''MR_trace_cmd_consumer''),
     (Some ''developer'', Some ''gen_stack'', Some ''MR_trace_cmd_gen_stack''),
     (Some ''developer'', Some ''cut_stack'', Some ''MR_trace_cmd_cut_stack''),
     (Some ''developer'', Some ''pneg_stack'', Some ''MR_trace_cmd_pneg_stack''),
     (Some ''developer'', Some ''mm_stacks'', Some ''MR_trace_cmd_mm_stacks''),
     (Some ''developer'', Some ''nondet_stack'', Some ''MR_trace_cmd_nondet_stack''),
     (Some ''developer'', Some ''stack_regs'', Some ''MR_trace_cmd_stack_regs''),
     (Some ''developer'', Some ''all_regs'', Some ''MR_trace_cmd_all_regs''),
     (Some ''developer'', Some ''debug_vars'', Some ''MR_trace_cmd_debug_vars''),
     (Some ''developer'', Some ''stats'', Some ''MR_trace_cmd_stats''),
     (Some ''developer'', Some ''print_optionals'', Some ''MR_trace_cmd_print_optionals''),
     (Some ''developer'', Some ''unhide_events'', Some ''MR_trace_cmd_unhide_events''),
     (Some ''developer'', Some ''table'', Some ''MR_trace_cmd_table''),
     (Some ''developer'', Some ''type_ctor'', Some ''MR_trace_cmd_type_ctor''),
     (Some ''developer'', Some ''class_decl'', Some ''MR_trace_cmd_class_decl''),
     (Some ''developer'', Some ''all_type_ctors'', Some ''MR_trace_cmd_all_type_ctors''),
     (Some ''developer'', Some ''all_class_decls'', Some ''MR_trace_cmd_all_class_decls''),
     (Some ''developer'', Some ''all_procedures'', Some ''MR_trace_cmd_all_procedures''),
     (Some ''developer'', Some ''ambiguity'', Some ''MR_trace_cmd_ambiguity''),
     (None, Some ''NUMBER'', None),
     (None, Some ''EMPTY'', None),
     (None, None, None)]"

text \<open>
  \<^verbatim>\<open>MR_trace_valid_command\<close>: the loop runs over the entries until the one whose name
  is \<^verbatim>\<open>NULL\<close>.
\<close>

fun valid_command_loop ::
  "MR_Trace_Command_Info list \<Rightarrow> string \<Rightarrow> MR_Trace_Command_Info option" where
  "valid_command_loop [] word = None"
| "valid_command_loop (info # infos) word =
     (case MR_cmd_name info of
        None \<Rightarrow> None
      | Some name \<Rightarrow> if name = word then Some info else valid_command_loop infos word)"

definition MR_trace_valid_command :: "string \<Rightarrow> MR_Trace_Command_Info option" where
  "MR_trace_valid_command word = valid_command_loop MR_trace_command_infos word"

text \<open>
  What \<^verbatim>\<open>MR_trace_handle_cmd\<close> and \<^verbatim>\<open>MR_trace_debug_cmd\<close> come to: they return
  without calling a handler, or they call the handler of an entry with the words, in the
  state reached; the result of the handler is then their result. The handler of an
  entry is called through its function pointer whatever it is: for a null pointer that is
  a call through \<^verbatim>\<open>NULL\<close>, which no C program survives.
\<close>

datatype dispatch =
    Returned MR_Next mdb_state
  | Handler_Called string "string list" mdb_state
  | Null_Function_Called "string list" mdb_state

text \<open>
  \<^verbatim>\<open>MR_trace_handle_cmd\<close> is called with at least one word
  (\<^verbatim>\<open>MR_trace_debug_cmd\<close> tests \<^verbatim>\<open>word_count == 0\<close> first).
\<close>

fun MR_trace_handle_cmd :: "string list \<Rightarrow> mdb_state \<Rightarrow> dispatch" where
  "MR_trace_handle_cmd (word0 # words) st =
     (case MR_trace_valid_command word0 of
        Some cmd_info \<Rightarrow>
          (let st = st\<lparr>MR_current_cmd_category := MR_cmd_category cmd_info,
                        MR_current_cmd_name := MR_cmd_name cmd_info\<rparr>
           in case MR_cmd_function cmd_info of
                Some function \<Rightarrow> Handler_Called function (word0 # words) st
              | None \<Rightarrow> Null_Function_Called (word0 # words) st)
      | None \<Rightarrow>
          Returned KEEP_INTERACTING
            (st\<lparr>mdb_err := fprintf (''Unknown command `'' @ word0 @ [CHR 0x27]
               @ ''. Give the command `help'' @ [CHR 0x27] @ '' for help.'' @ newline)
               (mdb_err st)\<rparr>))"

definition MR_trace_debug_cmd :: "string \<Rightarrow> mdb_state \<Rightarrow> dispatch" where
  "MR_trace_debug_cmd line st =
     (case MR_trace_parse_line line of
        Inl problem \<Rightarrow>
          Returned KEEP_INTERACTING
            (st\<lparr>mdb_err := fprintf (problem @ ''.'' @ newline) (mdb_err st)\<rparr>)
      | Inr words \<Rightarrow>
          (let words = MR_trace_expand_aliases (MR_alias_records st) words
           in if length words = 0 then Returned KEEP_INTERACTING st
              else MR_trace_handle_cmd words st))"

text \<open>
  The initial values of the static variables; the input is what \<^verbatim>\<open>MR_mdb_in\<close> will
  deliver. No alias and no spy point exists before a command creates one.
\<close>

definition mdb_initial_state :: "string list \<Rightarrow> mdb_state" where
  "mdb_initial_state input =
     \<lparr>MR_line_queue = [], mdb_in = input, mdb_out = [], mdb_err = [],
      MR_echo_commands = False, MR_trace_internal_interacting = False,
      MR_scroll_control = True, MR_scroll_limit = 24, MR_scroll_next = 0,
      MR_default_print_level = MR_PRINT_LEVEL_SOME,
      MR_current_cmd_category = None, MR_current_cmd_name = None,
      MR_alias_records = Map.empty, MR_spy_points = [], MR_most_recent_spy_point = - 1,
      MR_trace_event_number = 0\<rparr>"

section \<open>Properties of alias expansion and dispatch\<close>

text \<open>
  The spec's words for alias expansion: the key is \<^verbatim>\<open>EMPTY\<close> for no words,
  \<^verbatim>\<open>NUMBER\<close> when word one is a natural number, and word one otherwise; word one is
  consumed in the last case only.
\<close>

definition spec_alias_key :: "string list \<Rightarrow> string" where
  "spec_alias_key words =
     (case words of
        [] \<Rightarrow> ''EMPTY''
      | word1 # _ \<Rightarrow> if MR_trace_is_natural_number word1 \<noteq> None then ''NUMBER'' else word1)"

definition spec_words_consumed :: "string list \<Rightarrow> nat" where
  "spec_words_consumed words =
     (case words of
        [] \<Rightarrow> 0
      | word1 # _ \<Rightarrow> if MR_trace_is_natural_number word1 \<noteq> None then 0 else 1)"

lemma move_words_up:
  "acs \<le> n \<Longrightarrow> n + k \<le> length a \<Longrightarrow>
   fold (\<lambda>i a. a[i + k := a ! i]) (rev [acs..<n]) a =
     take (acs + k) a @ drop acs (take n a) @ drop (n + k) a"
proof (induction n arbitrary: a)
  case 0
  then show ?case by simp
next
  case (Suc n)
  show ?case
  proof (cases "acs = Suc n")
    case True
    then show ?thesis by simp
  next
    case False
    with Suc.prems have acs: "acs \<le> n" by simp
    let ?a = "a[n + k := a ! n]"
    from Suc.prems have len: "n + k \<le> length ?a" by simp
    from acs have "fold (\<lambda>i a. a[i + k := a ! i]) (rev [acs..<Suc n]) a =
        fold (\<lambda>i a. a[i + k := a ! i]) (rev [acs..<n]) ?a"
      by simp
    also from Suc.IH [OF acs len]
    have "\<dots> = take (acs + k) ?a @ drop acs (take n ?a) @ drop (n + k) ?a" .
    also have "\<dots> = take (acs + k) a @ drop acs (take (Suc n) a) @ drop (Suc n + k) a"
    proof -
      from acs have 1: "take (acs + k) ?a = take (acs + k) a" by simp
      have 2: "take n ?a = take n a" by simp
      from Suc.prems have "n + k < length ?a" by simp
      then have "drop (n + k) ?a = ?a ! (n + k) # drop (Suc (n + k)) ?a"
        by (rule Cons_nth_drop_Suc [symmetric])
      also from Suc.prems have "\<dots> = a ! n # drop (Suc n + k) a" by simp
      finally have 3: "drop (n + k) ?a = a ! n # drop (Suc n + k) a" .
      from Suc.prems have 4: "take (Suc n) a = take n a @ [a ! n]"
        by (simp add: take_Suc_conv_app_nth)
      from Suc.prems acs have 5: "drop acs (take n a @ [a ! n]) = drop acs (take n a) @ [a ! n]"
        by simp
      show ?thesis unfolding 1 2 3 4 5 by simp
    qed
    finally show ?thesis .
  qed
qed

lemma copy_alias_words:
  "m \<le> length body \<Longrightarrow> m \<le> length a \<Longrightarrow>
   fold (\<lambda>i a. a[i := body ! i]) [0..<m] a = take m body @ drop m a"
proof (induction m)
  case 0
  show ?case by simp
next
  case (Suc m)
  then have IH: "fold (\<lambda>i a. a[i := body ! i]) [0..<m] a = take m body @ drop m a"
    by simp
  from Suc.prems have 1: "take (Suc m) body = take m body @ [body ! m]"
    by (simp add: take_Suc_conv_app_nth)
  from Suc.prems have "m < length a" by simp
  then have 2: "drop m a = a ! m # drop (Suc m) a"
    by (rule Cons_nth_drop_Suc [symmetric])
  from Suc.prems have 3: "length (take m body) = m" by simp
  have "fold (\<lambda>i a. a[i := body ! i]) [0..<Suc m] a = (take m body @ drop m a)[m := body ! m]"
    by (simp add: IH)
  also have "\<dots> = take (Suc m) body @ drop (Suc m) a"
    unfolding 1 2 using 3 by (simp add: list_update_append)
  finally show ?case .
qed

lemma splice_alias_words:
  assumes "acs \<le> length words" "acs \<le> length body"
  shows "(let word_count = length words;
              alias_word_count = length body;
              a = MR_ensure_big_enough (word_count + alias_word_count) MR_INIT_WORD_COUNT words;
              a = fold (\<lambda>i a. a[i + alias_word_count - acs := a ! i]) (rev [acs..<word_count]) a;
              a = fold (\<lambda>i a. a[i := body ! i]) [0..<alias_word_count] a
          in take (word_count + alias_word_count - acs) a) = body @ drop acs words"
proof -
  let ?n = "length words" and ?m = "length body"
  let ?k = "?m - acs"
  let ?a = "MR_ensure_big_enough (?n + ?m) MR_INIT_WORD_COUNT words"
  obtain pad where a: "?a = words @ pad" and pad: "?n + ?m < length (words @ pad)"
    by (auto simp add: MR_ensure_big_enough_def)
  have f: "(\<lambda>i a. a[i + ?m - acs := a ! i]) = (\<lambda>i (a :: string list). a[i + ?k := a ! i])"
    using assms by (intro ext) simp
  let ?b = "fold (\<lambda>i a. a[i + ?k := a ! i]) (rev [acs..<?n]) ?a"
  from assms pad a have "?n + ?k \<le> length ?a" by simp
  from move_words_up [OF assms(1) this]
  have b: "?b = take (acs + ?k) ?a @ drop acs (take ?n ?a) @ drop (?n + ?k) ?a" .
  from assms have k: "acs + ?k = ?m" by simp
  from a have t: "take ?n ?a = words" by simp
  from pad a have la: "?m \<le> length ?a" by simp
  have b': "?b = take ?m ?a @ drop acs words @ drop (?n + ?k) ?a"
    using b unfolding k t .
  then have lb: "?m \<le> length ?b" using la by simp
  from copy_alias_words [OF le_refl lb]
  have c: "fold (\<lambda>i a. a[i := body ! i]) [0..<?m] ?b = body @ drop ?m ?b" by simp
  from b' la have d: "drop ?m ?b = drop acs words @ drop (?n + ?k) ?a" by simp
  have "take (?n + ?m - acs) (body @ drop acs words @ drop (?n + ?k) ?a) = body @ drop acs words"
    using assms by simp
  then show ?thesis
    unfolding Let_def f c d .
qed

lemma expand_aliases_splices:
  assumes "MR_trace_lookup_alias aliases (spec_alias_key words) \<noteq> Some []"
  shows "MR_trace_expand_aliases aliases words =
     (case MR_trace_lookup_alias aliases (spec_alias_key words) of
        None \<Rightarrow> words
      | Some body \<Rightarrow> body @ drop (spec_words_consumed words) words)"
proof (cases "MR_trace_lookup_alias aliases (spec_alias_key words)")
  case None
  then show ?thesis
    by (cases words) (auto simp add: MR_trace_expand_aliases_def spec_alias_key_def)
next
  case (Some body)
  with assms have body: "body \<noteq> []" by auto
  show ?thesis
  proof (cases words)
    case Nil
    with Some have "MR_trace_lookup_alias aliases ''EMPTY'' = Some body"
      by (simp add: spec_alias_key_def)
    with Nil Some splice_alias_words [of 0 "[]" body] show ?thesis
      by (simp add: MR_trace_expand_aliases_def spec_words_consumed_def)
  next
    case (Cons word1 rest)
    show ?thesis
    proof (cases "MR_trace_is_natural_number word1 \<noteq> None")
      case True
      with Cons Some have "MR_trace_lookup_alias aliases ''NUMBER'' = Some body"
        by (simp add: spec_alias_key_def)
      with Cons Some True splice_alias_words [of 0 words body] show ?thesis
        by (simp add: MR_trace_expand_aliases_def spec_words_consumed_def)
    next
      case False
      with Cons Some have l: "MR_trace_lookup_alias aliases word1 = Some body"
        by (simp add: spec_alias_key_def)
      from body have "1 \<le> length body" by (cases body) simp_all
      with Cons Some False l splice_alias_words [of 1 words body] show ?thesis
        by (simp add: MR_trace_expand_aliases_def spec_words_consumed_def)
    qed
  qed
qed

lemma parse_line_s: "MR_trace_parse_line ''s'' = Inr [''s'']"
  by code_simp

lemma parse_line_step: "MR_trace_parse_line ''step'' = Inr [''step'']"
  by code_simp

lemma valid_command_step:
  "MR_trace_valid_command ''step'' =
     Some \<lparr>MR_cmd_category = Some ''forward'', MR_cmd_name = Some ''step'',
           MR_cmd_function = Some ''MR_trace_cmd_step''\<rparr>"
  by (simp add: MR_trace_valid_command_def MR_trace_command_infos_def command_info_def)

lemma debug_cmd_alias_s:
  assumes "MR_trace_lookup_alias (MR_alias_records st) ''step'' = None"
    and "st' = st\<lparr>MR_alias_records := MR_trace_add_alias ''s'' [''step''] (MR_alias_records st)\<rparr>"
  shows "MR_trace_debug_cmd ''s'' st' =
      Handler_Called ''MR_trace_cmd_step'' [''step'']
        (st'\<lparr>MR_current_cmd_category := Some ''forward'', MR_current_cmd_name := Some ''step''\<rparr>)"
    and "MR_trace_debug_cmd ''step'' st' =
      Handler_Called ''MR_trace_cmd_step'' [''step'']
        (st'\<lparr>MR_current_cmd_category := Some ''forward'', MR_current_cmd_name := Some ''step''\<rparr>)"
proof -
  have n: "MR_trace_is_natural_number ''s'' = None" "MR_trace_is_natural_number ''step'' = None"
    by (simp_all add: MR_trace_is_natural_number_def MR_isdigit_def)
  have "MR_trace_expand_aliases (MR_alias_records st') [''s''] = [''step'']"
    using assms(2) n
    by (subst expand_aliases_splices)
      (simp_all add: spec_alias_key_def spec_words_consumed_def MR_trace_lookup_alias_def
        MR_trace_add_alias_def)
  then show "MR_trace_debug_cmd ''s'' st' =
      Handler_Called ''MR_trace_cmd_step'' [''step'']
        (st'\<lparr>MR_current_cmd_category := Some ''forward'', MR_current_cmd_name := Some ''step''\<rparr>)"
    by (simp add: MR_trace_debug_cmd_def parse_line_s valid_command_step)
  have "MR_trace_expand_aliases (MR_alias_records st') [''step''] = [''step'']"
    using assms n
    by (subst expand_aliases_splices)
      (simp_all add: spec_alias_key_def spec_words_consumed_def MR_trace_lookup_alias_def
        MR_trace_add_alias_def)
  then show "MR_trace_debug_cmd ''step'' st' =
      Handler_Called ''MR_trace_cmd_step'' [''step'']
        (st'\<lparr>MR_current_cmd_category := Some ''forward'', MR_current_cmd_name := Some ''step''\<rparr>)"
    by (simp add: MR_trace_debug_cmd_def parse_line_step valid_command_step)
qed

text \<open>
  An alias without replacement words, which no command creates, would not be spliced
  that way: the first loop then moves the words down from the top, and every word left
  is a copy of the last.
\<close>

lemma expand_aliases_empty_replacement:
  "MR_trace_expand_aliases [''s'' \<mapsto> []] [''s'', ''3'', ''x''] = [''x'', ''x'']"
  by code_simp

text \<open>
  C9. The lookup key is \<^verbatim>\<open>EMPTY\<close> when there are no words, \<^verbatim>\<open>NUMBER\<close> when word
  one is a natural number, and word one otherwise. When the key has an alias, the result
  is the replacement words followed by the words that were not consumed, in their order:
  word one is consumed for a named alias and nothing for the other two keys. (The
  replacement is not empty: the \<^verbatim>\<open>alias\<close> command, the only caller of
  \<^verbatim>\<open>MR_trace_add_alias\<close>, passes at least one word.) In particular, once the alias
  \<^verbatim>\<open>s\<close> for \<^verbatim>\<open>step\<close> is added, and \<^verbatim>\<open>step\<close> is not itself the name of an alias, the
  line \<^verbatim>\<open>s\<close> calls the handler that the line \<^verbatim>\<open>step\<close> calls, with the same words and
  in the same state.
\<close>

theorem alias_expansion:
  "(MR_trace_lookup_alias aliases (spec_alias_key words) \<noteq> Some [] \<longrightarrow>
      MR_trace_expand_aliases aliases words =
        (case MR_trace_lookup_alias aliases (spec_alias_key words) of
           None \<Rightarrow> words
         | Some body \<Rightarrow> body @ drop (spec_words_consumed words) words)) \<and>
   (MR_trace_lookup_alias (MR_alias_records st) ''step'' = None \<longrightarrow>
      (let st' = st\<lparr>MR_alias_records :=
                       MR_trace_add_alias ''s'' [''step''] (MR_alias_records st)\<rparr>
       in MR_trace_debug_cmd ''s'' st' = MR_trace_debug_cmd ''step'' st' \<and>
          MR_trace_debug_cmd ''s'' st' =
            Handler_Called ''MR_trace_cmd_step'' [''step'']
              (st'\<lparr>MR_current_cmd_category := Some ''forward'',
                    MR_current_cmd_name := Some ''step''\<rparr>)))"
proof (intro conjI impI)
  assume "MR_trace_lookup_alias aliases (spec_alias_key words) \<noteq> Some []"
  then show "MR_trace_expand_aliases aliases words =
        (case MR_trace_lookup_alias aliases (spec_alias_key words) of
           None \<Rightarrow> words
         | Some body \<Rightarrow> body @ drop (spec_words_consumed words) words)"
    by (rule expand_aliases_splices)
next
  assume "MR_trace_lookup_alias (MR_alias_records st) ''step'' = None"
  from debug_cmd_alias_s [OF this refl]
  show "let st' = st\<lparr>MR_alias_records :=
                       MR_trace_add_alias ''s'' [''step''] (MR_alias_records st)\<rparr>
       in MR_trace_debug_cmd ''s'' st' = MR_trace_debug_cmd ''step'' st' \<and>
          MR_trace_debug_cmd ''s'' st' =
            Handler_Called ''MR_trace_cmd_step'' [''step'']
              (st'\<lparr>MR_current_cmd_category := Some ''forward'',
                    MR_current_cmd_name := Some ''step''\<rparr>)"
    by (simp only: Let_def simp_thms)
qed

text \<open>
  The witness: the alias \<^verbatim>\<open>s\<close> for \<^verbatim>\<open>step -a\<close> applied to the words \<^verbatim>\<open>s 3\<close>, an
  alias of \<^verbatim>\<open>NUMBER\<close> applied to \<^verbatim>\<open>12 x\<close>, and the line \<^verbatim>\<open>s\<close> in the initial state
  once \<^verbatim>\<open>s\<close> is an alias for \<^verbatim>\<open>step\<close>.
\<close>

theorem alias_expansion_witness:
  "MR_trace_expand_aliases [''s'' \<mapsto> [''step'', ''-a'']] [''s'', ''3''] = [''step'', ''-a'', ''3''] \<and>
   MR_trace_expand_aliases [''NUMBER'' \<mapsto> [''step'']] [''12'', ''x''] = [''step'', ''12'', ''x''] \<and>
   MR_trace_debug_cmd ''s''
     ((mdb_initial_state [])\<lparr>MR_alias_records := MR_trace_add_alias ''s'' [''step''] Map.empty\<rparr>) =
   MR_trace_debug_cmd ''step''
     ((mdb_initial_state [])\<lparr>MR_alias_records := MR_trace_add_alias ''s'' [''step''] Map.empty\<rparr>)"
proof -
  have n: "MR_trace_is_natural_number ''s'' = None" "MR_trace_is_natural_number ''12'' \<noteq> None"
    by (simp_all add: MR_trace_is_natural_number_def MR_isdigit_def)
  have 1: "MR_trace_lookup_alias [''s'' \<mapsto> [''step'', ''-a'']] (spec_alias_key [''s'', ''3''])
      = Some [''step'', ''-a'']"
    using n by (simp add: MR_trace_lookup_alias_def spec_alias_key_def)
  have 2: "MR_trace_lookup_alias [''NUMBER'' \<mapsto> [''step'']] (spec_alias_key [''12'', ''x''])
      = Some [''step'']"
    using n by (simp add: MR_trace_lookup_alias_def spec_alias_key_def)
  have 3: "MR_trace_lookup_alias (MR_alias_records (mdb_initial_state [])) ''step'' = None"
    by (simp add: MR_trace_lookup_alias_def mdb_initial_state_def)
  have a: "MR_trace_expand_aliases [''s'' \<mapsto> [''step'', ''-a'']] [''s'', ''3''] =
      [''step'', ''-a'', ''3'']"
    using alias_expansion [of "[''s'' \<mapsto> [''step'', ''-a'']]" "[''s'', ''3'']"] 1 n
    by (simp add: spec_words_consumed_def)
  have b: "MR_trace_expand_aliases [''NUMBER'' \<mapsto> [''step'']] [''12'', ''x''] =
      [''step'', ''12'', ''x'']"
    using alias_expansion [of "[''NUMBER'' \<mapsto> [''step'']]" "[''12'', ''x'']"] 2 n
    by (simp add: spec_words_consumed_def)
  have c: "MR_trace_debug_cmd ''s''
     ((mdb_initial_state [])\<lparr>MR_alias_records := MR_trace_add_alias ''s'' [''step''] Map.empty\<rparr>) =
   MR_trace_debug_cmd ''step''
     ((mdb_initial_state [])\<lparr>MR_alias_records := MR_trace_add_alias ''s'' [''step''] Map.empty\<rparr>)"
    using alias_expansion [of _ _ "mdb_initial_state []"] 3
    by (simp add: Let_def mdb_initial_state_def)
  from a b c show ?thesis by simp
qed

subsection \<open>Dispatch of a name that has no handler\<close>

text \<open>
  A word that is the name of no entry before the closing one is reported as an unknown
  command, and the prompt goes on: the recoverable half of the dispatcher.
\<close>

lemma valid_command_loop_None:
  "valid_command_loop infos word = None \<longleftrightarrow>
     Some word \<notin> set (takeWhile (\<lambda>name. name \<noteq> None) (map MR_cmd_name infos))"
  by (induction infos) (auto split: option.splits)

lemma unknown_command_keeps_interacting:
  assumes "MR_trace_valid_command word0 = None"
  shows "MR_trace_handle_cmd (word0 # words) st =
     Returned KEEP_INTERACTING
       (st\<lparr>mdb_err := mdb_err st @
          [''Unknown command `'' @ word0 @ [CHR 0x27] @ ''. Give the command `help''
             @ [CHR 0x27] @ '' for help.'' @ newline]\<rparr>)"
  using assms by (simp add: fprintf_def)

lemma valid_command_NUMBER:
  "MR_trace_valid_command ''NUMBER'' =
     Some \<lparr>MR_cmd_category = None, MR_cmd_name = Some ''NUMBER'', MR_cmd_function = None\<rparr>"
  by (simp add: MR_trace_valid_command_def MR_trace_command_infos_def command_info_def)

lemma valid_command_EMPTY:
  "MR_trace_valid_command ''EMPTY'' =
     Some \<lparr>MR_cmd_category = None, MR_cmd_name = Some ''EMPTY'', MR_cmd_function = None\<rparr>"
  by (simp add: MR_trace_valid_command_def MR_trace_command_infos_def command_info_def)

lemma parse_line_NUMBER: "MR_trace_parse_line ''NUMBER'' = Inr [''NUMBER'']"
  by code_simp

lemma parse_line_EMPTY: "MR_trace_parse_line ''EMPTY'' = Inr [''EMPTY'']"
  by code_simp

lemma expand_no_aliases: "MR_trace_expand_aliases Map.empty words = words"
  by (simp add: MR_trace_expand_aliases_def MR_trace_lookup_alias_def Let_def split: prod.splits)

text \<open>
  C1. The claim is that dispatch is never fatal and that the entries \<^verbatim>\<open>NUMBER\<close> and
  \<^verbatim>\<open>EMPTY\<close>, which have no handler, are never dispatched. The code does not keep it:
  \<^verbatim>\<open>MR_trace_valid_command\<close> finds these two entries like any other, and
  \<^verbatim>\<open>MR_trace_handle_cmd\<close> calls the function of the entry found without looking at
  it. With the words \<^verbatim>\<open>NUMBER\<close> or \<^verbatim>\<open>EMPTY\<close> in first place the dispatcher therefore
  calls through a null pointer; typed as a line before any alias of that name exists
  (the initial state), each of them reaches the dispatcher unchanged.
\<close>

theorem reserved_entries_are_dispatched:
  "MR_trace_handle_cmd (''NUMBER'' # words) st =
     Null_Function_Called (''NUMBER'' # words)
       (st\<lparr>MR_current_cmd_category := None, MR_current_cmd_name := Some ''NUMBER''\<rparr>) \<and>
   MR_trace_handle_cmd (''EMPTY'' # words) st =
     Null_Function_Called (''EMPTY'' # words)
       (st\<lparr>MR_current_cmd_category := None, MR_current_cmd_name := Some ''EMPTY''\<rparr>) \<and>
   MR_trace_debug_cmd ''NUMBER'' (mdb_initial_state input) =
     Null_Function_Called [''NUMBER'']
       ((mdb_initial_state input)\<lparr>MR_current_cmd_category := None,
          MR_current_cmd_name := Some ''NUMBER''\<rparr>) \<and>
   MR_trace_debug_cmd ''EMPTY'' (mdb_initial_state input) =
     Null_Function_Called [''EMPTY'']
       ((mdb_initial_state input)\<lparr>MR_current_cmd_category := None,
          MR_current_cmd_name := Some ''EMPTY''\<rparr>)"
proof -
  have a: "MR_alias_records (mdb_initial_state input) = Map.empty"
    by (simp add: mdb_initial_state_def)
  show ?thesis
    by (simp add: valid_command_NUMBER valid_command_EMPTY MR_trace_debug_cmd_def
        parse_line_NUMBER parse_line_EMPTY a expand_no_aliases)
qed

theorem reserved_entries_are_dispatched_witness:
  "MR_trace_debug_cmd ''NUMBER'' (mdb_initial_state []) =
     Null_Function_Called [''NUMBER'']
       ((mdb_initial_state [])\<lparr>MR_current_cmd_category := None,
          MR_current_cmd_name := Some ''NUMBER''\<rparr>)"
  using reserved_entries_are_dispatched [of "[]" "mdb_initial_state []" "[]"] by blast

section \<open>Reading command lines\<close>

text \<open>
  The queue of pending lines: \<^verbatim>\<open>MR_trace_getline_queue\<close> takes the first line,
  \<^verbatim>\<open>MR_insert_line_at_head\<close> and \<^verbatim>\<open>MR_insert_line_at_tail\<close> add one at either end.
\<close>

definition MR_trace_getline_queue :: "mdb_state \<Rightarrow> string option \<times> mdb_state" where
  "MR_trace_getline_queue st =
     (case MR_line_queue st of
        contents # next \<Rightarrow> (Some contents, st\<lparr>MR_line_queue := next\<rparr>)
      | [] \<Rightarrow> (None, st))"

definition MR_insert_line_at_head :: "string \<Rightarrow> mdb_state \<Rightarrow> mdb_state" where
  "MR_insert_line_at_head contents st = st\<lparr>MR_line_queue := contents # MR_line_queue st\<rparr>"

definition MR_insert_line_at_tail :: "string \<Rightarrow> mdb_state \<Rightarrow> mdb_state" where
  "MR_insert_line_at_tail contents st = st\<lparr>MR_line_queue := MR_line_queue st @ [contents]\<rparr>"

text \<open>
  Modelled from the spec: \<^verbatim>\<open>MR_trace_readline\<close> is defined in another file. The
  spec has the engine prompt and read the command source, a read that can yield end of
  input; the comment on \<^verbatim>\<open>MR_trace_getline\<close> in the file says the rest: the prompt
  is printed to \<^verbatim>\<open>mdb_out\<close>, a line is read from \<^verbatim>\<open>mdb_in\<close> and returned without
  the final newline, and \<^verbatim>\<open>NULL\<close> is returned when end of input occurs on an
  empty line.
\<close>

definition MR_trace_readline :: "string \<Rightarrow> mdb_state \<Rightarrow> string option \<times> mdb_state" where
  "MR_trace_readline prompt st =
     (let st = st\<lparr>mdb_out := fprintf prompt (mdb_out st)\<rparr>
      in case mdb_in st of
           line # rest \<Rightarrow> (Some line, st\<lparr>mdb_in := rest\<rparr>)
         | [] \<Rightarrow> (None, st))"

definition MR_trace_getline :: "string \<Rightarrow> mdb_state \<Rightarrow> string option \<times> mdb_state" where
  "MR_trace_getline prompt st =
     (case MR_trace_getline_queue st of
        (Some line, st) \<Rightarrow> (Some line, st)
      | (None, st) \<Rightarrow>
          (let st = st\<lparr>MR_trace_internal_interacting := True\<rparr>
           in case MR_trace_readline prompt st of
                (Some line, st) \<Rightarrow>
                  (if MR_echo_commands st
                   then (Some line, st\<lparr>mdb_out := fprintf newline (fprintf line (mdb_out st))\<rparr>)
                   else (Some line, st))
              | (None, st) \<Rightarrow> (None, st)))"

text \<open>
  \<^verbatim>\<open>MR_trace_continue_line\<close> scans the text at \<^verbatim>\<open>ptr\<close>. The result holds the return
  value, the text as the function leaves it (cut at a semicolon, or with the escaping
  backslash of the line end replaced by a space), the two quote flags, and the state, in
  which the rest of a line cut at a semicolon is at the head of the queue. In the loop,
  \<open>scanned\<close> is the text between the first \<^verbatim>\<open>ptr\<close> and the current one.
\<close>

record continue_line_result =
  cl_continues :: bool
  cl_text :: string
  cl_single_quoted :: bool
  cl_double_quoted :: bool
  cl_state :: mdb_state

fun continue_line_loop ::
  "bool \<Rightarrow> bool \<Rightarrow> bool \<Rightarrow> string \<Rightarrow> string \<Rightarrow> mdb_state \<Rightarrow> continue_line_result" where
  "continue_line_loop escaped single_quoted double_quoted scanned [] st =
     \<lparr>cl_continues = (single_quoted \<or> double_quoted \<or> escaped),
      cl_text = (if escaped then butlast scanned @ '' '' else scanned),
      cl_single_quoted = single_quoted, cl_double_quoted = double_quoted, cl_state = st\<rparr>"
| "continue_line_loop escaped single_quoted double_quoted scanned (c # ptr) st =
     (if escaped then
        continue_line_loop False single_quoted double_quoted (scanned @ [c]) ptr st
      else if c = ESCAPE_CHAR then
        continue_line_loop True single_quoted double_quoted (scanned @ [c]) ptr st
      else if \<not> double_quoted \<and> c = SINGLE_QUOTE_CHAR then
        continue_line_loop False (\<not> single_quoted) double_quoted (scanned @ [c]) ptr st
      else if \<not> single_quoted \<and> c = DOUBLE_QUOTE_CHAR then
        continue_line_loop False single_quoted (\<not> double_quoted) (scanned @ [c]) ptr st
      else if \<not> single_quoted \<and> \<not> double_quoted \<and> c = CHR '';'' then
        \<lparr>cl_continues = False, cl_text = scanned,
         cl_single_quoted = single_quoted, cl_double_quoted = double_quoted,
         cl_state = MR_insert_line_at_head ptr st\<rparr>
      else continue_line_loop False single_quoted double_quoted (scanned @ [c]) ptr st)"

definition MR_trace_continue_line ::
  "string \<Rightarrow> bool \<Rightarrow> bool \<Rightarrow> mdb_state \<Rightarrow> continue_line_result" where
  "MR_trace_continue_line ptr single_quoted double_quoted st =
     continue_line_loop False single_quoted double_quoted [] ptr st"

text \<open>
  The \<^verbatim>\<open>while\<close> loop of \<^verbatim>\<open>MR_trace_get_command\<close>: \<open>cmd_chars\<close> is the command up
  to \<^verbatim>\<open>ptr\<close>, \<open>ptr\<close> the text from there. The loop ends because every further round
  takes a line from the queue or from the input, and a round that goes on has put
  nothing back.
\<close>

function get_command_loop ::
  "string \<Rightarrow> string \<Rightarrow> bool \<Rightarrow> bool \<Rightarrow> mdb_state \<Rightarrow> string \<times> mdb_state" where
  "get_command_loop cmd_chars ptr single_quoted double_quoted st =
     (let r = MR_trace_continue_line ptr single_quoted double_quoted st
      in if cl_continues r then
           (case MR_trace_getline ''> '' (cl_state r) of
              (None, st') \<Rightarrow> (cmd_chars @ cl_text r, st')
            | (Some line, st') \<Rightarrow>
                get_command_loop (cmd_chars @ cl_text r) line
                  (cl_single_quoted r) (cl_double_quoted r) st')
         else (cmd_chars @ cl_text r, cl_state r))"
  by pat_completeness auto

definition pending_lines :: "mdb_state \<Rightarrow> nat" where
  "pending_lines st = length (MR_line_queue st) + length (mdb_in st)"

lemma getline_takes_a_line:
  "MR_trace_getline prompt st = (Some line, st') \<Longrightarrow> pending_lines st' < pending_lines st"
  by (auto simp add: MR_trace_getline_def MR_trace_getline_queue_def MR_trace_readline_def
      pending_lines_def Let_def split: list.splits if_splits)

lemma getline_result:
  "MR_trace_getline prompt st =
    (case MR_line_queue st of
       line # rest \<Rightarrow> (Some line, st\<lparr>MR_line_queue := rest\<rparr>)
     | [] \<Rightarrow>
        (case mdb_in st of
           line # rest \<Rightarrow>
             (Some line,
              st\<lparr>MR_trace_internal_interacting := True, mdb_in := rest,
                 mdb_out := mdb_out st @ prompt #
                   (if MR_echo_commands st then [line, newline] else [])\<rparr>)
         | [] \<Rightarrow>
             (None,
              st\<lparr>MR_trace_internal_interacting := True, mdb_out := mdb_out st @ [prompt]\<rparr>)))"
  by (simp add: MR_trace_getline_def MR_trace_getline_queue_def MR_trace_readline_def Let_def
      fprintf_def split: list.splits)

lemma continue_line_loop_state:
  "cl_continues (continue_line_loop escaped sq dq scanned ptr st) \<Longrightarrow>
   cl_state (continue_line_loop escaped sq dq scanned ptr st) = st"
proof (induction escaped sq dq scanned ptr st rule: continue_line_loop.induct)
  case (1 escaped single_quoted double_quoted scanned st)
  then show ?case by simp
next
  case (2 escaped single_quoted double_quoted scanned c ptr st)
  let ?go = "\<lambda>e s d. continue_line_loop e s d (scanned @ [c]) ptr st"
  from "2.prems" consider
      (a) "escaped" "cl_continues (?go False single_quoted double_quoted)"
    | (b) "\<not> escaped" "c = ESCAPE_CHAR" "cl_continues (?go True single_quoted double_quoted)"
    | (c) "\<not> escaped" "c \<noteq> ESCAPE_CHAR" "\<not> double_quoted \<and> c = SINGLE_QUOTE_CHAR"
        "cl_continues (?go False (\<not> single_quoted) double_quoted)"
    | (d) "\<not> escaped" "c \<noteq> ESCAPE_CHAR" "\<not> (\<not> double_quoted \<and> c = SINGLE_QUOTE_CHAR)"
        "\<not> single_quoted \<and> c = DOUBLE_QUOTE_CHAR"
        "cl_continues (?go False single_quoted (\<not> double_quoted))"
    | (e) "\<not> escaped" "c \<noteq> ESCAPE_CHAR" "\<not> (\<not> double_quoted \<and> c = SINGLE_QUOTE_CHAR)"
        "\<not> (\<not> single_quoted \<and> c = DOUBLE_QUOTE_CHAR)"
        "\<not> (\<not> single_quoted \<and> \<not> double_quoted \<and> c = CHR '';'')"
        "cl_continues (?go False single_quoted double_quoted)"
    by (simp split: if_splits)
  then show ?case
  proof cases
    case a
    from "2.IH"(1) [OF a] a show ?thesis by simp
  next
    case b
    from "2.IH"(2) [OF b] b show ?thesis by simp
  next
    case c
    from "2.IH"(3) [OF c] c show ?thesis
      by (cases single_quoted; cases double_quoted; simp)
  next
    case d
    from "2.IH"(4) [OF d] d show ?thesis
      by (cases single_quoted; cases double_quoted; simp)
  next
    case e
    from "2.IH"(5) [OF e] e show ?thesis
      by (cases single_quoted; cases double_quoted; simp)
  qed
qed

termination get_command_loop
proof (relation "measure (\<lambda>(cmd_chars, ptr, sq, dq, st). pending_lines st)")
  show "wf (measure (\<lambda>(cmd_chars, ptr, sq, dq, st). pending_lines st))" by simp
next
  fix cmd_chars ptr :: string and single_quoted double_quoted :: bool
    and st st' :: mdb_state and r x line
  assume r: "r = MR_trace_continue_line ptr single_quoted double_quoted st"
    and c: "cl_continues r"
    and x: "(x, st') = MR_trace_getline ''> '' (cl_state r)"
    and l: "x = Some line"
  from r c have "cl_state r = st"
    by (simp add: MR_trace_continue_line_def continue_line_loop_state)
  with x l have "MR_trace_getline ''> '' st = (Some line, st')" by simp
  then have "pending_lines st' < pending_lines st" by (rule getline_takes_a_line)
  then show "((cmd_chars @ cl_text r, line, cl_single_quoted r, cl_double_quoted r, st'),
      (cmd_chars, ptr, single_quoted, double_quoted, st))
    \<in> measure (\<lambda>(cmd_chars, ptr, sq, dq, st). pending_lines st)"
    by simp
qed

declare get_command_loop.simps [simp del]

definition MR_trace_get_command :: "string \<Rightarrow> mdb_state \<Rightarrow> string \<times> mdb_state" where
  "MR_trace_get_command prompt st =
     (case MR_trace_getline prompt st of
        (None, st) \<Rightarrow> (''quit'', st)
      | (Some line, st) \<Rightarrow> get_command_loop [] line False False st)"

subsection \<open>End of input\<close>

lemma getline_None:
  "fst (MR_trace_getline prompt st) = None \<longleftrightarrow> MR_line_queue st = [] \<and> mdb_in st = []"
  by (auto simp add: MR_trace_getline_def MR_trace_getline_queue_def MR_trace_readline_def
      Let_def split: list.splits)

lemma continue_line_quit:
  "MR_trace_continue_line ''quit'' False False st =
     \<lparr>cl_continues = False, cl_text = ''quit'', cl_single_quoted = False,
      cl_double_quoted = False, cl_state = st\<rparr>"
  by (simp add: MR_trace_continue_line_def ESCAPE_CHAR_def SINGLE_QUOTE_CHAR_def
      DOUBLE_QUOTE_CHAR_def)

lemma get_command_loop_quit: "get_command_loop [] ''quit'' False False st = (''quit'', st)"
  by (subst get_command_loop.simps) (simp add: continue_line_quit)

lemma get_command_at_eof:
  assumes "MR_line_queue st = []" "mdb_in st = []"
  shows "MR_trace_get_command prompt st =
    (''quit'', st\<lparr>MR_trace_internal_interacting := True, mdb_out := mdb_out st @ [prompt]\<rparr>)"
  using assms
  by (simp add: MR_trace_get_command_def MR_trace_getline_def MR_trace_getline_queue_def
      MR_trace_readline_def fprintf_def)

lemma get_command_typed_quit:
  assumes "MR_line_queue st = []" "mdb_in st = []"
  shows "MR_trace_get_command prompt (st\<lparr>mdb_in := [''quit'']\<rparr>) =
    (''quit'', st\<lparr>MR_trace_internal_interacting := True,
       mdb_out := (if MR_echo_commands st then mdb_out st @ [prompt, ''quit'', newline]
                   else mdb_out st @ [prompt])\<rparr>)"
  using assms
  by (simp add: MR_trace_get_command_def MR_trace_getline_def MR_trace_getline_queue_def
      MR_trace_readline_def fprintf_def get_command_loop_quit)

lemma get_command_loop_at_eof:
  assumes c: "cl_continues (MR_trace_continue_line ptr sq dq st)"
    and g: "fst (MR_trace_getline ''> '' st) = None"
  shows "get_command_loop cmd_chars ptr sq dq st =
     (cmd_chars @ cl_text (MR_trace_continue_line ptr sq dq st),
      st\<lparr>MR_trace_internal_interacting := True, mdb_out := mdb_out st @ [''> '']\<rparr>)"
proof -
  from c have s: "cl_state (MR_trace_continue_line ptr sq dq st) = st"
    by (simp add: MR_trace_continue_line_def continue_line_loop_state)
  from g have e: "MR_line_queue st = []" "mdb_in st = []"
    by (simp_all add: getline_None)
  then have "MR_trace_getline ''> '' st =
      (None, st\<lparr>MR_trace_internal_interacting := True, mdb_out := mdb_out st @ [''> '']\<rparr>)"
    by (simp add: getline_result)
  with c s show ?thesis
    by (subst get_command_loop.simps) (simp add: Let_def)
qed

text \<open>
  The line \<^verbatim>\<open>continue\<close> with a backslash at its end: the newline is escaped, so
  the command goes on with the next line.
\<close>

definition continue_backslash :: string where
  "continue_backslash = ''continue'' @ [ESCAPE_CHAR]"

lemma continue_line_continue:
  "MR_trace_continue_line continue_backslash False False st =
     \<lparr>cl_continues = True, cl_text = ''continue '', cl_single_quoted = False,
      cl_double_quoted = False, cl_state = st\<rparr>"
  by (simp add: continue_backslash_def MR_trace_continue_line_def ESCAPE_CHAR_def
      SINGLE_QUOTE_CHAR_def DOUBLE_QUOTE_CHAR_def)

lemma parse_line_continue: "MR_trace_parse_line ''continue '' = Inr [''continue'']"
  by code_simp

lemma parse_line_quit: "MR_trace_parse_line ''quit'' = Inr [''quit'']"
  by code_simp

lemma valid_command_continue:
  "MR_trace_valid_command ''continue'' =
     Some \<lparr>MR_cmd_category = Some ''forward'', MR_cmd_name = Some ''continue'',
           MR_cmd_function = Some ''MR_trace_cmd_continue''\<rparr>"
  by (simp add: MR_trace_valid_command_def MR_trace_command_infos_def command_info_def)

lemma valid_command_quit:
  "MR_trace_valid_command ''quit'' =
     Some \<lparr>MR_cmd_category = Some ''misc'', MR_cmd_name = Some ''quit'',
           MR_cmd_function = Some ''MR_trace_cmd_quit''\<rparr>"
  by (simp add: MR_trace_valid_command_def MR_trace_command_infos_def command_info_def)

text \<open>
  C3. When the read that starts a command, the one at the prompt, finds the end of the
  input (no line is queued and \<^verbatim>\<open>mdb_in\<close> is exhausted), \<^verbatim>\<open>MR_trace_get_command\<close>
  returns the string \<^verbatim>\<open>quit\<close>: the same command as when the user types the line
  \<^verbatim>\<open>quit\<close> there, so that \<^verbatim>\<open>MR_trace_debug_cmd\<close> does with it what it does with a
  typed \<^verbatim>\<open>quit\<close>. The two states differ only by the echo of the typed line, when
  commands are echoed. When a read of a continuation line, under the prompt \<^verbatim>\<open>>\<close>,
  finds the end of the input, the loop stops and the command is the text read so far
  (with the escaping backslash replaced by a space).
\<close>

theorem end_of_input_is_quit:
  "(fst (MR_trace_getline prompt st) = None \<longrightarrow>
     fst (MR_trace_get_command prompt st) = ''quit'' \<and>
     fst (MR_trace_get_command prompt (st\<lparr>mdb_in := [''quit'']\<rparr>)) = ''quit'' \<and>
     MR_trace_debug_cmd (fst (MR_trace_get_command prompt st)) s =
       MR_trace_debug_cmd (fst (MR_trace_get_command prompt (st\<lparr>mdb_in := [''quit'']\<rparr>))) s \<and>
     snd (MR_trace_get_command prompt (st\<lparr>mdb_in := [''quit'']\<rparr>)) =
       (snd (MR_trace_get_command prompt st))
         \<lparr>mdb_out := mdb_out (snd (MR_trace_get_command prompt st)) @
            (if MR_echo_commands st then [''quit'', newline] else [])\<rparr>) \<and>
   (cl_continues (MR_trace_continue_line ptr single_quoted double_quoted st) \<and>
    fst (MR_trace_getline ''> '' st) = None \<longrightarrow>
     get_command_loop cmd_chars ptr single_quoted double_quoted st =
       (cmd_chars @ cl_text (MR_trace_continue_line ptr single_quoted double_quoted st),
        st\<lparr>MR_trace_internal_interacting := True, mdb_out := mdb_out st @ [''> '']\<rparr>))"
proof (intro conjI impI)
  assume "fst (MR_trace_getline prompt st) = None"
  then have e: "MR_line_queue st = []" "mdb_in st = []"
    by (simp_all add: getline_None)
  note r = get_command_at_eof [OF e] get_command_typed_quit [OF e]
  show "fst (MR_trace_get_command prompt st) = ''quit''" by (simp add: r)
  show "fst (MR_trace_get_command prompt (st\<lparr>mdb_in := [''quit'']\<rparr>)) = ''quit''"
    by (simp add: r)
  show "MR_trace_debug_cmd (fst (MR_trace_get_command prompt st)) s =
       MR_trace_debug_cmd (fst (MR_trace_get_command prompt (st\<lparr>mdb_in := [''quit'']\<rparr>))) s"
    by (simp add: r)
  show "snd (MR_trace_get_command prompt (st\<lparr>mdb_in := [''quit'']\<rparr>)) =
       (snd (MR_trace_get_command prompt st))
         \<lparr>mdb_out := mdb_out (snd (MR_trace_get_command prompt st)) @
            (if MR_echo_commands st then [''quit'', newline] else [])\<rparr>"
    by (simp add: r)
next
  assume "cl_continues (MR_trace_continue_line ptr single_quoted double_quoted st) \<and>
    fst (MR_trace_getline ''> '' st) = None"
  then show "get_command_loop cmd_chars ptr single_quoted double_quoted st =
       (cmd_chars @ cl_text (MR_trace_continue_line ptr single_quoted double_quoted st),
        st\<lparr>MR_trace_internal_interacting := True, mdb_out := mdb_out st @ [''> '']\<rparr>)"
    by (simp add: get_command_loop_at_eof)
qed

text \<open>
  The witness: the initial state with nothing to read, at the prompt and after the line
  \<^verbatim>\<open>continue\<close> with an escaped newline.
\<close>

theorem end_of_input_is_quit_witness:
  "fst (MR_trace_getline ''mdb> '' (mdb_initial_state [])) = None \<and>
   fst (MR_trace_get_command ''mdb> '' (mdb_initial_state [])) = ''quit'' \<and>
   MR_trace_debug_cmd (fst (MR_trace_get_command ''mdb> '' (mdb_initial_state [])))
     (mdb_initial_state []) =
   MR_trace_debug_cmd (fst (MR_trace_get_command ''mdb> '' (mdb_initial_state [''quit''])))
     (mdb_initial_state []) \<and>
   get_command_loop [] continue_backslash False False (mdb_initial_state []) =
     (''continue '',
      (mdb_initial_state [])\<lparr>MR_trace_internal_interacting := True, mdb_out := [''> '']\<rparr>)"
proof -
  have g: "fst (MR_trace_getline ''mdb> '' (mdb_initial_state [])) = None"
    by (simp add: getline_None mdb_initial_state_def)
  have i: "(mdb_initial_state [])\<lparr>mdb_in := [''quit'']\<rparr> = mdb_initial_state [''quit'']"
    by (simp add: mdb_initial_state_def)
  have c: "cl_continues (MR_trace_continue_line continue_backslash False False
       (mdb_initial_state [])) \<and>
     fst (MR_trace_getline ''> '' (mdb_initial_state [])) = None"
    by (simp add: continue_line_continue getline_None mdb_initial_state_def)
  note t = end_of_input_is_quit [where prompt = "''mdb> ''" and st = "mdb_initial_state []"
      and s = "mdb_initial_state []" and ptr = continue_backslash
      and single_quoted = False and double_quoted = False and cmd_chars = "[]"]
  from t [THEN conjunct1, THEN mp, OF g]
  have 1: "fst (MR_trace_get_command ''mdb> '' (mdb_initial_state [])) = ''quit'' \<and>
     MR_trace_debug_cmd (fst (MR_trace_get_command ''mdb> '' (mdb_initial_state [])))
       (mdb_initial_state []) =
     MR_trace_debug_cmd (fst (MR_trace_get_command ''mdb> '' (mdb_initial_state [''quit''])))
       (mdb_initial_state [])"
    by (simp add: i)
  from t [THEN conjunct2, THEN mp, OF c]
  have 2: "get_command_loop [] continue_backslash False False (mdb_initial_state []) =
     (''continue '',
      (mdb_initial_state [])\<lparr>MR_trace_internal_interacting := True, mdb_out := [''> '']\<rparr>)"
    by (simp add: continue_line_continue mdb_initial_state_def)
  from g 1 [THEN conjunct1] 1 [THEN conjunct2] 2 show ?thesis by (intro conjI)
qed

text \<open>
  As stated, for every read of a line, C3 fails at the read of a continuation line: after
  the line \<^verbatim>\<open>continue\<close> with an escaped newline the read under the prompt \<^verbatim>\<open>>\<close>
  finds the end of the input, and \<^verbatim>\<open>MR_trace_get_command\<close> returns the command
  \<^verbatim>\<open>continue\<close>, which goes to the handler of \<^verbatim>\<open>continue\<close> and not to that of
  \<^verbatim>\<open>quit\<close>.
\<close>

theorem end_of_input_is_quit_counterexample:
  "MR_trace_get_command ''mdb> '' (mdb_initial_state [continue_backslash]) =
     (''continue '',
      (mdb_initial_state [])\<lparr>MR_trace_internal_interacting := True,
         mdb_out := [''mdb> '', ''> '']\<rparr>) \<and>
   MR_trace_debug_cmd ''continue '' (mdb_initial_state []) =
     Handler_Called ''MR_trace_cmd_continue'' [''continue'']
       ((mdb_initial_state [])\<lparr>MR_current_cmd_category := Some ''forward'',
          MR_current_cmd_name := Some ''continue''\<rparr>) \<and>
   MR_trace_debug_cmd ''quit'' (mdb_initial_state []) =
     Handler_Called ''MR_trace_cmd_quit'' [''quit'']
       ((mdb_initial_state [])\<lparr>MR_current_cmd_category := Some ''misc'',
          MR_current_cmd_name := Some ''quit''\<rparr>)"
proof -
  let ?st1 = "(mdb_initial_state [])\<lparr>MR_trace_internal_interacting := True,
      mdb_out := [''mdb> '']\<rparr>"
  have g: "MR_trace_getline ''mdb> '' (mdb_initial_state [continue_backslash]) =
      (Some continue_backslash, ?st1)"
    by (simp add: getline_result mdb_initial_state_def)
  have c: "cl_continues (MR_trace_continue_line continue_backslash False False ?st1)"
    by (simp only: continue_line_continue continue_line_result.simps)
  have e: "fst (MR_trace_getline ''> '' ?st1) = None"
    by (simp add: getline_None mdb_initial_state_def)
  have 1: "MR_trace_get_command ''mdb> '' (mdb_initial_state [continue_backslash]) =
     (''continue '',
      (mdb_initial_state [])\<lparr>MR_trace_internal_interacting := True,
         mdb_out := [''mdb> '', ''> '']\<rparr>)"
    unfolding MR_trace_get_command_def g
    by (simp add: get_command_loop_at_eof [OF c e] continue_line_continue)
  have 2: "MR_trace_debug_cmd ''continue '' (mdb_initial_state []) =
     Handler_Called ''MR_trace_cmd_continue'' [''continue'']
       ((mdb_initial_state [])\<lparr>MR_current_cmd_category := Some ''forward'',
          MR_current_cmd_name := Some ''continue''\<rparr>)"
    by (simp add: MR_trace_debug_cmd_def parse_line_continue valid_command_continue
        mdb_initial_state_def expand_no_aliases)
  have 3: "MR_trace_debug_cmd ''quit'' (mdb_initial_state []) =
     Handler_Called ''MR_trace_cmd_quit'' [''quit'']
       ((mdb_initial_state [])\<lparr>MR_current_cmd_category := Some ''misc'',
          MR_current_cmd_name := Some ''quit''\<rparr>)"
    by (simp add: MR_trace_debug_cmd_def parse_line_quit valid_command_quit
        mdb_initial_state_def expand_no_aliases)
  from 1 2 3 show ?thesis by (intro conjI)
qed

section \<open>Command handlers\<close>

subsection \<open>Integers, events and movement decisions\<close>

text \<open>
  \<^verbatim>\<open>MR_Unsigned\<close> is the runtime's unsigned integer of the size of a pointer (a typedef
  of a header that is not part of the file), taken here at 64 bits, next to an
  \<^verbatim>\<open>int\<close> of 32 bits. An \<^verbatim>\<open>int\<close> that meets an \<^verbatim>\<open>MR_Unsigned\<close> in an operation is
  converted to it, modulo \<open>2^64\<close>; an \<^verbatim>\<open>MR_Unsigned\<close> assigned to an \<^verbatim>\<open>int\<close> keeps its
  low 32 bits, read in two's complement.
\<close>

type_synonym MR_Unsigned = "64 word"

definition unsigned_of_int :: "int \<Rightarrow> MR_Unsigned" where
  "unsigned_of_int i = word_of_int i"

definition int_of_unsigned :: "MR_Unsigned \<Rightarrow> int" where
  "int_of_unsigned u = sint (ucast u :: 32 word)"

text \<open>
  The ports, the kinds of movement command and the results of a retry are enumerations of
  the runtime and of the retry module. The ports are those of the spec's data model:
  the five interface ports and the internal ones.
\<close>

datatype MR_Trace_Port =
    MR_PORT_CALL | MR_PORT_EXIT | MR_PORT_REDO | MR_PORT_FAIL | MR_PORT_EXCEPTION
  | MR_PORT_COND | MR_PORT_THEN | MR_PORT_ELSE | MR_PORT_NEG_ENTER | MR_PORT_NEG_SUCCESS
  | MR_PORT_NEG_FAILURE | MR_PORT_DISJ | MR_PORT_SWITCH

datatype MR_Trace_Cmd_Type =
    MR_CMD_GOTO | MR_CMD_NEXT | MR_CMD_FINISH | MR_CMD_FAIL | MR_CMD_RESUME_FORWARD
  | MR_CMD_EXCP | MR_CMD_RETURN | MR_CMD_MIN_DEPTH | MR_CMD_MAX_DEPTH | MR_CMD_TO_END

datatype MR_Retry_Result =
    MR_RETRY_OK_DIRECT | MR_RETRY_OK_FINISH_FIRST | MR_RETRY_OK_FAIL_FIRST | MR_RETRY_ERROR

datatype MR_Retry_Across_Io =
    MR_RETRY_IO_FORCE | MR_RETRY_IO_INTERACTIVE | MR_RETRY_IO_ONLY_IF_SAFE

record MR_Trace_Cmd_Info =
  MR_trace_cmd :: MR_Trace_Cmd_Type
  MR_trace_stop_depth :: MR_Unsigned
  MR_trace_stop_event :: MR_Unsigned
  MR_trace_print_level :: MR_Trace_Print_Level
  MR_trace_strict :: bool
  MR_trace_must_check :: bool

text \<open>
  Of an event, the handlers below read the call depth, the port, and the determinism of
  the procedure (\<^verbatim>\<open>event_info->MR_event_sll->MR_sll_entry->MR_sle_detism\<close>).
\<close>

record MR_Event_Info =
  MR_event_number :: MR_Unsigned
  MR_call_seqno :: MR_Unsigned
  MR_call_depth :: MR_Unsigned
  MR_trace_port :: MR_Trace_Port
  MR_sle_detism :: int

subsection \<open>Options\<close>

text \<open>
  \<^verbatim>\<open>MR_getopt\<close> and \<^verbatim>\<open>MR_getopt_long\<close> are the runtime's copy of GNU getopt, not
  part of the file. A run of the option loop of a handler is described by what getopt
  did with the words: the option characters it returned one after the other before
  \<^verbatim>\<open>EOF\<close>, each with its \<^verbatim>\<open>MR_optarg\<close>; the value of \<^verbatim>\<open>MR_optind\<close> at the end (at
  least 1); and the words as it left them, since it moves the words that are not options
  behind the options. The handlers take getopt as a parameter: a function from the option
  string and the words to such a run.
\<close>

record getopt_run =
  opt_returns :: "(char \<times> string) list"
  opt_ind :: nat
  opt_words :: "string list"

type_synonym getopt = "string \<Rightarrow> string list \<Rightarrow> getopt_run"

definition MR_trace_usage_cur_cmd :: "mdb_state \<Rightarrow> mdb_state" where
  "MR_trace_usage_cur_cmd st =
     (let name = (case MR_current_cmd_name st of Some name \<Rightarrow> name | None \<Rightarrow> ''(null)'')
      in st\<lparr>mdb_err := fprintf (''mdb: '' @ name @ '': usage error -- type `help '' @ name
           @ [CHR 0x27] @ '' for help.'' @ newline) (mdb_err st)\<rparr>)"

definition MR_trace_do_noop :: "mdb_state \<Rightarrow> mdb_state" where
  "MR_trace_do_noop st =
     st\<lparr>mdb_err := fprintf (''This command is a no-op from this port.'' @ newline) (mdb_err st)\<rparr>"

text \<open>
  The \<^verbatim>\<open>switch\<close> of \<^verbatim>\<open>MR_trace_options_movement_cmd\<close> over the characters getopt
  returns, in the build without \<^verbatim>\<open>MR_TRACE_CHECK_INTEGRITY\<close> (in which
  \<^verbatim>\<open>MR_init_trace_check_integrity\<close> does nothing either).
\<close>

fun movement_cmd_opts ::
  "(char \<times> string) list \<Rightarrow> MR_Trace_Cmd_Info \<Rightarrow> bool \<times> MR_Trace_Cmd_Info" where
  "movement_cmd_opts [] cmd = (True, cmd)"
| "movement_cmd_opts ((c, optarg) # rest) cmd =
     (if c = CHR ''N'' then movement_cmd_opts rest (cmd\<lparr>MR_trace_strict := False\<rparr>)
      else if c = CHR ''S'' then movement_cmd_opts rest (cmd\<lparr>MR_trace_strict := True\<rparr>)
      else if c = CHR ''a'' then
        movement_cmd_opts rest (cmd\<lparr>MR_trace_print_level := MR_PRINT_LEVEL_ALL\<rparr>)
      else if c = CHR ''n'' then
        movement_cmd_opts rest (cmd\<lparr>MR_trace_print_level := MR_PRINT_LEVEL_NONE\<rparr>)
      else if c = CHR ''s'' then
        movement_cmd_opts rest (cmd\<lparr>MR_trace_print_level := MR_PRINT_LEVEL_SOME\<rparr>)
      else (False, cmd))"

definition MR_trace_options_movement_cmd ::
  "getopt \<Rightarrow> MR_Trace_Cmd_Info \<Rightarrow> string list \<Rightarrow> mdb_state
     \<Rightarrow> bool \<times> MR_Trace_Cmd_Info \<times> string list \<times> mdb_state" where
  "MR_trace_options_movement_cmd MR_getopt_long cmd words st =
     (let run = MR_getopt_long ''NSans'' words
      in case movement_cmd_opts (opt_returns run) cmd of
           (False, cmd) \<Rightarrow> (False, cmd, opt_words run, MR_trace_usage_cur_cmd st)
         | (True, cmd) \<Rightarrow> (True, cmd, drop (opt_ind run - 1) (opt_words run), st))"

fun retry_opts ::
  "(char \<times> string) list \<Rightarrow> MR_Retry_Across_Io \<Rightarrow> bool
     \<Rightarrow> bool \<times> MR_Retry_Across_Io \<times> bool" where
  "retry_opts [] across_io assume_all_io_is_tabled = (True, across_io, assume_all_io_is_tabled)"
| "retry_opts ((c, optarg) # rest) across_io assume_all_io_is_tabled =
     (if c = CHR ''a'' then retry_opts rest across_io True
      else if c = CHR ''f'' then retry_opts rest MR_RETRY_IO_FORCE assume_all_io_is_tabled
      else if c = CHR ''i'' then retry_opts rest MR_RETRY_IO_INTERACTIVE assume_all_io_is_tabled
      else if c = CHR ''o'' then retry_opts rest MR_RETRY_IO_ONLY_IF_SAFE assume_all_io_is_tabled
      else (False, across_io, assume_all_io_is_tabled))"

definition MR_trace_options_retry ::
  "getopt \<Rightarrow> MR_Retry_Across_Io \<Rightarrow> bool \<Rightarrow> string list \<Rightarrow> mdb_state
     \<Rightarrow> bool \<times> MR_Retry_Across_Io \<times> bool \<times> string list \<times> mdb_state" where
  "MR_trace_options_retry MR_getopt_long across_io assume_all_io_is_tabled words st =
     (let run = MR_getopt_long ''afio'' words
      in case retry_opts (opt_returns run) across_io assume_all_io_is_tabled of
           (False, across_io, assume_all_io_is_tabled) \<Rightarrow>
             (False, across_io, assume_all_io_is_tabled, opt_words run,
              MR_trace_usage_cur_cmd st)
         | (True, across_io, assume_all_io_is_tabled) \<Rightarrow>
             (True, across_io, assume_all_io_is_tabled,
              drop (opt_ind run - 1) (opt_words run), st))"

fun ignore_count_opts ::
  "(char \<times> string) list \<Rightarrow> MR_Spy_Ignore_When \<Rightarrow> int \<Rightarrow> bool \<times> MR_Spy_Ignore_When \<times> int" where
  "ignore_count_opts [] ignore_when ignore_count = (True, ignore_when, ignore_count)"
| "ignore_count_opts ((c, optarg) # rest) ignore_when ignore_count =
     (if c = CHR ''E'' then
        (case MR_trace_is_natural_number optarg of
           None \<Rightarrow> (False, ignore_when, ignore_count)
         | Some n \<Rightarrow> ignore_count_opts rest MR_SPY_IGNORE_ENTRY n)
      else if c = CHR ''I'' then
        (case MR_trace_is_natural_number optarg of
           None \<Rightarrow> (False, ignore_when, ignore_count)
         | Some n \<Rightarrow> ignore_count_opts rest MR_SPY_IGNORE_INTERFACE n)
      else (False, ignore_when, ignore_count))"

definition MR_trace_options_ignore_count ::
  "getopt \<Rightarrow> MR_Spy_Ignore_When \<Rightarrow> int \<Rightarrow> string list \<Rightarrow> mdb_state
     \<Rightarrow> bool \<times> MR_Spy_Ignore_When \<times> int \<times> string list \<times> mdb_state" where
  "MR_trace_options_ignore_count MR_getopt_long ignore_when ignore_count words st =
     (let run = MR_getopt_long ''E:I:'' words
      in case ignore_count_opts (opt_returns run) ignore_when ignore_count of
           (False, ignore_when, ignore_count) \<Rightarrow>
             (False, ignore_when, ignore_count, opt_words run, MR_trace_usage_cur_cmd st)
         | (True, ignore_when, ignore_count) \<Rightarrow>
             (True, ignore_when, ignore_count, drop (opt_ind run - 1) (opt_words run), st))"

fun confirmed_opts :: "(char \<times> string) list \<Rightarrow> bool \<Rightarrow> bool \<times> bool" where
  "confirmed_opts [] confirmed = (True, confirmed)"
| "confirmed_opts ((c, optarg) # rest) confirmed =
     (if c = CHR ''n'' \<or> c = CHR ''N'' then confirmed_opts rest False
      else if c = CHR ''y'' \<or> c = CHR ''Y'' then confirmed_opts rest True
      else (False, confirmed))"

definition MR_trace_options_confirmed ::
  "getopt \<Rightarrow> bool \<Rightarrow> string list \<Rightarrow> mdb_state \<Rightarrow> bool \<times> bool \<times> string list \<times> mdb_state" where
  "MR_trace_options_confirmed MR_getopt confirmed words st =
     (let run = MR_getopt ''NYny'' words
      in case confirmed_opts (opt_returns run) confirmed of
           (False, confirmed) \<Rightarrow> (False, confirmed, opt_words run, MR_trace_usage_cur_cmd st)
         | (True, confirmed) \<Rightarrow>
             (True, confirmed, drop (opt_ind run - 1) (opt_words run), st))"

subsection \<open>The handler of fail\<close>

text \<open>
  \<^verbatim>\<open>MR_DETISM_DET_STACK\<close> is a macro and \<^verbatim>\<open>MR_detism_names\<close> a table of the runtime;
  neither is in the file, and both are parameters of the handler. The first part of the
  handler finds the depth to stop at: \<^verbatim>\<open>stop_depth = depth - n\<close> is computed in
  \<^verbatim>\<open>MR_Unsigned\<close> and stored in an \<^verbatim>\<open>int\<close>.
\<close>

definition fail_stop_depth :: "MR_Unsigned \<Rightarrow> string list \<Rightarrow> int option" where
  "fail_stop_depth depth words =
     (case (if length words = 2 then MR_trace_is_natural_number (words ! 1) else None) of
        Some n \<Rightarrow> Some (int_of_unsigned (depth - unsigned_of_int n))
      | None \<Rightarrow> if length words = 1 then Some (int_of_unsigned depth) else None)"

definition MR_trace_cmd_fail ::
  "(int \<Rightarrow> bool) \<Rightarrow> (int \<Rightarrow> string) \<Rightarrow> getopt \<Rightarrow> string list \<Rightarrow> MR_Trace_Cmd_Info
     \<Rightarrow> MR_Event_Info \<Rightarrow> mdb_state \<Rightarrow> MR_Next \<times> MR_Trace_Cmd_Info \<times> mdb_state" where
  "MR_trace_cmd_fail MR_DETISM_DET_STACK MR_detism_names MR_getopt_long words cmd event_info st =
     (let detism = MR_sle_detism event_info;
          depth = MR_call_depth event_info;
          cmd = cmd\<lparr>MR_trace_strict := True\<rparr>;
          cmd = cmd\<lparr>MR_trace_print_level := MR_default_print_level st\<rparr>
      in case MR_trace_options_movement_cmd MR_getopt_long cmd words st of
           (False, cmd, words, st) \<Rightarrow> (KEEP_INTERACTING, cmd, st)
         | (True, cmd, words, st) \<Rightarrow>
             (case fail_stop_depth depth words of
                None \<Rightarrow> (KEEP_INTERACTING, cmd, MR_trace_usage_cur_cmd st)
              | Some stop_depth \<Rightarrow>
                  if MR_DETISM_DET_STACK detism then
                    (KEEP_INTERACTING, cmd,
                     st\<lparr>mdb_err := fprintf (''mdb: cannot continue until failure: ''
                        @ ''selected procedure has determinism '' @ MR_detism_names detism
                        @ ''.'' @ newline) (mdb_err st)\<rparr>)
                  else if depth = unsigned_of_int stop_depth
                      \<and> MR_trace_port event_info = MR_PORT_FAIL then
                    (KEEP_INTERACTING, cmd, MR_trace_do_noop st)
                  else if depth = unsigned_of_int stop_depth
                      \<and> MR_trace_port event_info = MR_PORT_EXCEPTION then
                    (KEEP_INTERACTING, cmd,
                     st\<lparr>mdb_err := fprintf (''mdb: cannot continue until failure: ''
                        @ ''the call has raised an exception.'' @ newline) (mdb_err st)\<rparr>)
                  else
                    (STOP_INTERACTING,
                     cmd\<lparr>MR_trace_cmd := MR_CMD_FAIL,
                         MR_trace_stop_depth := unsigned_of_int stop_depth\<rparr>, st)))"

subsection \<open>The handler of retry\<close>

text \<open>
  \<^verbatim>\<open>MR_port_is_entry\<close> is a macro of the runtime and \<^verbatim>\<open>MR_trace_retry\<close> the retry
  operation of another file: both are parameters. \<^verbatim>\<open>MR_trace_retry\<close> gets the event,
  the ancestor level and the two options, and gives its result, the problem it reports
  and the state it leaves. The first part of the handler finds the ancestor level, or
  reports a usage error (no level); when the option parser fails, the handler does not
  return: it goes on with ancestor level 0.
\<close>

definition retry_ancestor_level :: "bool \<Rightarrow> string list \<Rightarrow> int option" where
  "retry_ancestor_level ok words =
     (if \<not> ok then Some 0
      else (case (if length words = 2 then MR_trace_is_natural_number (words ! 1) else None) of
              Some n \<Rightarrow> Some n
            | None \<Rightarrow> if length words = 1 then Some 0 else None))"

definition MR_trace_cmd_retry ::
  "(MR_Trace_Port \<Rightarrow> bool)
     \<Rightarrow> (MR_Event_Info \<Rightarrow> int \<Rightarrow> MR_Retry_Across_Io \<Rightarrow> bool \<Rightarrow> mdb_state
          \<Rightarrow> MR_Retry_Result \<times> string \<times> mdb_state)
     \<Rightarrow> getopt \<Rightarrow> string list \<Rightarrow> MR_Trace_Cmd_Info \<Rightarrow> MR_Event_Info \<Rightarrow> mdb_state
     \<Rightarrow> MR_Next \<times> MR_Trace_Cmd_Info \<times> mdb_state" where
  "MR_trace_cmd_retry MR_port_is_entry MR_trace_retry MR_getopt_long words cmd event_info st =
     (case MR_trace_options_retry MR_getopt_long MR_RETRY_IO_INTERACTIVE False words st of
        (ok, across_io, assume_all_io_is_tabled, words, st) \<Rightarrow>
          (case retry_ancestor_level ok words of
             None \<Rightarrow> (KEEP_INTERACTING, cmd, MR_trace_usage_cur_cmd st)
           | Some ancestor_level \<Rightarrow>
               if ancestor_level = 0 \<and> MR_port_is_entry (MR_trace_port event_info) then
                 (KEEP_INTERACTING, cmd, MR_trace_do_noop st)
               else
                 (case MR_trace_retry event_info ancestor_level across_io
                         assume_all_io_is_tabled st of
                    (MR_RETRY_OK_DIRECT, problem, st) \<Rightarrow>
                      (STOP_INTERACTING,
                       cmd\<lparr>MR_trace_cmd := MR_CMD_GOTO,
                           MR_trace_stop_event := MR_trace_event_number st + 1,
                           MR_trace_strict := False,
                           MR_trace_print_level := MR_default_print_level st\<rparr>, st)
                  | (MR_RETRY_OK_FINISH_FIRST, problem, st) \<Rightarrow>
                      (STOP_INTERACTING,
                       cmd\<lparr>MR_trace_cmd := MR_CMD_FINISH,
                           MR_trace_stop_depth :=
                             MR_call_depth event_info - unsigned_of_int ancestor_level,
                           MR_trace_strict := True,
                           MR_trace_print_level := MR_PRINT_LEVEL_NONE\<rparr>,
                       MR_insert_line_at_head ''retry -o'' st)
                  | (MR_RETRY_OK_FAIL_FIRST, problem, st) \<Rightarrow>
                      (STOP_INTERACTING,
                       cmd\<lparr>MR_trace_cmd := MR_CMD_FAIL,
                           MR_trace_stop_depth :=
                             MR_call_depth event_info - unsigned_of_int ancestor_level,
                           MR_trace_strict := True,
                           MR_trace_print_level := MR_PRINT_LEVEL_NONE\<rparr>,
                       MR_insert_line_at_head ''retry -o'' st)
                  | (MR_RETRY_ERROR, problem, st) \<Rightarrow>
                      (KEEP_INTERACTING, cmd,
                       st\<lparr>mdb_err := fprintf (problem @ newline) (mdb_err st)\<rparr>))))"

subsection \<open>The handler of ignore\<close>

text \<open>
  \<^verbatim>\<open>MR_ignore_spy_point\<close> belongs to the spy point module and
  \<^verbatim>\<open>MR_maybe_print_spy_point\<close> prints what it returns; the handler is modelled up to
  these calls, which it returns in the order it makes them, each with the slot it
  passes. The local variable \<^verbatim>\<open>n\<close> is not initialised: \<open>n\<close> below is whatever it
  holds when the handler starts. \<^verbatim>\<open>MR_trace_is_natural_number\<close> assigns to it only when
  the word is a number. \<^verbatim>\<open>MR_spy_point_next\<close> is the number of slots of the table.
\<close>

datatype spy_point_call =
    Ignore_Spy_Point int MR_Spy_Ignore_When int
  | Maybe_Print_Spy_Point int

fun decimal :: "nat \<Rightarrow> string" where
  "decimal n =
     (if n < 10 then [char_of (48 + n)] else decimal (n div 10) @ [char_of (48 + n mod 10)])"

declare decimal.simps [simp del]

definition print_int :: "int \<Rightarrow> string" where
  "print_int i = (if i < 0 then ''-'' @ decimal (nat (- i)) else decimal (nat i))"

definition MR_trace_cmd_ignore ::
  "getopt \<Rightarrow> int \<Rightarrow> string list \<Rightarrow> mdb_state \<Rightarrow> MR_Next \<times> spy_point_call list \<times> mdb_state" where
  "MR_trace_cmd_ignore MR_getopt_long n words st =
     (case MR_trace_options_ignore_count MR_getopt_long MR_SPY_IGNORE_ENTRY 1 words st of
        (False, ignore_when, ignore_count, words, st) \<Rightarrow> (KEEP_INTERACTING, [], st)
      | (True, ignore_when, ignore_count, words, st) \<Rightarrow>
          (case (if length words = 2 then MR_trace_is_natural_number (words ! 1) else None) of
             Some n \<Rightarrow>
               if 0 \<le> n \<and> n < int (length (MR_spy_points st))
                   \<and> spy_exists (MR_spy_points st ! nat n) then
                 (KEEP_INTERACTING,
                  [Ignore_Spy_Point n ignore_when ignore_count, Maybe_Print_Spy_Point n], st)
               else
                 (KEEP_INTERACTING, [],
                  st\<lparr>mdb_err := fprintf (''mdb: break point #'' @ print_int n
                     @ '' does not exist.'' @ newline) (mdb_err st)\<rparr>)
           | None \<Rightarrow>
               if length words = 2 \<and> words ! 1 = ''*'' then
                 (let calls = concat (map (\<lambda>i.
                        if spy_exists (MR_spy_points st ! i)
                        then [Ignore_Spy_Point n ignore_when ignore_count,
                              Maybe_Print_Spy_Point n]
                        else []) [0..<length (MR_spy_points st)]);
                      count = length (filter (\<lambda>i. spy_exists (MR_spy_points st ! i))
                        [0..<length (MR_spy_points st)])
                  in (KEEP_INTERACTING, calls,
                      if count = 0
                      then st\<lparr>mdb_err := fprintf (''There are no break points.'' @ newline)
                             (mdb_err st)\<rparr>
                      else st))
               else if length words = 1 then
                 (if 0 \<le> MR_most_recent_spy_point st
                     \<and> MR_most_recent_spy_point st < int (length (MR_spy_points st))
                     \<and> spy_exists (MR_spy_points st ! nat (MR_most_recent_spy_point st)) then
                    (let n = MR_most_recent_spy_point st
                     in (KEEP_INTERACTING,
                         [Ignore_Spy_Point n ignore_when ignore_count, Maybe_Print_Spy_Point n],
                         st))
                  else
                    (KEEP_INTERACTING, [],
                     st\<lparr>mdb_err := fprintf (''mdb: there is no most recent break point.''
                        @ newline) (mdb_err st)\<rparr>))
               else (KEEP_INTERACTING, [], MR_trace_usage_cur_cmd st)))"

subsection \<open>The handler of quit\<close>

text \<open>
  The handler either returns or ends the process with \<^verbatim>\<open>exit(EXIT_SUCCESS)\<close>.
\<close>

datatype quit_outcome =
    Process_Exits mdb_state
  | Quit_Returns MR_Next mdb_state

definition MR_trace_cmd_quit :: "getopt \<Rightarrow> string list \<Rightarrow> mdb_state \<Rightarrow> quit_outcome" where
  "MR_trace_cmd_quit MR_getopt words st =
     (case MR_trace_options_confirmed MR_getopt False words st of
        (False, confirmed, words, st) \<Rightarrow> Quit_Returns KEEP_INTERACTING st
      | (True, confirmed, words, st) \<Rightarrow>
          if length words = 1 then
            (case (if \<not> confirmed then
                     (case MR_trace_getline ''mdb: are you sure you want to quit? '' st of
                        (None, st) \<Rightarrow> (True, st)
                      | (Some line2, st) \<Rightarrow>
                          (case dropWhile MR_isspace line2 of
                             c # _ \<Rightarrow>
                               if c = CHR ''y'' \<or> c = CHR ''Y'' then (True, st)
                               else (confirmed, st)
                           | [] \<Rightarrow> (confirmed, st)))
                   else (confirmed, st)) of
               (confirmed, st) \<Rightarrow>
                 if confirmed then Process_Exits st else Quit_Returns KEEP_INTERACTING st)
          else Quit_Returns KEEP_INTERACTING (MR_trace_usage_cur_cmd st))"

section \<open>Properties of the handlers\<close>

text \<open>
  The inputs of the witnesses: words without options, on which getopt returns
  \<^verbatim>\<open>EOF\<close> at once and leaves \<^verbatim>\<open>MR_optind\<close> at 1; a movement decision; an event at
  call depth 3.
\<close>

definition getopt_no_options :: getopt where
  "getopt_no_options optstring words = \<lparr>opt_returns = [], opt_ind = 1, opt_words = words\<rparr>"

definition example_cmd :: MR_Trace_Cmd_Info where
  "example_cmd =
     \<lparr>MR_trace_cmd = MR_CMD_GOTO, MR_trace_stop_depth = 0, MR_trace_stop_event = 0,
      MR_trace_print_level = MR_PRINT_LEVEL_ALL, MR_trace_strict = False,
      MR_trace_must_check = False\<rparr>"

definition example_event :: "MR_Trace_Port \<Rightarrow> int \<Rightarrow> MR_Event_Info" where
  "example_event port detism =
     \<lparr>MR_event_number = 10, MR_call_seqno = 4, MR_call_depth = 3, MR_trace_port = port,
      MR_sle_detism = detism\<rparr>"

subsection \<open>fail\<close>

lemma movement_cmd_opts_decision:
  "movement_cmd_opts returns cmd = (ok, cmd') \<Longrightarrow>
   MR_trace_cmd cmd' = MR_trace_cmd cmd \<and> MR_trace_stop_depth cmd' = MR_trace_stop_depth cmd"
  by (induction returns cmd rule: movement_cmd_opts.induct) (auto split: if_splits)

lemma options_movement_cmd_decision:
  assumes "MR_trace_options_movement_cmd getopt cmd words st = (ok, cmd', words', st')"
  shows "MR_trace_cmd cmd' = MR_trace_cmd cmd \<and> MR_trace_stop_depth cmd' = MR_trace_stop_depth cmd"
proof -
  obtain ok0 c where m: "movement_cmd_opts (opt_returns (getopt ''NSans'' words)) cmd = (ok0, c)"
    by (cases "movement_cmd_opts (opt_returns (getopt ''NSans'' words)) cmd")
  with assms have "c = cmd'"
    by (cases ok0) (simp_all add: MR_trace_options_movement_cmd_def Let_def)
  with movement_cmd_opts_decision [OF m] show ?thesis by simp
qed

text \<open>
  C4. A well-formed \<^verbatim>\<open>fail\<close> command is one whose options are accepted and whose
  words are the command alone or the command and a natural number; its target depth
  \<open>D\<close> is the current depth, less the number. For every event: if the determinism of
  the procedure is one that uses the deterministic stack, the handler reports an error
  that names the determinism and returns \<^verbatim>\<open>KEEP_INTERACTING\<close>; otherwise, if the
  current depth equals \<open>D\<close> and the port is \<^verbatim>\<open>FAIL\<close>, it reports a no-op and returns
  \<^verbatim>\<open>KEEP_INTERACTING\<close>; if the depth equals \<open>D\<close> and the port is \<^verbatim>\<open>EXCEPTION\<close>, it
  reports that the call has raised an exception and returns \<^verbatim>\<open>KEEP_INTERACTING\<close>;
  otherwise it sets the command kind \<^verbatim>\<open>MR_CMD_FAIL\<close> and the stop depth \<open>D\<close> and returns
  \<^verbatim>\<open>STOP_INTERACTING\<close>. In the three cases that keep interacting, the decision record
  keeps its command kind and stop depth: only strictness and print level are set.
\<close>

theorem fail_command:
  assumes "MR_trace_options_movement_cmd getopt
       (cmd\<lparr>MR_trace_strict := True, MR_trace_print_level := MR_default_print_level st\<rparr>)
       words st = (True, cmd', words', st')"
    and "fail_stop_depth (MR_call_depth event_info) words' = Some D"
  shows
    "(MR_DETISM_DET_STACK (MR_sle_detism event_info) \<longrightarrow>
        MR_trace_cmd_fail MR_DETISM_DET_STACK MR_detism_names getopt words cmd event_info st =
          (KEEP_INTERACTING, cmd',
           st'\<lparr>mdb_err := mdb_err st' @
              [''mdb: cannot continue until failure: selected procedure has determinism ''
               @ MR_detism_names (MR_sle_detism event_info) @ ''.'' @ newline]\<rparr>)) \<and>
     (\<not> MR_DETISM_DET_STACK (MR_sle_detism event_info) \<and>
      MR_call_depth event_info = unsigned_of_int D \<and> MR_trace_port event_info = MR_PORT_FAIL \<longrightarrow>
        MR_trace_cmd_fail MR_DETISM_DET_STACK MR_detism_names getopt words cmd event_info st =
          (KEEP_INTERACTING, cmd',
           st'\<lparr>mdb_err := mdb_err st' @ [''This command is a no-op from this port.'' @ newline]\<rparr>)) \<and>
     (\<not> MR_DETISM_DET_STACK (MR_sle_detism event_info) \<and>
      MR_call_depth event_info = unsigned_of_int D \<and>
      MR_trace_port event_info = MR_PORT_EXCEPTION \<longrightarrow>
        MR_trace_cmd_fail MR_DETISM_DET_STACK MR_detism_names getopt words cmd event_info st =
          (KEEP_INTERACTING, cmd',
           st'\<lparr>mdb_err := mdb_err st' @
              [''mdb: cannot continue until failure: the call has raised an exception.''
               @ newline]\<rparr>)) \<and>
     (\<not> MR_DETISM_DET_STACK (MR_sle_detism event_info) \<and>
      \<not> (MR_call_depth event_info = unsigned_of_int D \<and>
         (MR_trace_port event_info = MR_PORT_FAIL \<or>
          MR_trace_port event_info = MR_PORT_EXCEPTION)) \<longrightarrow>
        MR_trace_cmd_fail MR_DETISM_DET_STACK MR_detism_names getopt words cmd event_info st =
          (STOP_INTERACTING,
           cmd'\<lparr>MR_trace_cmd := MR_CMD_FAIL, MR_trace_stop_depth := unsigned_of_int D\<rparr>, st')) \<and>
     MR_trace_cmd cmd' = MR_trace_cmd cmd \<and>
     MR_trace_stop_depth cmd' = MR_trace_stop_depth cmd"
proof -
  from options_movement_cmd_decision [OF assms(1)]
  have "MR_trace_cmd cmd' = MR_trace_cmd cmd \<and>
     MR_trace_stop_depth cmd' = MR_trace_stop_depth cmd"
    by simp
  moreover from assms
  have "MR_trace_cmd_fail MR_DETISM_DET_STACK MR_detism_names getopt words cmd event_info st =
    (if MR_DETISM_DET_STACK (MR_sle_detism event_info) then
       (KEEP_INTERACTING, cmd',
        st'\<lparr>mdb_err := mdb_err st' @
           [''mdb: cannot continue until failure: selected procedure has determinism ''
            @ MR_detism_names (MR_sle_detism event_info) @ ''.'' @ newline]\<rparr>)
     else if MR_call_depth event_info = unsigned_of_int D
         \<and> MR_trace_port event_info = MR_PORT_FAIL then
       (KEEP_INTERACTING, cmd',
        st'\<lparr>mdb_err := mdb_err st' @ [''This command is a no-op from this port.'' @ newline]\<rparr>)
     else if MR_call_depth event_info = unsigned_of_int D
         \<and> MR_trace_port event_info = MR_PORT_EXCEPTION then
       (KEEP_INTERACTING, cmd',
        st'\<lparr>mdb_err := mdb_err st' @
           [''mdb: cannot continue until failure: the call has raised an exception.''
            @ newline]\<rparr>)
     else
       (STOP_INTERACTING,
        cmd'\<lparr>MR_trace_cmd := MR_CMD_FAIL, MR_trace_stop_depth := unsigned_of_int D\<rparr>, st'))"
    by (simp add: MR_trace_cmd_fail_def Let_def fprintf_def MR_trace_do_noop_def)
  ultimately show ?thesis
    by (simp only:) auto
qed


lemma options_movement_cmd_no_options:
  "MR_trace_options_movement_cmd getopt_no_options cmd words st = (True, cmd, words, st)"
  by (simp add: MR_trace_options_movement_cmd_def getopt_no_options_def)

lemma fail_stop_depth_examples:
  "fail_stop_depth 3 [''fail''] = Some 3" "fail_stop_depth 3 [''fail'', ''1''] = Some 2"
  by (simp_all add: fail_stop_depth_def MR_trace_is_natural_number_def MR_isdigit_def
      digit_value_def int_of_unsigned_def unsigned_of_int_def)

text \<open>
  The witness: \<^verbatim>\<open>fail\<close> at depth 3 in a procedure on the deterministic stack, at a
  \<^verbatim>\<open>FAIL\<close> port, at an \<^verbatim>\<open>EXCEPTION\<close> port, and \<^verbatim>\<open>fail 1\<close> at an \<^verbatim>\<open>EXIT\<close> port.
\<close>

theorem fail_command_witness:
  "MR_trace_cmd_fail (\<lambda>detism. detism = 6) (\<lambda>detism. ''det'') getopt_no_options [''fail'']
     example_cmd (example_event MR_PORT_EXIT 6) (mdb_initial_state []) =
     (KEEP_INTERACTING,
      example_cmd\<lparr>MR_trace_strict := True, MR_trace_print_level := MR_PRINT_LEVEL_SOME\<rparr>,
      (mdb_initial_state [])\<lparr>mdb_err :=
         [''mdb: cannot continue until failure: selected procedure has determinism det.''
          @ newline]\<rparr>) \<and>
   MR_trace_cmd_fail (\<lambda>detism. detism = 6) (\<lambda>detism. ''nondet'') getopt_no_options [''fail'']
     example_cmd (example_event MR_PORT_FAIL 3) (mdb_initial_state []) =
     (KEEP_INTERACTING,
      example_cmd\<lparr>MR_trace_strict := True, MR_trace_print_level := MR_PRINT_LEVEL_SOME\<rparr>,
      (mdb_initial_state [])\<lparr>mdb_err := [''This command is a no-op from this port.'' @ newline]\<rparr>) \<and>
   MR_trace_cmd_fail (\<lambda>detism. detism = 6) (\<lambda>detism. ''nondet'') getopt_no_options [''fail'']
     example_cmd (example_event MR_PORT_EXCEPTION 3) (mdb_initial_state []) =
     (KEEP_INTERACTING,
      example_cmd\<lparr>MR_trace_strict := True, MR_trace_print_level := MR_PRINT_LEVEL_SOME\<rparr>,
      (mdb_initial_state [])\<lparr>mdb_err :=
         [''mdb: cannot continue until failure: the call has raised an exception.''
          @ newline]\<rparr>) \<and>
   MR_trace_cmd_fail (\<lambda>detism. detism = 6) (\<lambda>detism. ''nondet'') getopt_no_options
     [''fail'', ''1''] example_cmd (example_event MR_PORT_EXIT 3) (mdb_initial_state []) =
     (STOP_INTERACTING,
      example_cmd\<lparr>MR_trace_strict := True, MR_trace_print_level := MR_PRINT_LEVEL_SOME,
        MR_trace_cmd := MR_CMD_FAIL, MR_trace_stop_depth := 2\<rparr>,
      mdb_initial_state [])"
proof -
  let ?cmd = "example_cmd\<lparr>MR_trace_strict := True,
    MR_trace_print_level := MR_default_print_level (mdb_initial_state [])\<rparr>"
  have o: "\<And>words. MR_trace_options_movement_cmd getopt_no_options ?cmd words
      (mdb_initial_state []) = (True, ?cmd, words, mdb_initial_state [])"
    by (rule options_movement_cmd_no_options)
  have d: "\<And>port detism. fail_stop_depth (MR_call_depth (example_event port detism)) [''fail'']
      = Some 3"
    "\<And>port detism. fail_stop_depth (MR_call_depth (example_event port detism))
      [''fail'', ''1''] = Some 2"
    by (simp_all add: example_event_def fail_stop_depth_examples)
  have p: "MR_default_print_level (mdb_initial_state []) = MR_PRINT_LEVEL_SOME"
    "mdb_err (mdb_initial_state []) = []"
    by (simp_all add: mdb_initial_state_def)
  have u: "unsigned_of_int 3 = 3" "unsigned_of_int 2 = 2"
    by (simp_all add: unsigned_of_int_def)
  from fail_command [OF o d(1), of "\<lambda>detism. detism = 6" MR_PORT_EXIT 6 "\<lambda>detism. ''det''"]
  have 1: "MR_trace_cmd_fail (\<lambda>detism. detism = 6) (\<lambda>detism. ''det'') getopt_no_options [''fail'']
     example_cmd (example_event MR_PORT_EXIT 6) (mdb_initial_state []) =
     (KEEP_INTERACTING,
      example_cmd\<lparr>MR_trace_strict := True, MR_trace_print_level := MR_PRINT_LEVEL_SOME\<rparr>,
      (mdb_initial_state [])\<lparr>mdb_err :=
         [''mdb: cannot continue until failure: selected procedure has determinism det.''
          @ newline]\<rparr>)"
    by (simp add: example_event_def p)
  from fail_command [OF o d(1), of "\<lambda>detism. detism = 6" MR_PORT_FAIL 3 "\<lambda>detism. ''nondet''"]
  have 2: "MR_trace_cmd_fail (\<lambda>detism. detism = 6) (\<lambda>detism. ''nondet'') getopt_no_options [''fail'']
     example_cmd (example_event MR_PORT_FAIL 3) (mdb_initial_state []) =
     (KEEP_INTERACTING,
      example_cmd\<lparr>MR_trace_strict := True, MR_trace_print_level := MR_PRINT_LEVEL_SOME\<rparr>,
      (mdb_initial_state [])\<lparr>mdb_err := [''This command is a no-op from this port.'' @ newline]\<rparr>)"
    by (simp add: example_event_def p u)
  from fail_command [OF o d(1), of "\<lambda>detism. detism = 6" MR_PORT_EXCEPTION 3
    "\<lambda>detism. ''nondet''"]
  have 3: "MR_trace_cmd_fail (\<lambda>detism. detism = 6) (\<lambda>detism. ''nondet'') getopt_no_options [''fail'']
     example_cmd (example_event MR_PORT_EXCEPTION 3) (mdb_initial_state []) =
     (KEEP_INTERACTING,
      example_cmd\<lparr>MR_trace_strict := True, MR_trace_print_level := MR_PRINT_LEVEL_SOME\<rparr>,
      (mdb_initial_state [])\<lparr>mdb_err :=
         [''mdb: cannot continue until failure: the call has raised an exception.''
          @ newline]\<rparr>)"
    by (simp add: example_event_def p u)
  from fail_command [OF o d(2), of "\<lambda>detism. detism = 6" MR_PORT_EXIT 3 "\<lambda>detism. ''nondet''"]
  have 4: "MR_trace_cmd_fail (\<lambda>detism. detism = 6) (\<lambda>detism. ''nondet'') getopt_no_options
     [''fail'', ''1''] example_cmd (example_event MR_PORT_EXIT 3) (mdb_initial_state []) =
     (STOP_INTERACTING,
      example_cmd\<lparr>MR_trace_strict := True, MR_trace_print_level := MR_PRINT_LEVEL_SOME,
        MR_trace_cmd := MR_CMD_FAIL, MR_trace_stop_depth := 2\<rparr>,
      mdb_initial_state [])"
    by (simp add: example_event_def p u)
  from 1 2 3 4 show ?thesis by blast
qed

subsection \<open>retry\<close>

text \<open>
  C5. When the retry operation, called by the handler for the ancestor level asked for,
  answers that the call must be finished first, the handler puts the line
  \<^verbatim>\<open>retry -o\<close> at the head of the queue of pending lines, sets the command kind
  \<^verbatim>\<open>MR_CMD_FINISH\<close> and the stop depth to the call depth of the event less the
  ancestor level, and returns \<^verbatim>\<open>STOP_INTERACTING\<close>. (The handler reaches the retry
  operation unless it reports a usage error or a no-op first.)
\<close>

theorem retry_finish_first:
  assumes "MR_trace_options_retry getopt MR_RETRY_IO_INTERACTIVE False words st =
      (ok, across_io, assume_all_io_is_tabled, words', st')"
    and "retry_ancestor_level ok words' = Some ancestor_level"
    and "\<not> (ancestor_level = 0 \<and> MR_port_is_entry (MR_trace_port event_info))"
    and "MR_trace_retry event_info ancestor_level across_io assume_all_io_is_tabled st' =
      (MR_RETRY_OK_FINISH_FIRST, problem, st'')"
  shows "MR_trace_cmd_retry MR_port_is_entry MR_trace_retry getopt words cmd event_info st =
     (STOP_INTERACTING,
      cmd\<lparr>MR_trace_cmd := MR_CMD_FINISH,
          MR_trace_stop_depth := MR_call_depth event_info - unsigned_of_int ancestor_level,
          MR_trace_strict := True,
          MR_trace_print_level := MR_PRINT_LEVEL_NONE\<rparr>,
      st''\<lparr>MR_line_queue := ''retry -o'' # MR_line_queue st''\<rparr>)"
  using assms
  by (simp add: MR_trace_cmd_retry_def MR_insert_line_at_head_def)

lemma options_retry_no_options:
  "MR_trace_options_retry getopt_no_options across_io assume_all_io_is_tabled words st =
     (True, across_io, assume_all_io_is_tabled, words, st)"
  by (simp add: MR_trace_options_retry_def getopt_no_options_def)

text \<open>
  The witness: \<^verbatim>\<open>retry 2\<close> at depth 3 with one line already queued.
\<close>

theorem retry_finish_first_witness:
  "MR_trace_cmd_retry (\<lambda>port. port = MR_PORT_CALL)
     (\<lambda>event_info ancestor_level across_io assume_all_io_is_tabled st.
        (MR_RETRY_OK_FINISH_FIRST, [], st))
     getopt_no_options [''retry'', ''2''] example_cmd (example_event MR_PORT_EXIT 3)
     ((mdb_initial_state [])\<lparr>MR_line_queue := [''print *'']\<rparr>) =
   (STOP_INTERACTING,
    example_cmd\<lparr>MR_trace_cmd := MR_CMD_FINISH, MR_trace_stop_depth := 1,
      MR_trace_strict := True, MR_trace_print_level := MR_PRINT_LEVEL_NONE\<rparr>,
    (mdb_initial_state [])\<lparr>MR_line_queue := [''retry -o'', ''print *'']\<rparr>)"
proof -
  have l: "retry_ancestor_level True [''retry'', ''2''] = Some 2"
    by (simp add: retry_ancestor_level_def MR_trace_is_natural_number_def MR_isdigit_def
        digit_value_def)
  have n: "\<not> ((2::int) = 0 \<and> MR_trace_port (example_event MR_PORT_EXIT 3) = MR_PORT_CALL)"
    by simp
  have d: "MR_call_depth (example_event MR_PORT_EXIT 3) - unsigned_of_int 2 = 1"
    by (simp add: example_event_def unsigned_of_int_def)
  from retry_finish_first [of getopt_no_options "[''retry'', ''2'']"
      "(mdb_initial_state [])\<lparr>MR_line_queue := [''print *'']\<rparr>" True MR_RETRY_IO_INTERACTIVE
      False "[''retry'', ''2'']" "(mdb_initial_state [])\<lparr>MR_line_queue := [''print *'']\<rparr>"
      2 "\<lambda>port. port = MR_PORT_CALL" "example_event MR_PORT_EXIT 3"
      "\<lambda>event_info ancestor_level across_io assume_all_io_is_tabled st.
        (MR_RETRY_OK_FINISH_FIRST, [], st)" "[]"
      "(mdb_initial_state [])\<lparr>MR_line_queue := [''print *'']\<rparr>" example_cmd,
      OF options_retry_no_options l n refl]
  show ?thesis by (simp add: d)
qed

subsection \<open>ignore\<close>

lemma calls_of_existing_spy_points:
  "concat (map (\<lambda>i. if spy_exists (points ! i) then calls else []) [0..<length points]) =
   concat (replicate (length (filter spy_exists points)) calls)"
proof -
  have "map (\<lambda>i. if spy_exists (points ! i) then calls else []) [0..<length points] =
      map (\<lambda>point. if spy_exists point then calls else []) (map (\<lambda>i. points ! i) [0..<length points])"
    by simp
  also have "\<dots> = map (\<lambda>point. if spy_exists point then calls else []) points"
    by (simp only: map_nth)
  finally have "concat (map (\<lambda>i. if spy_exists (points ! i) then calls else [])
      [0..<length points]) =
      concat (map (\<lambda>point. if spy_exists point then calls else []) points)"
    by simp
  also have "\<dots> = concat (replicate (length (filter spy_exists points)) calls)"
    by (induction points) simp_all
  finally show ?thesis .
qed

text \<open>
  C2. In the path of \<^verbatim>\<open>ignore *\<close> the handler passes the variable \<^verbatim>\<open>n\<close> to
  \<^verbatim>\<open>MR_ignore_spy_point\<close> (and to \<^verbatim>\<open>MR_maybe_print_spy_point\<close>) in every round of
  the loop over the spy points, not the loop index: there is one pair of calls for each
  existing spy point, and every one of them names the slot \<open>n\<close>, the value the
  variable happened to hold when the handler started.
\<close>

theorem ignore_all_uses_one_slot:
  assumes "MR_trace_options_ignore_count getopt MR_SPY_IGNORE_ENTRY 1 words st =
      (True, ignore_when, ignore_count, words', st')"
    and "length words' = 2" and "words' ! 1 = ''*''"
  shows "fst (MR_trace_cmd_ignore getopt n words st) = KEEP_INTERACTING \<and>
     fst (snd (MR_trace_cmd_ignore getopt n words st)) =
       concat (replicate (length (filter spy_exists (MR_spy_points st')))
         [Ignore_Spy_Point n ignore_when ignore_count, Maybe_Print_Spy_Point n])"
proof -
  have "MR_trace_is_natural_number ''*'' = None"
    by (simp add: MR_trace_is_natural_number_def MR_isdigit_def)
  with assms show ?thesis
    by (simp add: MR_trace_cmd_ignore_def Let_def calls_of_existing_spy_points)
qed


text \<open>
  The witness: three slots of which the second is deleted, and 77 in \<^verbatim>\<open>n\<close>.
\<close>

definition example_spy_point :: "bool \<Rightarrow> MR_Spy_Point" where
  "example_spy_point exists =
     \<lparr>spy_exists = exists, spy_enabled = True, spy_ignore_when = MR_SPY_DONT_IGNORE,
      spy_ignore_count = 0\<rparr>"

lemma options_ignore_count_no_options:
  "MR_trace_options_ignore_count getopt_no_options ignore_when ignore_count words st =
     (True, ignore_when, ignore_count, words, st)"
  by (simp add: MR_trace_options_ignore_count_def getopt_no_options_def)

theorem ignore_all_uses_one_slot_witness:
  "fst (snd (MR_trace_cmd_ignore getopt_no_options 77 [''ignore'', ''*'']
     ((mdb_initial_state [])\<lparr>MR_spy_points :=
        [example_spy_point True, example_spy_point False, example_spy_point True]\<rparr>))) =
   [Ignore_Spy_Point 77 MR_SPY_IGNORE_ENTRY 1, Maybe_Print_Spy_Point 77,
    Ignore_Spy_Point 77 MR_SPY_IGNORE_ENTRY 1, Maybe_Print_Spy_Point 77]"
proof -
  let ?st = "(mdb_initial_state [])\<lparr>MR_spy_points :=
        [example_spy_point True, example_spy_point False, example_spy_point True]\<rparr>"
  have w: "length [''ignore'', ''*''] = 2" "[''ignore'', ''*''] ! 1 = ''*''"
    by simp_all
  from ignore_all_uses_one_slot [where n = 77 and st = ?st, OF options_ignore_count_no_options w]
  show ?thesis by (simp add: example_spy_point_def)
qed

subsection \<open>quit\<close>

text \<open>
  The first character of a line that is not a blank, if there is one.
\<close>

definition first_nonblank :: "string \<Rightarrow> char option" where
  "first_nonblank line = (case dropWhile MR_isspace line of c # _ \<Rightarrow> Some c | [] \<Rightarrow> None)"

lemma quit_after_reply:
  assumes "MR_trace_options_confirmed getopt False words st = (True, False, words', st')"
    and "length words' = 1"
  shows "MR_trace_cmd_quit getopt words st =
    (case MR_trace_getline ''mdb: are you sure you want to quit? '' st of
       (None, st2) \<Rightarrow> Process_Exits st2
     | (Some line2, st2) \<Rightarrow>
         if first_nonblank line2 = Some CHR ''y'' \<or> first_nonblank line2 = Some CHR ''Y''
         then Process_Exits st2 else Quit_Returns KEEP_INTERACTING st2)"
proof -
  let ?g = "MR_trace_getline ''mdb: are you sure you want to quit? '' st"
  obtain line st2 where g: "?g = (line, st2)" by (cases ?g)
  have st': "st' = st"
    using assms(1)
    by (auto simp add: MR_trace_options_confirmed_def Let_def split: prod.splits bool.splits)
  show ?thesis
  proof (cases line)
    case None
    with assms g st' show ?thesis by (simp add: MR_trace_cmd_quit_def)
  next
    case (Some line2)
    with assms g st' show ?thesis
      by (cases "dropWhile MR_isspace line2")
        (simp_all add: MR_trace_cmd_quit_def first_nonblank_def del: dropWhile_eq_Nil_conv)
  qed
qed

text \<open>
  C10. A \<^verbatim>\<open>quit\<close> without an option that confirms it reads a line, from the queue of
  pending lines when one is waiting there and from the input otherwise. At the end of
  the input the process exits; when the first character of the reply that is not a blank
  is \<^verbatim>\<open>y\<close> or \<^verbatim>\<open>Y\<close> the process exits; for every other reply the handler returns
  \<^verbatim>\<open>KEEP_INTERACTING\<close>, in the state before the command changed by the reading of the
  reply and by nothing else: a reply from the queue is gone from the queue; a reply from
  the input is gone from the input, the prompt is on \<^verbatim>\<open>mdb_out\<close> (with the echo of the
  line, if commands are echoed) and the debugger knows it is interacting.
\<close>

theorem quit_confirmation:
  assumes "MR_trace_options_confirmed getopt False words st = (True, False, words', st')"
    and "length words' = 1"
  shows
    "(MR_line_queue st = [] \<and> mdb_in st = [] \<longrightarrow>
        MR_trace_cmd_quit getopt words st =
          Process_Exits
            (st\<lparr>MR_trace_internal_interacting := True,
               mdb_out := mdb_out st @ [''mdb: are you sure you want to quit? '']\<rparr>)) \<and>
     (\<forall>line2 rest. MR_line_queue st = line2 # rest \<longrightarrow>
        MR_trace_cmd_quit getopt words st =
          (if first_nonblank line2 = Some CHR ''y'' \<or> first_nonblank line2 = Some CHR ''Y''
           then Process_Exits (st\<lparr>MR_line_queue := rest\<rparr>)
           else Quit_Returns KEEP_INTERACTING (st\<lparr>MR_line_queue := rest\<rparr>))) \<and>
     (\<forall>line2 rest. MR_line_queue st = [] \<and> mdb_in st = line2 # rest \<longrightarrow>
        MR_trace_cmd_quit getopt words st =
          (if first_nonblank line2 = Some CHR ''y'' \<or> first_nonblank line2 = Some CHR ''Y''
           then Process_Exits
             (st\<lparr>MR_trace_internal_interacting := True, mdb_in := rest,
                mdb_out := mdb_out st @ ''mdb: are you sure you want to quit? '' #
                  (if MR_echo_commands st then [line2, newline] else [])\<rparr>)
           else Quit_Returns KEEP_INTERACTING
             (st\<lparr>MR_trace_internal_interacting := True, mdb_in := rest,
                mdb_out := mdb_out st @ ''mdb: are you sure you want to quit? '' #
                  (if MR_echo_commands st then [line2, newline] else [])\<rparr>)))"
  unfolding quit_after_reply [OF assms] getline_result
  by simp

lemma options_confirmed_no_options:
  "MR_trace_options_confirmed getopt_no_options confirmed words st =
     (True, confirmed, words, st)"
  by (simp add: MR_trace_options_confirmed_def getopt_no_options_def)

text \<open>
  The witness: \<^verbatim>\<open>quit\<close> at the end of the input, answered \<^verbatim>\<open>Yes\<close>, answered
  \<^verbatim>\<open>no\<close>, and answered by a line that was waiting in the queue.
\<close>

theorem quit_confirmation_witness:
  "MR_trace_cmd_quit getopt_no_options [''quit''] (mdb_initial_state []) =
     Process_Exits ((mdb_initial_state [])\<lparr>MR_trace_internal_interacting := True,
        mdb_out := [''mdb: are you sure you want to quit? '']\<rparr>) \<and>
   MR_trace_cmd_quit getopt_no_options [''quit''] (mdb_initial_state ['' Yes'']) =
     Process_Exits ((mdb_initial_state [])\<lparr>MR_trace_internal_interacting := True,
        mdb_out := [''mdb: are you sure you want to quit? '']\<rparr>) \<and>
   MR_trace_cmd_quit getopt_no_options [''quit''] (mdb_initial_state [''no'', ''step'']) =
     Quit_Returns KEEP_INTERACTING
       ((mdb_initial_state [''step''])\<lparr>MR_trace_internal_interacting := True,
          mdb_out := [''mdb: are you sure you want to quit? '']\<rparr>) \<and>
   MR_trace_cmd_quit getopt_no_options [''quit'']
       ((mdb_initial_state [''step''])\<lparr>MR_line_queue := [''no'', ''next'']\<rparr>) =
     Quit_Returns KEEP_INTERACTING
       ((mdb_initial_state [''step''])\<lparr>MR_line_queue := [''next'']\<rparr>)"
proof -
  have w: "length [''quit''] = 1" by simp
  note q = quit_confirmation [OF options_confirmed_no_options w]
  have f: "first_nonblank '' Yes'' = Some CHR ''Y''" "first_nonblank ''no'' = Some CHR ''n''"
    by (simp_all add: first_nonblank_def MR_isspace_def)
  have e: "MR_line_queue (mdb_initial_state []) = [] \<and> mdb_in (mdb_initial_state []) = []"
    by (simp add: mdb_initial_state_def)
  from q [of "mdb_initial_state []", THEN conjunct1, THEN mp, OF e]
  have 1: "MR_trace_cmd_quit getopt_no_options [''quit''] (mdb_initial_state []) =
     Process_Exits ((mdb_initial_state [])\<lparr>MR_trace_internal_interacting := True,
        mdb_out := [''mdb: are you sure you want to quit? '']\<rparr>)"
    by (simp add: mdb_initial_state_def)
  have y: "MR_line_queue (mdb_initial_state ['' Yes'']) = [] \<and>
      mdb_in (mdb_initial_state ['' Yes'']) = '' Yes'' # []"
    by (simp add: mdb_initial_state_def)
  from q [of "mdb_initial_state ['' Yes'']", THEN conjunct2, THEN conjunct2, THEN spec,
      THEN spec, THEN mp, OF y]
  have 2: "MR_trace_cmd_quit getopt_no_options [''quit''] (mdb_initial_state ['' Yes'']) =
     Process_Exits ((mdb_initial_state [])\<lparr>MR_trace_internal_interacting := True,
        mdb_out := [''mdb: are you sure you want to quit? '']\<rparr>)"
    by (simp add: f mdb_initial_state_def)
  have n: "MR_line_queue (mdb_initial_state [''no'', ''step'']) = [] \<and>
      mdb_in (mdb_initial_state [''no'', ''step'']) = ''no'' # [''step'']"
    by (simp add: mdb_initial_state_def)
  from q [of "mdb_initial_state [''no'', ''step'']", THEN conjunct2, THEN conjunct2, THEN spec,
      THEN spec, THEN mp, OF n]
  have 3: "MR_trace_cmd_quit getopt_no_options [''quit''] (mdb_initial_state [''no'', ''step'']) =
     Quit_Returns KEEP_INTERACTING
       ((mdb_initial_state [''step''])\<lparr>MR_trace_internal_interacting := True,
          mdb_out := [''mdb: are you sure you want to quit? '']\<rparr>)"
    by (simp add: f mdb_initial_state_def)
  have k: "MR_line_queue ((mdb_initial_state [''step''])\<lparr>MR_line_queue := [''no'', ''next'']\<rparr>) =
      ''no'' # [''next'']"
    by simp
  from q [of "(mdb_initial_state [''step''])\<lparr>MR_line_queue := [''no'', ''next'']\<rparr>",
      THEN conjunct2, THEN conjunct1, THEN spec, THEN spec, THEN mp, OF k]
  have 4: "MR_trace_cmd_quit getopt_no_options [''quit'']
       ((mdb_initial_state [''step''])\<lparr>MR_line_queue := [''no'', ''next'']\<rparr>) =
     Quit_Returns KEEP_INTERACTING
       ((mdb_initial_state [''step''])\<lparr>MR_line_queue := [''next'']\<rparr>)"
    by (simp add: f)
  from 1 2 3 4 show ?thesis by (intro conjI)
qed

text \<open>
  As stated, with all of the session's state unchanged after a refused quit, C10 fails
  when a line is waiting in the queue: typed on one line with a semicolon, \<^verbatim>\<open>quit\<close>
  leaves the rest of the line in the queue, the handler takes that line for the reply,
  and the pending command is gone when the handler returns.
\<close>

theorem quit_confirmation_counterexample:
  "MR_trace_get_command ''mdb> '' (mdb_initial_state [''quit ; step'']) =
     (''quit '',
      (mdb_initial_state [])\<lparr>MR_trace_internal_interacting := True, mdb_out := [''mdb> ''],
         MR_line_queue := ['' step'']\<rparr>) \<and>
   MR_trace_cmd_quit getopt_no_options [''quit'']
     ((mdb_initial_state [])\<lparr>MR_trace_internal_interacting := True, mdb_out := [''mdb> ''],
         MR_line_queue := ['' step'']\<rparr>) =
     Quit_Returns KEEP_INTERACTING
       ((mdb_initial_state [])\<lparr>MR_trace_internal_interacting := True, mdb_out := [''mdb> ''],
         MR_line_queue := []\<rparr>) \<and>
   (mdb_initial_state [])\<lparr>MR_trace_internal_interacting := True, mdb_out := [''mdb> ''],
         MR_line_queue := []\<rparr> \<noteq>
   (mdb_initial_state [])\<lparr>MR_trace_internal_interacting := True, mdb_out := [''mdb> ''],
         MR_line_queue := ['' step'']\<rparr>"
proof -
  let ?st1 = "(mdb_initial_state [])\<lparr>MR_trace_internal_interacting := True,
         mdb_out := [''mdb> ''], MR_line_queue := ['' step'']\<rparr>"
  have c: "MR_trace_continue_line ''quit ; step'' False False st =
     \<lparr>cl_continues = False, cl_text = ''quit '', cl_single_quoted = False,
      cl_double_quoted = False, cl_state = MR_insert_line_at_head '' step'' st\<rparr>" for st
    by (simp add: MR_trace_continue_line_def ESCAPE_CHAR_def SINGLE_QUOTE_CHAR_def
      DOUBLE_QUOTE_CHAR_def)
  have 1: "MR_trace_get_command ''mdb> '' (mdb_initial_state [''quit ; step'']) =
      (''quit '', ?st1)"
    by (simp add: MR_trace_get_command_def getline_result get_command_loop.simps c
        MR_insert_line_at_head_def mdb_initial_state_def)
  have 2: "MR_trace_cmd_quit getopt_no_options [''quit''] ?st1 =
      Quit_Returns KEEP_INTERACTING (?st1\<lparr>MR_line_queue := []\<rparr>)"
    by (simp add: MR_trace_cmd_quit_def options_confirmed_no_options getline_result
        mdb_initial_state_def MR_isspace_def)
  have 3: "?st1\<lparr>MR_line_queue := []\<rparr> \<noteq> ?st1"
    by (simp add: mdb_initial_state_def)
  from 1 2 3 show ?thesis by (simp add: mdb_initial_state_def)
qed

section \<open>Event reports and the scroll pager\<close>

text \<open>
  \<^verbatim>\<open>MR_trace_event_internal\<close>, the entry point for an event, and
  \<^verbatim>\<open>MR_trace_event_internal_report\<close>, which prints the report of an event behind the
  pager. The three scroll variables are C \<^verbatim>\<open>int\<close>s.

  A print list is a list of nodes; the structure is declared with the spy points, in
  another file, and the fields read here are the format (an enumeration of the browser,
  a C \<^verbatim>\<open>int\<close>), what to print, the name of the variable and whether to warn when
  there is no such variable. \<^verbatim>\<open>p_what\<close> has three values, so the \<^verbatim>\<open>default\<close> case
  of the \<^verbatim>\<open>switch\<close> in \<^verbatim>\<open>MR_trace_var_print_list\<close> does not arise.
\<close>

datatype MR_Spy_Print_What = MR_SPY_PRINT_ALL | MR_SPY_PRINT_GOAL | MR_SPY_PRINT_ONE

record MR_Spy_Print =
  p_format :: int
  p_what :: MR_Spy_Print_What
  p_name :: string
  p_warn :: bool

text \<open>
  A command handler returns \<^verbatim>\<open>KEEP_INTERACTING\<close> or \<^verbatim>\<open>STOP_INTERACTING\<close>, having
  changed the movement decision, the jump address (\<^verbatim>\<open>NULL\<close> is \<open>None\<close>) and the
  state, or it ends the process, as \<^verbatim>\<open>quit\<close> does. The entry point returns a jump
  address, or it does not return because a handler ended the process or because the
  dispatcher called the null handler of a reserved entry.
\<close>

datatype handler_outcome =
    Handler_Returns MR_Next "nat option" MR_Trace_Cmd_Info mdb_state
  | Handler_Exits mdb_state

datatype event_outcome =
    Event_Returns "nat option" MR_Trace_Cmd_Info mdb_state
  | Process_Exited mdb_state
  | Null_Function_Jump "string list" mdb_state

text \<open>
  What the two functions use and the file does not define, or defines in terms of the
  environment of the process: the three browsers of the print list, each a function of
  the arguments that vary and of the stream it is given, \<^verbatim>\<open>MR_mdb_out\<close>, returning the
  problem it reports (\<^verbatim>\<open>NULL\<close> is \<open>None\<close>) and the stream with what it printed; the
  text that \<^verbatim>\<open>MR_trace_event_print_internal_report\<close> prints for an event, which it
  puts together with functions of the runtime; \<^verbatim>\<open>MR_trace_internal_ensure_init\<close>,
  which on first use reads environment variables and the initialisation files; the
  condition of a spy point that could not be evaluated, as printed, with the problem,
  when there is one (\<^verbatim>\<open>MR_spy_point_cond_bad\<close>, \<^verbatim>\<open>MR_spy_point_cond_problem\<close>); and
  the command handlers, by the name of the function in the command table. Everything
  below holds for every choice of them.
\<close>

record mdb_externals =
  MR_trace_browse_all :: "int \<Rightarrow> string list \<Rightarrow> string option \<times> string list"
  MR_trace_browse_one_goal :: "int \<Rightarrow> string list \<Rightarrow> string option \<times> string list"
  MR_trace_parse_browse_one :: "string \<Rightarrow> int \<Rightarrow> string list \<Rightarrow> string option \<times> string list"
  event_report :: "MR_Event_Info \<Rightarrow> string"
  MR_trace_internal_ensure_init :: "mdb_state \<Rightarrow> mdb_state"
  MR_spy_point_cond_problem :: "(string \<times> string) option"
  command_handlers ::
    "string \<Rightarrow> string list \<Rightarrow> MR_Trace_Cmd_Info \<Rightarrow> MR_Event_Info \<Rightarrow> nat option \<Rightarrow> mdb_state
       \<Rightarrow> handler_outcome"

text \<open>
  \<^verbatim>\<open>MR_trace_var_print_list\<close>: the \<^verbatim>\<open>switch\<close> of the loop body, the report of a
  problem on \<^verbatim>\<open>MR_mdb_err\<close>, and the loop with its counter.
\<close>

definition print_list_switch ::
  "mdb_externals \<Rightarrow> MR_Spy_Print \<Rightarrow> string list \<Rightarrow> string option \<times> string option \<times> string list" where
  "print_list_switch ext node out =
     (case p_what node of
        MR_SPY_PRINT_ALL \<Rightarrow>
          (case MR_trace_browse_all ext (p_format node) out of
             (problem, out) \<Rightarrow> (problem, None, out))
      | MR_SPY_PRINT_GOAL \<Rightarrow>
          (case MR_trace_browse_one_goal ext (p_format node) out of
             (problem, out) \<Rightarrow> (problem, None, out))
      | MR_SPY_PRINT_ONE \<Rightarrow>
          (case MR_trace_parse_browse_one ext (p_name node) (p_format node) out of
             (problem, out) \<Rightarrow>
               if problem = Some ''there is no such variable'' then
                 (if p_warn node
                  then (Some ''there is no variable named'', Some (p_name node), out)
                  else (None, None, out))
               else (problem, None, out)))"

definition print_list_problem :: "string option \<Rightarrow> string option \<Rightarrow> mdb_state \<Rightarrow> mdb_state" where
  "print_list_problem problem after_problem st =
     (case problem of
        None \<Rightarrow> st
      | Some problem \<Rightarrow>
          (let st = st\<lparr>mdb_err := fprintf (''mdb: '' @ problem) (mdb_err st)\<rparr>;
               st = (case after_problem of
                       None \<Rightarrow> st
                     | Some after_problem \<Rightarrow>
                         st\<lparr>mdb_err := fprintf ('' '' @ after_problem) (mdb_err st)\<rparr>)
           in st\<lparr>mdb_err := fprintf (''.'' @ newline) (mdb_err st)\<rparr>))"

fun var_print_list_loop ::
  "mdb_externals \<Rightarrow> int \<Rightarrow> MR_Spy_Print list \<Rightarrow> mdb_state \<Rightarrow> int \<times> mdb_state" where
  "var_print_list_loop ext count [] st = (count, st)"
| "var_print_list_loop ext count (node # print_list) st =
     (let count = count + 1
      in case print_list_switch ext node (mdb_out st) of
           (problem, after_problem, out) \<Rightarrow>
             var_print_list_loop ext count print_list
               (print_list_problem problem after_problem (st\<lparr>mdb_out := out\<rparr>)))"

definition MR_trace_var_print_list :: "mdb_externals \<Rightarrow> MR_Spy_Print list \<Rightarrow> mdb_state \<Rightarrow> int \<times> mdb_state" where
  "MR_trace_var_print_list ext print_list st = var_print_list_loop ext 0 print_list st"

text \<open>
  The \<^verbatim>\<open>do\<close> loop of \<^verbatim>\<open>MR_trace_event_internal\<close>: a command is read and
  dispatched until a handler says \<^verbatim>\<open>STOP_INTERACTING\<close>. Handlers can put lines into
  the queue, so nothing bounds the number of rounds: the result is \<open>None\<close> when the loop
  does not end.
\<close>

partial_function (option) interaction_loop ::
  "mdb_externals \<Rightarrow> MR_Event_Info \<Rightarrow> nat option \<Rightarrow> MR_Trace_Cmd_Info \<Rightarrow> mdb_state \<Rightarrow> event_outcome option" where
  "interaction_loop ext event_info jumpaddr cmd st =
     (case MR_trace_get_command ''mdb> '' st of
        (line, st) \<Rightarrow>
          (case MR_trace_debug_cmd line st of
             Returned res st \<Rightarrow>
               if res = KEEP_INTERACTING then interaction_loop ext event_info jumpaddr cmd st
               else Some (Event_Returns jumpaddr cmd st)
           | Handler_Called function words st \<Rightarrow>
               (case command_handlers ext function words cmd event_info jumpaddr st of
                  Handler_Returns res jumpaddr cmd st \<Rightarrow>
                    if res = KEEP_INTERACTING then interaction_loop ext event_info jumpaddr cmd st
                    else Some (Event_Returns jumpaddr cmd st)
                | Handler_Exits st \<Rightarrow> Some (Process_Exited st))
           | Null_Function_Called words st \<Rightarrow> Some (Null_Function_Jump words st)))"

text \<open>
  The test of the pager, with the comment that one line is left for the prompt itself.
\<close>

definition scroll_pause_needed :: "mdb_state \<Rightarrow> int \<Rightarrow> bool" where
  "scroll_pause_needed st len =
     (MR_scroll_control st \<and> MR_scroll_next st + len \<ge> MR_scroll_limit st - 1)"

text \<open>
  The block at the label \<^verbatim>\<open>try_again\<close>: the outcome says whether the reply was
  \<^verbatim>\<open>q\<close>. Each round reads a line, so the rounds are at most as many as the lines
  left to read.
\<close>

function more_prompt :: "MR_Trace_Cmd_Info \<Rightarrow> mdb_state \<Rightarrow> bool \<times> MR_Trace_Cmd_Info \<times> mdb_state" where
  "more_prompt cmd st =
     (case MR_trace_getline ''--more-- '' st of
        (None, st') \<Rightarrow> (False, cmd, st')
      | (Some buf, st') \<Rightarrow>
          (case dropWhile MR_isspace buf of
             [] \<Rightarrow> (False, cmd, st')
           | c # _ \<Rightarrow>
               if c = CHR ''a'' then
                 (False, cmd\<lparr>MR_trace_print_level := MR_PRINT_LEVEL_ALL\<rparr>, st')
               else if c = CHR ''n'' then
                 (False, cmd\<lparr>MR_trace_print_level := MR_PRINT_LEVEL_NONE\<rparr>, st')
               else if c = CHR ''s'' then
                 (False, cmd\<lparr>MR_trace_print_level := MR_PRINT_LEVEL_SOME\<rparr>, st')
               else if c = CHR ''q'' then (True, cmd, st')
               else
                 more_prompt cmd
                   (st'\<lparr>mdb_err := fprintf (''unknown command, try again'' @ newline)
                      (mdb_err st')\<rparr>)))"
  by pat_completeness auto

termination more_prompt
proof (relation "measure (\<lambda>(cmd, st). pending_lines st)")
  show "wf (measure (\<lambda>(cmd, st). pending_lines st))" by simp
next
  fix cmd :: MR_Trace_Cmd_Info and st st' :: mdb_state and x buf
  assume "(x, st') = MR_trace_getline ''--more-- '' st" and "x = Some buf"
  then have "MR_trace_getline ''--more-- '' st = (Some buf, st')" by simp
  then have "pending_lines st' < pending_lines st" by (rule getline_takes_a_line)
  then show "((cmd, st'\<lparr>mdb_err := fprintf (''unknown command, try again'' @ newline)
        (mdb_err st')\<rparr>), (cmd, st)) \<in> measure (\<lambda>(cmd, st). pending_lines st)"
    by (simp add: pending_lines_def)
qed

declare more_prompt.simps [simp del]

text \<open>
  The end of \<^verbatim>\<open>MR_trace_event_internal_report\<close>, from the call of
  \<^verbatim>\<open>MR_trace_event_print_internal_report\<close> on. (\<^verbatim>\<open>MR_trace_init_point_vars\<close> sets
  up the variables of the event for the browsers.)
\<close>

definition print_report_and_count ::
  "mdb_externals \<Rightarrow> MR_Spy_Print list \<Rightarrow> MR_Event_Info \<Rightarrow> mdb_state \<Rightarrow> mdb_state" where
  "print_report_and_count ext print_list event_info st =
     (let st = st\<lparr>mdb_out := fprintf (event_report ext event_info) (mdb_out st)\<rparr>;
          st = st\<lparr>MR_scroll_next := MR_scroll_next st + 1\<rparr>
      in if print_list \<noteq> [] then
           (case MR_trace_var_print_list ext print_list st of
              (count, st) \<Rightarrow> st\<lparr>MR_scroll_next := MR_scroll_next st + count\<rparr>)
         else st)"

text \<open>
  \<^verbatim>\<open>MR_trace_event_internal\<close> after its first test, that is with \<^verbatim>\<open>interactive\<close>
  true, in the build without \<^verbatim>\<open>MR_TRACE_CHECK_INTEGRITY\<close> and without deep
  profiling. It is a definition of its own because the pager calls the function, with
  \<^verbatim>\<open>interactive\<close> true, and the function calls the pager when \<^verbatim>\<open>interactive\<close> is
  false. \<^verbatim>\<open>MR_turn_off_debug\<close> and \<^verbatim>\<open>MR_turn_debug_back_on\<close> save and restore the
  debugging flags of the runtime, and \<^verbatim>\<open>MR_trace_maybe_sync_source_window\<close> talks to
  the source window; they touch none of the state modelled here.
\<close>

definition event_internal_interactive ::
  "mdb_externals \<Rightarrow> MR_Trace_Cmd_Info \<Rightarrow> MR_Spy_Print list \<Rightarrow> MR_Event_Info \<Rightarrow> mdb_state
     \<Rightarrow> event_outcome option" where
  "event_internal_interactive ext cmd print_list event_info st =
     (let st = MR_trace_internal_ensure_init ext st;
          st = (case MR_spy_point_cond_problem ext of
                  None \<Rightarrow> st
                | Some (cond, problem) \<Rightarrow>
                    (let st = st\<lparr>mdb_err := fprintf (''mdb: couldn'' @ [CHR 0x27]
                           @ ''t evaluate break point condition'' @ newline) (mdb_err st)\<rparr>;
                         st = st\<lparr>mdb_err := fprintf cond (mdb_err st)\<rparr>
                     in st\<lparr>mdb_err := fprintf ('': '' @ problem @ ''.'' @ newline) (mdb_err st)\<rparr>));
          st = st\<lparr>mdb_out := fprintf (event_report ext event_info) (mdb_out st)\<rparr>;
          st = snd (MR_trace_var_print_list ext print_list st)
      in case interaction_loop ext event_info None cmd st of
           None \<Rightarrow> None
         | Some (Event_Returns jumpaddr cmd st) \<Rightarrow>
             Some (Event_Returns jumpaddr
               (cmd\<lparr>MR_trace_must_check :=
                  (\<not> MR_trace_strict cmd \<or> MR_trace_print_level cmd \<noteq> MR_PRINT_LEVEL_NONE)\<rparr>)
               (st\<lparr>MR_scroll_next := 0\<rparr>))
         | Some (Process_Exited st) \<Rightarrow> Some (Process_Exited st)
         | Some (Null_Function_Jump words st) \<Rightarrow> Some (Null_Function_Jump words st))"

definition MR_trace_event_internal_report ::
  "mdb_externals \<Rightarrow> MR_Trace_Cmd_Info \<Rightarrow> MR_Spy_Print list \<Rightarrow> MR_Event_Info \<Rightarrow> mdb_state
     \<Rightarrow> event_outcome option" where
  "MR_trace_event_internal_report ext cmd print_list event_info st =
     (let len = int (length print_list)
      in if scroll_pause_needed st len then
           (case more_prompt cmd st of
              (True, cmd, st) \<Rightarrow> event_internal_interactive ext cmd [] event_info st
            | (False, cmd, st) \<Rightarrow>
                Some (Event_Returns None cmd
                  (print_report_and_count ext print_list event_info (st\<lparr>MR_scroll_next := 0\<rparr>))))
         else Some (Event_Returns None cmd (print_report_and_count ext print_list event_info st)))"

definition MR_trace_event_internal ::
  "mdb_externals \<Rightarrow> MR_Trace_Cmd_Info \<Rightarrow> bool \<Rightarrow> MR_Spy_Print list \<Rightarrow> MR_Event_Info \<Rightarrow> mdb_state
     \<Rightarrow> event_outcome option" where
  "MR_trace_event_internal ext cmd interactive print_list event_info st =
     (if \<not> interactive then MR_trace_event_internal_report ext cmd print_list event_info st
      else event_internal_interactive ext cmd print_list event_info st)"

text \<open>
  The handler of \<^verbatim>\<open>step\<close>, for the examples.
\<close>

definition MR_trace_cmd_step ::
  "getopt \<Rightarrow> string list \<Rightarrow> MR_Trace_Cmd_Info \<Rightarrow> mdb_state
     \<Rightarrow> MR_Next \<times> MR_Trace_Cmd_Info \<times> mdb_state" where
  "MR_trace_cmd_step MR_getopt_long words cmd st =
     (let cmd = cmd\<lparr>MR_trace_strict := False\<rparr>;
          cmd = cmd\<lparr>MR_trace_print_level := MR_default_print_level st\<rparr>
      in case MR_trace_options_movement_cmd MR_getopt_long cmd words st of
           (False, cmd, words, st) \<Rightarrow> (KEEP_INTERACTING, cmd, st)
         | (True, cmd, words, st) \<Rightarrow>
             if length words = 1 then
               (STOP_INTERACTING,
                cmd\<lparr>MR_trace_cmd := MR_CMD_GOTO,
                    MR_trace_stop_event := MR_trace_event_number st + 1\<rparr>, st)
             else
               (case (if length words = 2 then MR_trace_is_natural_number (words ! 1) else None) of
                  Some n \<Rightarrow>
                    (STOP_INTERACTING,
                     cmd\<lparr>MR_trace_cmd := MR_CMD_GOTO,
                         MR_trace_stop_event := MR_trace_event_number st + unsigned_of_int n\<rparr>, st)
                | None \<Rightarrow> (KEEP_INTERACTING, cmd, MR_trace_usage_cur_cmd st)))"

subsection \<open>Properties of the pager\<close>

text \<open>
  The print list changes nothing but the two streams, and its count is its length.
\<close>

lemma var_print_list_loop_count:
  "fst (var_print_list_loop ext count print_list st) = count + int (length print_list)"
proof (induction print_list arbitrary: count st)
  case Nil
  show ?case by simp
next
  case (Cons node print_list)
  show ?case
    by (simp add: Let_def Cons.IH split: prod.splits)
qed

lemma print_list_problem_state:
  "(print_list_problem problem after_problem st)\<lparr>mdb_err := e\<rparr> = st\<lparr>mdb_err := e\<rparr>"
  by (simp add: print_list_problem_def Let_def split: option.splits)

lemma var_print_list_loop_state:
  "(snd (var_print_list_loop ext count print_list st))\<lparr>mdb_out := out, mdb_err := err\<rparr> =
     st\<lparr>mdb_out := out, mdb_err := err\<rparr>"
proof (induction print_list arbitrary: count st)
  case Nil
  show ?case by simp
next
  case (Cons node print_list)
  obtain problem after_problem out' where
    s: "print_list_switch ext node (mdb_out st) = (problem, after_problem, out')"
    by (cases "print_list_switch ext node (mdb_out st)")
  let ?st = "print_list_problem problem after_problem (st\<lparr>mdb_out := out'\<rparr>)"
  have "(snd (var_print_list_loop ext count (node # print_list) st))
      \<lparr>mdb_out := out, mdb_err := err\<rparr> = ?st\<lparr>mdb_out := out, mdb_err := err\<rparr>"
    by (simp add: s Cons.IH)
  also have "\<dots> = (?st\<lparr>mdb_err := err\<rparr>)\<lparr>mdb_out := out\<rparr>" by simp
  also have "\<dots> = st\<lparr>mdb_out := out, mdb_err := err\<rparr>"
    by (simp only: print_list_problem_state) simp
  finally show ?case .
qed

lemma var_print_list_keeps:
  "MR_scroll_next (snd (MR_trace_var_print_list ext print_list st)) = MR_scroll_next st"
  "MR_scroll_limit (snd (MR_trace_var_print_list ext print_list st)) = MR_scroll_limit st"
  "MR_scroll_control (snd (MR_trace_var_print_list ext print_list st)) = MR_scroll_control st"
  "MR_line_queue (snd (MR_trace_var_print_list ext print_list st)) = MR_line_queue st"
  "mdb_in (snd (MR_trace_var_print_list ext print_list st)) = mdb_in st"
proof -
  let ?s = "snd (MR_trace_var_print_list ext print_list st)"
  have e: "?s\<lparr>mdb_out := [], mdb_err := []\<rparr> = st\<lparr>mdb_out := [], mdb_err := []\<rparr>"
    by (simp add: MR_trace_var_print_list_def var_print_list_loop_state)
  have "MR_scroll_next (?s\<lparr>mdb_out := [], mdb_err := []\<rparr>) = MR_scroll_next ?s" by simp
  then show "MR_scroll_next ?s = MR_scroll_next st" by (simp add: e)
  have "MR_scroll_limit (?s\<lparr>mdb_out := [], mdb_err := []\<rparr>) = MR_scroll_limit ?s" by simp
  then show "MR_scroll_limit ?s = MR_scroll_limit st" by (simp add: e)
  have "MR_scroll_control (?s\<lparr>mdb_out := [], mdb_err := []\<rparr>) = MR_scroll_control ?s" by simp
  then show "MR_scroll_control ?s = MR_scroll_control st" by (simp add: e)
  have "MR_line_queue (?s\<lparr>mdb_out := [], mdb_err := []\<rparr>) = MR_line_queue ?s" by simp
  then show "MR_line_queue ?s = MR_line_queue st" by (simp add: e)
  have "mdb_in (?s\<lparr>mdb_out := [], mdb_err := []\<rparr>) = mdb_in ?s" by simp
  then show "mdb_in ?s = mdb_in st" by (simp add: e)
qed

lemma print_report_and_count_facts:
  "MR_scroll_next (print_report_and_count ext print_list event_info st) =
     MR_scroll_next st + 1 + int (length print_list)"
  "MR_line_queue (print_report_and_count ext print_list event_info st) = MR_line_queue st"
  "mdb_in (print_report_and_count ext print_list event_info st) = mdb_in st"
proof -
  let ?st = "st\<lparr>mdb_out := fprintf (event_report ext event_info) (mdb_out st),
    MR_scroll_next := MR_scroll_next st + 1\<rparr>"
  obtain count st' where v: "MR_trace_var_print_list ext print_list ?st = (count, st')"
    by (cases "MR_trace_var_print_list ext print_list ?st")
  from v have c: "count = int (length print_list)"
    using var_print_list_loop_count [of ext 0 print_list ?st]
    by (simp add: MR_trace_var_print_list_def)
  from v var_print_list_keeps [of ext print_list ?st]
  have k: "MR_scroll_next st' = MR_scroll_next st + 1" "MR_line_queue st' = MR_line_queue st"
    "mdb_in st' = mdb_in st"
    by simp_all
  show "MR_scroll_next (print_report_and_count ext print_list event_info st) =
     MR_scroll_next st + 1 + int (length print_list)"
    using v c k by (cases print_list) (auto simp add: print_report_and_count_def)
  show "MR_line_queue (print_report_and_count ext print_list event_info st) = MR_line_queue st"
    using v c k by (cases print_list) (auto simp add: print_report_and_count_def)
  show "mdb_in (print_report_and_count ext print_list event_info st) = mdb_in st"
    using v c k by (cases print_list) (auto simp add: print_report_and_count_def)
qed

lemma print_report_and_count_plain:
  "print_report_and_count ext [] event_info st =
     st\<lparr>mdb_out := mdb_out st @ [event_report ext event_info],
        MR_scroll_next := MR_scroll_next st + 1\<rparr>"
  by (simp add: print_report_and_count_def fprintf_def)

text \<open>
  A run of events reported one after the other with an empty print list, as long as the
  reports return.
\<close>

fun plain_reports ::
  "mdb_externals \<Rightarrow> MR_Event_Info \<Rightarrow> nat \<Rightarrow> MR_Trace_Cmd_Info \<Rightarrow> mdb_state \<Rightarrow> event_outcome option" where
  "plain_reports ext event_info 0 cmd st = Some (Event_Returns None cmd st)"
| "plain_reports ext event_info (Suc n) cmd st =
     (case plain_reports ext event_info n cmd st of
        Some (Event_Returns jumpaddr cmd st) \<Rightarrow>
          MR_trace_event_internal_report ext cmd [] event_info st
      | outcome \<Rightarrow> outcome)"

lemma more_prompt_end_of_input:
  "MR_trace_getline ''--more-- '' st = (None, st') \<Longrightarrow> more_prompt cmd st = (False, cmd, st')"
  by (subst more_prompt.simps) simp

lemma more_prompt_reply:
  assumes "MR_trace_getline ''--more-- '' st = (Some buf, st')"
  shows "more_prompt cmd st =
    (case first_nonblank buf of
       None \<Rightarrow> (False, cmd, st')
     | Some c \<Rightarrow>
         if c = CHR ''a'' then (False, cmd\<lparr>MR_trace_print_level := MR_PRINT_LEVEL_ALL\<rparr>, st')
         else if c = CHR ''n'' then
           (False, cmd\<lparr>MR_trace_print_level := MR_PRINT_LEVEL_NONE\<rparr>, st')
         else if c = CHR ''s'' then
           (False, cmd\<lparr>MR_trace_print_level := MR_PRINT_LEVEL_SOME\<rparr>, st')
         else if c = CHR ''q'' then (True, cmd, st')
         else more_prompt cmd
           (st'\<lparr>mdb_err := mdb_err st' @ [''unknown command, try again'' @ newline]\<rparr>))"
  using assms
  by (subst more_prompt.simps, cases "dropWhile MR_isspace buf")
    (simp_all add: first_nonblank_def fprintf_def del: dropWhile_eq_Nil_conv)

lemma getline_scroll:
  assumes "MR_trace_getline prompt st = (line, st')"
  shows "MR_scroll_control st' = MR_scroll_control st"
    and "MR_scroll_limit st' = MR_scroll_limit st"
    and "MR_scroll_next st' = MR_scroll_next st"
  using assms
  by (auto simp add: getline_result split: list.splits if_splits)

lemma report_without_pause:
  assumes "\<not> scroll_pause_needed st (int (length print_list))"
  shows "MR_trace_event_internal_report ext cmd print_list event_info st =
     Some (Event_Returns None cmd (print_report_and_count ext print_list event_info st))"
  using assms
  by (simp add: MR_trace_event_internal_report_def)

lemma report_with_pause:
  assumes "scroll_pause_needed st (int (length print_list))"
  shows "MR_trace_event_internal_report ext cmd print_list event_info st =
     (case more_prompt cmd st of
        (True, cmd, st) \<Rightarrow> MR_trace_event_internal ext cmd True [] event_info st
      | (False, cmd, st) \<Rightarrow>
          Some (Event_Returns None cmd
            (print_report_and_count ext print_list event_info (st\<lparr>MR_scroll_next := 0\<rparr>))))"
  using assms
  by (simp add: MR_trace_event_internal_report_def MR_trace_event_internal_def
      split: prod.splits bool.splits)

lemma report_rejected_reply:
  assumes p: "scroll_pause_needed st (int (length print_list))"
    and g: "MR_trace_getline ''--more-- '' st = (Some buf, st')"
    and c: "first_nonblank buf = Some c"
      "c \<noteq> CHR ''a''" "c \<noteq> CHR ''n''" "c \<noteq> CHR ''s''" "c \<noteq> CHR ''q''"
  shows "MR_trace_event_internal_report ext cmd print_list event_info st =
     MR_trace_event_internal_report ext cmd print_list event_info
       (st'\<lparr>mdb_err := mdb_err st' @ [''unknown command, try again'' @ newline]\<rparr>)"
proof -
  let ?st = "st'\<lparr>mdb_err := mdb_err st' @ [''unknown command, try again'' @ newline]\<rparr>"
  from p getline_scroll [OF g]
  have p': "scroll_pause_needed ?st (int (length print_list))"
    by (simp add: scroll_pause_needed_def)
  from more_prompt_reply [OF g] c have "more_prompt cmd st = more_prompt cmd ?st"
    by simp
  then show ?thesis
    by (simp only: report_with_pause [OF p] report_with_pause [OF p'])
qed

lemma event_internal_resets_counter:
  assumes "MR_trace_event_internal ext cmd True print_list event_info st =
    Some (Event_Returns jumpaddr cmd' st')"
  shows "MR_scroll_next st' = 0"
  using assms
  by (auto simp add: MR_trace_event_internal_def event_internal_interactive_def Let_def
      split: option.splits event_outcome.splits)

lemma plain_reports_below_page_size:
  "k \<le> 4 \<Longrightarrow>
   plain_reports ext event_info k cmd ((mdb_initial_state input)\<lparr>MR_scroll_limit := 5\<rparr>) =
     Some (Event_Returns None cmd
       ((mdb_initial_state input)\<lparr>MR_scroll_limit := 5, MR_scroll_next := int k,
          mdb_out := replicate k (event_report ext event_info)\<rparr>))"
proof (induction k)
  case 0
  show ?case by (simp add: mdb_initial_state_def)
next
  case (Suc k)
  let ?st = "(mdb_initial_state input)\<lparr>MR_scroll_limit := 5, MR_scroll_next := int k,
          mdb_out := replicate k (event_report ext event_info)\<rparr>"
  from Suc.prems have "\<not> scroll_pause_needed ?st (int (length ([] :: MR_Spy_Print list)))"
    by (simp add: scroll_pause_needed_def)
  from report_without_pause [OF this, of ext cmd event_info]
  have "MR_trace_event_internal_report ext cmd [] event_info ?st =
      Some (Event_Returns None cmd
       ((mdb_initial_state input)\<lparr>MR_scroll_limit := 5, MR_scroll_next := int (Suc k),
          mdb_out := replicate (Suc k) (event_report ext event_info)\<rparr>))"
    by (simp add: print_report_and_count_plain replicate_append_same)
  with Suc show ?case by simp
qed

lemma fifth_plain_report:
  "plain_reports ext event_info 5 cmd ((mdb_initial_state [])\<lparr>MR_scroll_limit := 5\<rparr>) =
     Some (Event_Returns None cmd
       ((mdb_initial_state [])\<lparr>MR_scroll_limit := 5, MR_scroll_next := 1,
          MR_trace_internal_interacting := True,
          mdb_out := [event_report ext event_info, event_report ext event_info,
            event_report ext event_info, event_report ext event_info, ''--more-- '',
            event_report ext event_info]\<rparr>))"
proof -
  let ?r = "event_report ext event_info"
  let ?st4 = "(mdb_initial_state [])\<lparr>MR_scroll_limit := 5, MR_scroll_next := int 4,
          mdb_out := replicate 4 ?r\<rparr>"
  have r: "replicate 4 ?r = [?r, ?r, ?r, ?r]"
    by (simp add: eval_nat_numeral)
  have p: "scroll_pause_needed ?st4 (int (length ([] :: MR_Spy_Print list)))"
    by (simp add: scroll_pause_needed_def mdb_initial_state_def)
  have g: "MR_trace_getline ''--more-- '' ?st4 =
      (None, ?st4\<lparr>MR_trace_internal_interacting := True,
         mdb_out := [?r, ?r, ?r, ?r, ''--more-- '']\<rparr>)"
    by (simp add: getline_result mdb_initial_state_def r)
  have "(5 :: nat) = Suc 4" by simp
  then have "plain_reports ext event_info 5 cmd ((mdb_initial_state [])\<lparr>MR_scroll_limit := 5\<rparr>) =
      MR_trace_event_internal_report ext cmd [] event_info ?st4"
    by (simp only: plain_reports.simps plain_reports_below_page_size [OF le_refl]
        event_outcome.case option.case)
  also have "\<dots> = Some (Event_Returns None cmd
       ((mdb_initial_state [])\<lparr>MR_scroll_limit := 5, MR_scroll_next := 1,
          MR_trace_internal_interacting := True,
          mdb_out := [?r, ?r, ?r, ?r, ''--more-- '', ?r]\<rparr>))"
    unfolding report_with_pause [OF p, of ext cmd event_info] more_prompt_end_of_input [OF g, of cmd]
    by (simp add: mdb_initial_state_def print_report_and_count_plain)
  finally show ?thesis .
qed

text \<open>
  C6. Before it prints the report of an event, the pager pauses exactly when scrolling
  is enabled and the count of lines shown since the last pause, with the report and the
  items of its print list added, would reach the page size (the test in the source is
  \<^verbatim>\<open>MR_scroll_next + len >= MR_scroll_limit - 1\<close>). Without a pause the report is
  printed and counted and nothing is read. With a pause a reply is read with
  \<^verbatim>\<open>MR_trace_getline\<close>: a line waiting in the queue is taken as the reply and nothing
  is written; otherwise the prompt \<^verbatim>\<open>--more--\<close> is written and a line is read from
  the input. At the end of the input or on a blank reply the count is set to zero and
  the report printed; a reply whose first character that is not a blank is \<^verbatim>\<open>a\<close>,
  \<^verbatim>\<open>n\<close> or \<^verbatim>\<open>s\<close> also sets the print level to all, none or some; on \<^verbatim>\<open>q\<close> the
  report is given up and the result is that of \<^verbatim>\<open>MR_trace_event_internal\<close> called
  with \<^verbatim>\<open>interactive\<close> true and no print list, which leaves the count at zero whenever
  it returns; any other reply is answered with \<^verbatim>\<open>unknown command, try again\<close> and the
  pager reads again. Printing adds the report, and what the browsers print for the items
  of the print list, and counts one line for the report and one for each item. With a
  page size of 5 and scrolling on, from the initial state, four events with an empty
  print list are reported without a question, whatever there is to read, and the fifth
  report is preceded by the prompt.
\<close>

theorem scroll_pager:
  "(scroll_pause_needed st (int (length print_list)) \<longleftrightarrow>
      MR_scroll_control st \<and>
      MR_scroll_next st + int (length print_list) + 1 \<ge> MR_scroll_limit st) \<and>
   (\<not> scroll_pause_needed st (int (length print_list)) \<longrightarrow>
      MR_trace_event_internal_report ext cmd print_list event_info st =
        Some (Event_Returns None cmd (print_report_and_count ext print_list event_info st))) \<and>
   (scroll_pause_needed st (int (length print_list)) \<longrightarrow>
      (\<forall>reply rest. MR_line_queue st = reply # rest \<longrightarrow>
         MR_trace_getline ''--more-- '' st = (Some reply, st\<lparr>MR_line_queue := rest\<rparr>)) \<and>
      (\<forall>reply rest. MR_line_queue st = [] \<and> mdb_in st = reply # rest \<longrightarrow>
         MR_trace_getline ''--more-- '' st =
           (Some reply,
            st\<lparr>MR_trace_internal_interacting := True, mdb_in := rest,
               mdb_out := mdb_out st @ ''--more-- '' #
                 (if MR_echo_commands st then [reply, newline] else [])\<rparr>)) \<and>
      (MR_line_queue st = [] \<and> mdb_in st = [] \<longrightarrow>
         MR_trace_getline ''--more-- '' st =
           (None,
            st\<lparr>MR_trace_internal_interacting := True,
               mdb_out := mdb_out st @ [''--more-- '']\<rparr>)) \<and>
      (\<forall>st'. MR_trace_getline ''--more-- '' st = (None, st') \<longrightarrow>
         MR_trace_event_internal_report ext cmd print_list event_info st =
           Some (Event_Returns None cmd
             (print_report_and_count ext print_list event_info (st'\<lparr>MR_scroll_next := 0\<rparr>)))) \<and>
      (\<forall>buf st'. MR_trace_getline ''--more-- '' st = (Some buf, st') \<longrightarrow>
         (first_nonblank buf = None \<longrightarrow>
            MR_trace_event_internal_report ext cmd print_list event_info st =
              Some (Event_Returns None cmd
                (print_report_and_count ext print_list event_info
                   (st'\<lparr>MR_scroll_next := 0\<rparr>)))) \<and>
         (first_nonblank buf = Some CHR ''a'' \<longrightarrow>
            MR_trace_event_internal_report ext cmd print_list event_info st =
              Some (Event_Returns None (cmd\<lparr>MR_trace_print_level := MR_PRINT_LEVEL_ALL\<rparr>)
                (print_report_and_count ext print_list event_info
                   (st'\<lparr>MR_scroll_next := 0\<rparr>)))) \<and>
         (first_nonblank buf = Some CHR ''n'' \<longrightarrow>
            MR_trace_event_internal_report ext cmd print_list event_info st =
              Some (Event_Returns None (cmd\<lparr>MR_trace_print_level := MR_PRINT_LEVEL_NONE\<rparr>)
                (print_report_and_count ext print_list event_info
                   (st'\<lparr>MR_scroll_next := 0\<rparr>)))) \<and>
         (first_nonblank buf = Some CHR ''s'' \<longrightarrow>
            MR_trace_event_internal_report ext cmd print_list event_info st =
              Some (Event_Returns None (cmd\<lparr>MR_trace_print_level := MR_PRINT_LEVEL_SOME\<rparr>)
                (print_report_and_count ext print_list event_info
                   (st'\<lparr>MR_scroll_next := 0\<rparr>)))) \<and>
         (first_nonblank buf = Some CHR ''q'' \<longrightarrow>
            MR_trace_event_internal_report ext cmd print_list event_info st =
              MR_trace_event_internal ext cmd True [] event_info st' \<and>
            (\<forall>jumpaddr cmd' st''.
               MR_trace_event_internal ext cmd True [] event_info st' =
                 Some (Event_Returns jumpaddr cmd' st'') \<longrightarrow>
               MR_scroll_next st'' = 0)) \<and>
         (\<forall>c. first_nonblank buf = Some c \<and> c \<noteq> CHR ''a'' \<and> c \<noteq> CHR ''n'' \<and>
               c \<noteq> CHR ''s'' \<and> c \<noteq> CHR ''q'' \<longrightarrow>
            MR_trace_event_internal_report ext cmd print_list event_info st =
              MR_trace_event_internal_report ext cmd print_list event_info
                (st'\<lparr>mdb_err := mdb_err st' @ [''unknown command, try again'' @ newline]\<rparr>)))) \<and>
   MR_scroll_next (print_report_and_count ext print_list event_info st) =
     MR_scroll_next st + 1 + int (length print_list) \<and>
   MR_line_queue (print_report_and_count ext print_list event_info st) = MR_line_queue st \<and>
   mdb_in (print_report_and_count ext print_list event_info st) = mdb_in st \<and>
   print_report_and_count ext [] event_info st =
     st\<lparr>mdb_out := mdb_out st @ [event_report ext event_info],
        MR_scroll_next := MR_scroll_next st + 1\<rparr> \<and>
   plain_reports ext event_info 4 cmd ((mdb_initial_state input)\<lparr>MR_scroll_limit := 5\<rparr>) =
     Some (Event_Returns None cmd
       ((mdb_initial_state input)\<lparr>MR_scroll_limit := 5, MR_scroll_next := 4,
          mdb_out := [event_report ext event_info, event_report ext event_info,
            event_report ext event_info, event_report ext event_info]\<rparr>)) \<and>
   plain_reports ext event_info 5 cmd ((mdb_initial_state [])\<lparr>MR_scroll_limit := 5\<rparr>) =
     Some (Event_Returns None cmd
       ((mdb_initial_state [])\<lparr>MR_scroll_limit := 5, MR_scroll_next := 1,
          MR_trace_internal_interacting := True,
          mdb_out := [event_report ext event_info, event_report ext event_info,
            event_report ext event_info, event_report ext event_info, ''--more-- '',
            event_report ext event_info]\<rparr>))"
proof (intro conjI)
  show "scroll_pause_needed st (int (length print_list)) \<longleftrightarrow>
      MR_scroll_control st \<and>
      MR_scroll_next st + int (length print_list) + 1 \<ge> MR_scroll_limit st"
    by (auto simp add: scroll_pause_needed_def)
next
  show "\<not> scroll_pause_needed st (int (length print_list)) \<longrightarrow>
      MR_trace_event_internal_report ext cmd print_list event_info st =
        Some (Event_Returns None cmd (print_report_and_count ext print_list event_info st))"
    by (simp add: report_without_pause)
next
  show "scroll_pause_needed st (int (length print_list)) \<longrightarrow>
      (\<forall>reply rest. MR_line_queue st = reply # rest \<longrightarrow>
         MR_trace_getline ''--more-- '' st = (Some reply, st\<lparr>MR_line_queue := rest\<rparr>)) \<and>
      (\<forall>reply rest. MR_line_queue st = [] \<and> mdb_in st = reply # rest \<longrightarrow>
         MR_trace_getline ''--more-- '' st =
           (Some reply,
            st\<lparr>MR_trace_internal_interacting := True, mdb_in := rest,
               mdb_out := mdb_out st @ ''--more-- '' #
                 (if MR_echo_commands st then [reply, newline] else [])\<rparr>)) \<and>
      (MR_line_queue st = [] \<and> mdb_in st = [] \<longrightarrow>
         MR_trace_getline ''--more-- '' st =
           (None,
            st\<lparr>MR_trace_internal_interacting := True,
               mdb_out := mdb_out st @ [''--more-- '']\<rparr>)) \<and>
      (\<forall>st'. MR_trace_getline ''--more-- '' st = (None, st') \<longrightarrow>
         MR_trace_event_internal_report ext cmd print_list event_info st =
           Some (Event_Returns None cmd
             (print_report_and_count ext print_list event_info (st'\<lparr>MR_scroll_next := 0\<rparr>)))) \<and>
      (\<forall>buf st'. MR_trace_getline ''--more-- '' st = (Some buf, st') \<longrightarrow>
         (first_nonblank buf = None \<longrightarrow>
            MR_trace_event_internal_report ext cmd print_list event_info st =
              Some (Event_Returns None cmd
                (print_report_and_count ext print_list event_info
                   (st'\<lparr>MR_scroll_next := 0\<rparr>)))) \<and>
         (first_nonblank buf = Some CHR ''a'' \<longrightarrow>
            MR_trace_event_internal_report ext cmd print_list event_info st =
              Some (Event_Returns None (cmd\<lparr>MR_trace_print_level := MR_PRINT_LEVEL_ALL\<rparr>)
                (print_report_and_count ext print_list event_info
                   (st'\<lparr>MR_scroll_next := 0\<rparr>)))) \<and>
         (first_nonblank buf = Some CHR ''n'' \<longrightarrow>
            MR_trace_event_internal_report ext cmd print_list event_info st =
              Some (Event_Returns None (cmd\<lparr>MR_trace_print_level := MR_PRINT_LEVEL_NONE\<rparr>)
                (print_report_and_count ext print_list event_info
                   (st'\<lparr>MR_scroll_next := 0\<rparr>)))) \<and>
         (first_nonblank buf = Some CHR ''s'' \<longrightarrow>
            MR_trace_event_internal_report ext cmd print_list event_info st =
              Some (Event_Returns None (cmd\<lparr>MR_trace_print_level := MR_PRINT_LEVEL_SOME\<rparr>)
                (print_report_and_count ext print_list event_info
                   (st'\<lparr>MR_scroll_next := 0\<rparr>)))) \<and>
         (first_nonblank buf = Some CHR ''q'' \<longrightarrow>
            MR_trace_event_internal_report ext cmd print_list event_info st =
              MR_trace_event_internal ext cmd True [] event_info st' \<and>
            (\<forall>jumpaddr cmd' st''.
               MR_trace_event_internal ext cmd True [] event_info st' =
                 Some (Event_Returns jumpaddr cmd' st'') \<longrightarrow>
               MR_scroll_next st'' = 0)) \<and>
         (\<forall>c. first_nonblank buf = Some c \<and> c \<noteq> CHR ''a'' \<and> c \<noteq> CHR ''n'' \<and>
               c \<noteq> CHR ''s'' \<and> c \<noteq> CHR ''q'' \<longrightarrow>
            MR_trace_event_internal_report ext cmd print_list event_info st =
              MR_trace_event_internal_report ext cmd print_list event_info
                (st'\<lparr>mdb_err := mdb_err st' @ [''unknown command, try again'' @ newline]\<rparr>)))"
  proof (intro impI conjI allI)
    fix reply rest
    assume "MR_line_queue st = reply # rest"
    then show "MR_trace_getline ''--more-- '' st = (Some reply, st\<lparr>MR_line_queue := rest\<rparr>)"
      by (simp add: getline_result)
  next
    fix reply rest
    assume "MR_line_queue st = [] \<and> mdb_in st = reply # rest"
    then show "MR_trace_getline ''--more-- '' st =
           (Some reply,
            st\<lparr>MR_trace_internal_interacting := True, mdb_in := rest,
               mdb_out := mdb_out st @ ''--more-- '' #
                 (if MR_echo_commands st then [reply, newline] else [])\<rparr>)"
      by (simp add: getline_result)
  next
    assume "MR_line_queue st = [] \<and> mdb_in st = []"
    then show "MR_trace_getline ''--more-- '' st =
           (None,
            st\<lparr>MR_trace_internal_interacting := True,
               mdb_out := mdb_out st @ [''--more-- '']\<rparr>)"
      by (simp add: getline_result)
  next
    fix st'
    assume "scroll_pause_needed st (int (length print_list))"
      and "MR_trace_getline ''--more-- '' st = (None, st')"
    then show "MR_trace_event_internal_report ext cmd print_list event_info st =
           Some (Event_Returns None cmd
             (print_report_and_count ext print_list event_info (st'\<lparr>MR_scroll_next := 0\<rparr>)))"
      by (simp add: report_with_pause more_prompt_end_of_input)
  next
    fix buf st'
    assume p: "scroll_pause_needed st (int (length print_list))"
      and g: "MR_trace_getline ''--more-- '' st = (Some buf, st')"
    note r = report_with_pause [OF p] more_prompt_reply [OF g]
    {
      assume "first_nonblank buf = None"
      then show "MR_trace_event_internal_report ext cmd print_list event_info st =
              Some (Event_Returns None cmd
                (print_report_and_count ext print_list event_info
                   (st'\<lparr>MR_scroll_next := 0\<rparr>)))"
        by (simp add: r)
    next
      assume "first_nonblank buf = Some CHR ''a''"
      then show "MR_trace_event_internal_report ext cmd print_list event_info st =
              Some (Event_Returns None (cmd\<lparr>MR_trace_print_level := MR_PRINT_LEVEL_ALL\<rparr>)
                (print_report_and_count ext print_list event_info
                   (st'\<lparr>MR_scroll_next := 0\<rparr>)))"
        by (simp add: r)
    next
      assume "first_nonblank buf = Some CHR ''n''"
      then show "MR_trace_event_internal_report ext cmd print_list event_info st =
              Some (Event_Returns None (cmd\<lparr>MR_trace_print_level := MR_PRINT_LEVEL_NONE\<rparr>)
                (print_report_and_count ext print_list event_info
                   (st'\<lparr>MR_scroll_next := 0\<rparr>)))"
        by (simp add: r)
    next
      assume "first_nonblank buf = Some CHR ''s''"
      then show "MR_trace_event_internal_report ext cmd print_list event_info st =
              Some (Event_Returns None (cmd\<lparr>MR_trace_print_level := MR_PRINT_LEVEL_SOME\<rparr>)
                (print_report_and_count ext print_list event_info
                   (st'\<lparr>MR_scroll_next := 0\<rparr>)))"
        by (simp add: r)
    next
      assume "first_nonblank buf = Some CHR ''q''"
      then show "MR_trace_event_internal_report ext cmd print_list event_info st =
              MR_trace_event_internal ext cmd True [] event_info st'"
        by (simp add: r)
    next
      fix jumpaddr cmd' st''
      assume "MR_trace_event_internal ext cmd True [] event_info st' =
          Some (Event_Returns jumpaddr cmd' st'')"
      then show "MR_scroll_next st'' = 0"
        by (rule event_internal_resets_counter)
    next
      fix c
      assume "first_nonblank buf = Some c \<and> c \<noteq> CHR ''a'' \<and> c \<noteq> CHR ''n'' \<and>
               c \<noteq> CHR ''s'' \<and> c \<noteq> CHR ''q''"
      then show "MR_trace_event_internal_report ext cmd print_list event_info st =
              MR_trace_event_internal_report ext cmd print_list event_info
                (st'\<lparr>mdb_err := mdb_err st' @ [''unknown command, try again'' @ newline]\<rparr>)"
        using report_rejected_reply [OF p g] by blast
    }
  qed
next
  show "MR_scroll_next (print_report_and_count ext print_list event_info st) =
     MR_scroll_next st + 1 + int (length print_list)"
    by (rule print_report_and_count_facts)
next
  show "MR_line_queue (print_report_and_count ext print_list event_info st) = MR_line_queue st"
    by (rule print_report_and_count_facts)
next
  show "mdb_in (print_report_and_count ext print_list event_info st) = mdb_in st"
    by (rule print_report_and_count_facts)
next
  show "print_report_and_count ext [] event_info st =
     st\<lparr>mdb_out := mdb_out st @ [event_report ext event_info],
        MR_scroll_next := MR_scroll_next st + 1\<rparr>"
    by (rule print_report_and_count_plain)
next
  from plain_reports_below_page_size [of 4 ext event_info cmd input]
  show "plain_reports ext event_info 4 cmd ((mdb_initial_state input)\<lparr>MR_scroll_limit := 5\<rparr>) =
     Some (Event_Returns None cmd
       ((mdb_initial_state input)\<lparr>MR_scroll_limit := 5, MR_scroll_next := 4,
          mdb_out := [event_report ext event_info, event_report ext event_info,
            event_report ext event_info, event_report ext event_info]\<rparr>))"
    by (simp add: eval_nat_numeral)
next
  show "plain_reports ext event_info 5 cmd ((mdb_initial_state [])\<lparr>MR_scroll_limit := 5\<rparr>) =
     Some (Event_Returns None cmd
       ((mdb_initial_state [])\<lparr>MR_scroll_limit := 5, MR_scroll_next := 1,
          MR_trace_internal_interacting := True,
          mdb_out := [event_report ext event_info, event_report ext event_info,
            event_report ext event_info, event_report ext event_info, ''--more-- '',
            event_report ext event_info]\<rparr>))"
    by (rule fifth_plain_report)
qed

text \<open>
  The witness. Handlers for the examples: \<^verbatim>\<open>step\<close> and \<^verbatim>\<open>quit\<close> as the file has
  them, on words without options, and every other command doing nothing. The browsers
  print a line each, except that no variable has the name asked for; the report of
  every event is \<^verbatim>\<open>E\<close>; nothing is left to initialise and no condition has failed.
  The reports: a first one in the initial state; then with four lines shown on a page of
  five, at the end of the input, with the reply \<^verbatim>\<open>a\<close>, with the reply \<^verbatim>\<open>n\<close>
  waiting in the queue, with the reply \<^verbatim>\<open>q\<close> followed by the command \<^verbatim>\<open>step\<close>,
  and with the reply \<^verbatim>\<open>x\<close>.
\<close>

definition example_handlers ::
  "string \<Rightarrow> string list \<Rightarrow> MR_Trace_Cmd_Info \<Rightarrow> MR_Event_Info \<Rightarrow> nat option \<Rightarrow> mdb_state
     \<Rightarrow> handler_outcome" where
  "example_handlers function words cmd event_info jumpaddr st =
     (if function = ''MR_trace_cmd_step'' then
        (case MR_trace_cmd_step getopt_no_options words cmd st of
           (res, cmd, st) \<Rightarrow> Handler_Returns res jumpaddr cmd st)
      else if function = ''MR_trace_cmd_quit'' then
        (case MR_trace_cmd_quit getopt_no_options words st of
           Process_Exits st \<Rightarrow> Handler_Exits st
         | Quit_Returns res st \<Rightarrow> Handler_Returns res jumpaddr cmd st)
      else Handler_Returns KEEP_INTERACTING jumpaddr cmd st)"

definition example_externals :: mdb_externals where
  "example_externals =
     \<lparr>MR_trace_browse_all = (\<lambda>format out. (None, out @ [''X = 1''])),
      MR_trace_browse_one_goal = (\<lambda>format out. (None, out @ [''p(1)''])),
      MR_trace_parse_browse_one =
        (\<lambda>name format out. (Some ''there is no such variable'', out)),
      event_report = (\<lambda>event_info. ''E''),
      MR_trace_internal_ensure_init = (\<lambda>st. st),
      MR_spy_point_cond_problem = None,
      command_handlers = example_handlers\<rparr>"

definition full_page :: "string list \<Rightarrow> mdb_state" where
  "full_page input = (mdb_initial_state input)\<lparr>MR_scroll_limit := 5, MR_scroll_next := 4\<rparr>"

lemma get_command_loop_step: "get_command_loop [] ''step'' False False st = (''step'', st)"
  by (subst get_command_loop.simps)
    (simp add: MR_trace_continue_line_def ESCAPE_CHAR_def SINGLE_QUOTE_CHAR_def
      DOUBLE_QUOTE_CHAR_def)

lemma example_interaction:
  "MR_trace_event_internal example_externals example_cmd True [] (example_event MR_PORT_CALL 0)
     ((full_page [''step''])\<lparr>MR_trace_internal_interacting := True, mdb_out := [''--more-- '']\<rparr>) =
   Some (Event_Returns None
     (example_cmd\<lparr>MR_trace_strict := False, MR_trace_print_level := MR_PRINT_LEVEL_SOME,
        MR_trace_cmd := MR_CMD_GOTO, MR_trace_stop_event := 1, MR_trace_must_check := True\<rparr>)
     ((full_page [])\<lparr>MR_trace_internal_interacting := True,
        mdb_out := [''--more-- '', ''E'', ''mdb> ''], MR_scroll_next := 0,
        MR_current_cmd_category := Some ''forward'', MR_current_cmd_name := Some ''step''\<rparr>))"
proof -
  let ?st1 = "(full_page [''step''])\<lparr>MR_trace_internal_interacting := True,
      mdb_out := [''--more-- '', ''E'']\<rparr>"
  let ?st2 = "(full_page [])\<lparr>MR_trace_internal_interacting := True,
      mdb_out := [''--more-- '', ''E'', ''mdb> '']\<rparr>"
  let ?st3 = "?st2\<lparr>MR_current_cmd_category := Some ''forward'',
      MR_current_cmd_name := Some ''step''\<rparr>"
  let ?cmd = "example_cmd\<lparr>MR_trace_strict := False, MR_trace_print_level := MR_PRINT_LEVEL_SOME,
        MR_trace_cmd := MR_CMD_GOTO, MR_trace_stop_event := 1\<rparr>"
  have g: "MR_trace_get_command ''mdb> '' ?st1 = (''step'', ?st2)"
    by (simp add: MR_trace_get_command_def getline_result get_command_loop_step full_page_def
        mdb_initial_state_def)
  have d: "MR_trace_debug_cmd ''step'' ?st2 = Handler_Called ''MR_trace_cmd_step'' [''step''] ?st3"
    by (simp add: MR_trace_debug_cmd_def parse_line_step valid_command_step expand_no_aliases
        full_page_def mdb_initial_state_def)
  have h: "MR_trace_cmd_step getopt_no_options [''step''] example_cmd ?st3 =
      (STOP_INTERACTING, ?cmd, ?st3)"
    by (simp add: MR_trace_cmd_step_def options_movement_cmd_no_options full_page_def
        mdb_initial_state_def)
  have l: "interaction_loop example_externals (example_event MR_PORT_CALL 0) None example_cmd ?st1 =
      Some (Event_Returns None ?cmd ?st3)"
    by (subst interaction_loop.simps)
      (simp add: g d h example_externals_def example_handlers_def)
  have v: "MR_trace_var_print_list example_externals [] s = (0, s)" for s
    by (simp add: MR_trace_var_print_list_def)
  have p: "((full_page [''step''])\<lparr>MR_trace_internal_interacting := True,
      mdb_out := [''--more-- '']\<rparr>)\<lparr>mdb_out := [''--more-- '', ''E'']\<rparr> = ?st1"
    by simp
  have e: "event_report example_externals = (\<lambda>event_info. ''E'')"
    "MR_trace_internal_ensure_init example_externals = (\<lambda>st. st)"
    "MR_spy_point_cond_problem example_externals = None"
    by (simp_all add: example_externals_def)
  have i: "event_internal_interactive example_externals example_cmd []
      (example_event MR_PORT_CALL 0)
      ((full_page [''step''])\<lparr>MR_trace_internal_interacting := True,
         mdb_out := [''--more-- '']\<rparr>) =
    Some (Event_Returns None (?cmd\<lparr>MR_trace_must_check := True\<rparr>)
      (?st3\<lparr>MR_scroll_next := 0\<rparr>))"
    by (simp add: event_internal_interactive_def e v fprintf_def l)
  show ?thesis
    by (simp add: MR_trace_event_internal_def i)
qed

theorem scroll_pager_witness:
  "MR_trace_event_internal_report example_externals example_cmd []
       (example_event MR_PORT_CALL 0) (mdb_initial_state []) =
     Some (Event_Returns None example_cmd
       ((mdb_initial_state [])\<lparr>mdb_out := [''E''], MR_scroll_next := 1\<rparr>)) \<and>
   MR_trace_event_internal_report example_externals example_cmd []
       (example_event MR_PORT_CALL 0) (full_page []) =
     Some (Event_Returns None example_cmd
       ((full_page [])\<lparr>MR_trace_internal_interacting := True,
          mdb_out := [''--more-- '', ''E''], MR_scroll_next := 1\<rparr>)) \<and>
   MR_trace_event_internal_report example_externals example_cmd []
       (example_event MR_PORT_CALL 0) (full_page ['' a'']) =
     Some (Event_Returns None (example_cmd\<lparr>MR_trace_print_level := MR_PRINT_LEVEL_ALL\<rparr>)
       ((full_page [])\<lparr>MR_trace_internal_interacting := True,
          mdb_out := [''--more-- '', ''E''], MR_scroll_next := 1\<rparr>)) \<and>
   MR_trace_event_internal_report example_externals example_cmd []
       (example_event MR_PORT_CALL 0) ((full_page [''step''])\<lparr>MR_line_queue := [''n'']\<rparr>) =
     Some (Event_Returns None (example_cmd\<lparr>MR_trace_print_level := MR_PRINT_LEVEL_NONE\<rparr>)
       ((full_page [''step''])\<lparr>mdb_out := [''E''], MR_scroll_next := 1\<rparr>)) \<and>
   MR_trace_event_internal_report example_externals example_cmd []
       (example_event MR_PORT_CALL 0) (full_page [''q'', ''step'']) =
     Some (Event_Returns None
       (example_cmd\<lparr>MR_trace_strict := False, MR_trace_print_level := MR_PRINT_LEVEL_SOME,
          MR_trace_cmd := MR_CMD_GOTO, MR_trace_stop_event := 1, MR_trace_must_check := True\<rparr>)
       ((full_page [])\<lparr>MR_trace_internal_interacting := True,
          mdb_out := [''--more-- '', ''E'', ''mdb> ''], MR_scroll_next := 0,
          MR_current_cmd_category := Some ''forward'', MR_current_cmd_name := Some ''step''\<rparr>)) \<and>
   MR_trace_event_internal_report example_externals example_cmd []
       (example_event MR_PORT_CALL 0) (full_page [''x'']) =
     MR_trace_event_internal_report example_externals example_cmd []
       (example_event MR_PORT_CALL 0)
       ((full_page [])\<lparr>MR_trace_internal_interacting := True, mdb_out := [''--more-- ''],
          mdb_err := [''unknown command, try again'' @ newline]\<rparr>)"
proof -
  let ?n = "int (length ([] :: MR_Spy_Print list))"
  let ?ev = "example_event MR_PORT_CALL 0"
  let ?after = "\<lambda>input. (full_page input)\<lparr>MR_trace_internal_interacting := True,
    mdb_out := [''--more-- '']\<rparr>"
  have n: "\<not> scroll_pause_needed (mdb_initial_state []) ?n"
    by (simp add: scroll_pause_needed_def mdb_initial_state_def)
  have p: "\<And>input. scroll_pause_needed (full_page input) ?n"
    by (simp add: scroll_pause_needed_def full_page_def mdb_initial_state_def)
  have pq: "scroll_pause_needed ((full_page [''step''])\<lparr>MR_line_queue := [''n'']\<rparr>) ?n"
    by (simp add: scroll_pause_needed_def full_page_def mdb_initial_state_def)
  have g0: "MR_trace_getline ''--more-- '' (full_page []) = (None, ?after [])"
    by (simp add: getline_result full_page_def mdb_initial_state_def)
  have g: "\<And>buf rest. MR_trace_getline ''--more-- '' (full_page (buf # rest)) =
      (Some buf, ?after rest)"
    by (simp add: getline_result full_page_def mdb_initial_state_def)
  have gq: "MR_trace_getline ''--more-- '' ((full_page [''step''])\<lparr>MR_line_queue := [''n'']\<rparr>) =
      (Some ''n'', (full_page [''step''])\<lparr>MR_line_queue := []\<rparr>)"
    by (simp add: getline_result)
  have f: "first_nonblank '' a'' = Some CHR ''a''" "first_nonblank ''q'' = Some CHR ''q''"
    "first_nonblank ''x'' = Some CHR ''x''" "first_nonblank ''n'' = Some CHR ''n''"
    by (simp_all add: first_nonblank_def MR_isspace_def)
  have e: "event_report example_externals ?ev = ''E''"
    by (simp add: example_externals_def)
  note plain = scroll_pager [where ext = example_externals and event_info = ?ev,
    THEN conjunct2, THEN conjunct2, THEN conjunct2, THEN conjunct2, THEN conjunct2,
    THEN conjunct2, THEN conjunct1]
  note B = scroll_pager [where st = "mdb_initial_state []" and print_list = "[]"
    and ext = example_externals and event_info = ?ev and cmd = example_cmd,
    THEN conjunct2, THEN conjunct1, THEN mp, OF n]
  then have 1: "MR_trace_event_internal_report example_externals example_cmd [] ?ev
       (mdb_initial_state []) =
     Some (Event_Returns None example_cmd
       ((mdb_initial_state [])\<lparr>mdb_out := [''E''], MR_scroll_next := 1\<rparr>))"
    by (simp add: plain e mdb_initial_state_def)
  note C0 = scroll_pager [where st = "full_page []" and print_list = "[]"
    and ext = example_externals and event_info = ?ev and cmd = example_cmd,
    THEN conjunct2, THEN conjunct2, THEN conjunct1, THEN mp, OF p,
    THEN conjunct2, THEN conjunct2, THEN conjunct2, THEN conjunct1, THEN spec, THEN mp, OF g0]
  then have 2: "MR_trace_event_internal_report example_externals example_cmd [] ?ev (full_page []) =
     Some (Event_Returns None example_cmd
       ((full_page [])\<lparr>MR_trace_internal_interacting := True,
          mdb_out := [''--more-- '', ''E''], MR_scroll_next := 1\<rparr>))"
    by (simp add: plain e)
  note Ca = scroll_pager [where st = "full_page ['' a'']" and print_list = "[]"
    and ext = example_externals and event_info = ?ev and cmd = example_cmd,
    THEN conjunct2, THEN conjunct2, THEN conjunct1, THEN mp, OF p,
    THEN conjunct2, THEN conjunct2, THEN conjunct2, THEN conjunct2, THEN spec, THEN spec,
    THEN mp, OF g, THEN conjunct2, THEN conjunct1, THEN mp, OF f(1)]
  then have 3: "MR_trace_event_internal_report example_externals example_cmd [] ?ev
       (full_page ['' a'']) =
     Some (Event_Returns None (example_cmd\<lparr>MR_trace_print_level := MR_PRINT_LEVEL_ALL\<rparr>)
       ((full_page [])\<lparr>MR_trace_internal_interacting := True,
          mdb_out := [''--more-- '', ''E''], MR_scroll_next := 1\<rparr>))"
    by (simp add: plain e)
  note Cn = scroll_pager [where st = "(full_page [''step''])\<lparr>MR_line_queue := [''n'']\<rparr>"
    and print_list = "[]" and ext = example_externals and event_info = ?ev and cmd = example_cmd,
    THEN conjunct2, THEN conjunct2, THEN conjunct1, THEN mp, OF pq,
    THEN conjunct2, THEN conjunct2, THEN conjunct2, THEN conjunct2, THEN spec, THEN spec,
    THEN mp, OF gq, THEN conjunct2, THEN conjunct2, THEN conjunct1, THEN mp, OF f(4)]
  then have 4: "MR_trace_event_internal_report example_externals example_cmd [] ?ev
       ((full_page [''step''])\<lparr>MR_line_queue := [''n'']\<rparr>) =
     Some (Event_Returns None (example_cmd\<lparr>MR_trace_print_level := MR_PRINT_LEVEL_NONE\<rparr>)
       ((full_page [''step''])\<lparr>mdb_out := [''E''], MR_scroll_next := 1\<rparr>))"
    by (simp add: plain e full_page_def mdb_initial_state_def)
  note Cq = scroll_pager [where st = "full_page [''q'', ''step'']" and print_list = "[]"
    and ext = example_externals and event_info = ?ev and cmd = example_cmd,
    THEN conjunct2, THEN conjunct2, THEN conjunct1, THEN mp, OF p,
    THEN conjunct2, THEN conjunct2, THEN conjunct2, THEN conjunct2, THEN spec, THEN spec,
    THEN mp, OF g, THEN conjunct2, THEN conjunct2, THEN conjunct2, THEN conjunct2,
    THEN conjunct1, THEN mp, OF f(2), THEN conjunct1]
  then have 5: "MR_trace_event_internal_report example_externals example_cmd [] ?ev
       (full_page [''q'', ''step'']) =
     Some (Event_Returns None
       (example_cmd\<lparr>MR_trace_strict := False, MR_trace_print_level := MR_PRINT_LEVEL_SOME,
          MR_trace_cmd := MR_CMD_GOTO, MR_trace_stop_event := 1, MR_trace_must_check := True\<rparr>)
       ((full_page [])\<lparr>MR_trace_internal_interacting := True,
          mdb_out := [''--more-- '', ''E'', ''mdb> ''], MR_scroll_next := 0,
          MR_current_cmd_category := Some ''forward'', MR_current_cmd_name := Some ''step''\<rparr>))"
    by (simp only: example_interaction)
  have c: "first_nonblank ''x'' = Some CHR ''x'' \<and> CHR ''x'' \<noteq> CHR ''a'' \<and>
    CHR ''x'' \<noteq> CHR ''n'' \<and> CHR ''x'' \<noteq> CHR ''s'' \<and> CHR ''x'' \<noteq> CHR ''q''"
    using f(3) by simp
  note Cx = scroll_pager [where st = "full_page [''x'']" and print_list = "[]"
    and ext = example_externals and event_info = ?ev and cmd = example_cmd,
    THEN conjunct2, THEN conjunct2, THEN conjunct1, THEN mp, OF p,
    THEN conjunct2, THEN conjunct2, THEN conjunct2, THEN conjunct2, THEN spec, THEN spec,
    THEN mp, OF g, THEN conjunct2, THEN conjunct2, THEN conjunct2, THEN conjunct2,
    THEN conjunct2, THEN spec, THEN mp, OF c]
  then have 6: "MR_trace_event_internal_report example_externals example_cmd [] ?ev
       (full_page [''x'']) =
     MR_trace_event_internal_report example_externals example_cmd [] ?ev
       ((full_page [])\<lparr>MR_trace_internal_interacting := True, mdb_out := [''--more-- ''],
          mdb_err := [''unknown command, try again'' @ newline]\<rparr>)"
    by (simp add: full_page_def mdb_initial_state_def)
  from 1 2 3 4 5 6 show ?thesis by (intro conjI)
qed

text \<open>
  As stated, with the prompt \<^verbatim>\<open>--more--\<close> issued whenever the count would reach the
  page size, C6 fails when a line is waiting in the queue: with four lines shown on a
  page of five and the command \<^verbatim>\<open>step\<close> pending, the pause is due, but nothing is
  written before the report; the pending command is taken for the reply, sets the print
  level to some, and is gone from the queue.
\<close>

theorem scroll_pager_counterexample:
  "scroll_pause_needed ((full_page [])\<lparr>MR_line_queue := ['' step'']\<rparr>)
     (int (length ([] :: MR_Spy_Print list))) \<and>
   MR_trace_event_internal_report example_externals example_cmd []
       (example_event MR_PORT_CALL 0) ((full_page [])\<lparr>MR_line_queue := ['' step'']\<rparr>) =
     Some (Event_Returns None (example_cmd\<lparr>MR_trace_print_level := MR_PRINT_LEVEL_SOME\<rparr>)
       ((full_page [])\<lparr>mdb_out := [''E''], MR_scroll_next := 1\<rparr>))"
proof -
  let ?st = "(full_page [])\<lparr>MR_line_queue := ['' step'']\<rparr>"
  have p: "scroll_pause_needed ?st (int (length ([] :: MR_Spy_Print list)))"
    by (simp add: scroll_pause_needed_def full_page_def mdb_initial_state_def)
  have g: "MR_trace_getline ''--more-- '' ?st = (Some '' step'', (full_page [])\<lparr>MR_line_queue := []\<rparr>)"
    by (simp add: getline_result)
  have f: "first_nonblank '' step'' = Some CHR ''s''"
    by (simp add: first_nonblank_def MR_isspace_def)
  have m: "more_prompt example_cmd ?st =
      (False, example_cmd\<lparr>MR_trace_print_level := MR_PRINT_LEVEL_SOME\<rparr>,
       (full_page [])\<lparr>MR_line_queue := []\<rparr>)"
    by (simp add: more_prompt_reply [OF g] f)
  have "MR_trace_event_internal_report example_externals example_cmd []
       (example_event MR_PORT_CALL 0) ?st =
     Some (Event_Returns None (example_cmd\<lparr>MR_trace_print_level := MR_PRINT_LEVEL_SOME\<rparr>)
       ((full_page [])\<lparr>mdb_out := [''E''], MR_scroll_next := 1\<rparr>))"
    unfolding report_with_pause [OF p] m
    by (simp add: print_report_and_count_plain example_externals_def full_page_def
        mdb_initial_state_def)
  with p show ?thesis by (intro conjI)
qed

end
